theory Spec2Isabelle
  imports Main
begin

section \<open>JavaScript strings and numbers\<close>

text \<open>
  The scripts are JavaScript (ES modules run by Node). A JavaScript string is modelled as
  a HOL \<open>string\<close>, the list of its characters (for text outside ASCII, of the bytes
  of its UTF-8 form: the scripts only compare strings and search them for ASCII
  patterns, which gives the same answers on either form). The methods used by the
  scripts are written out below. The only numbers that are rendered into messages are
  array lengths and a counter, that is non-negative integers, whose template-literal
  rendering is their decimal numeral.
\<close>

definition startsWith :: "string \<Rightarrow> string \<Rightarrow> bool" where
  "startsWith s p = (take (length p) s = p)"

definition endsWith :: "string \<Rightarrow> string \<Rightarrow> bool" where
  "endsWith s p = (length p \<le> length s \<and> drop (length s - length p) s = p)"

fun includes_str :: "string \<Rightarrow> string \<Rightarrow> bool" where
  "includes_str [] p = (p = [])"
| "includes_str (c # s) p = (startsWith (c # s) p \<or> includes_str s p)"

definition digit_char :: "nat \<Rightarrow> char" where
  "digit_char d = ''0123456789'' ! d"

fun number_toString :: "nat \<Rightarrow> string" where
  "number_toString n =
     (if n < 10 then [digit_char n]
      else number_toString (n div 10) @ [digit_char (n mod 10)])"

declare number_toString.simps [simp del]

text \<open>The decimal rendering determines the number.\<close>

lemma digit_char_inj: "a < 10 \<Longrightarrow> b < 10 \<Longrightarrow> digit_char a = digit_char b \<Longrightarrow> a = b"
  unfolding digit_char_def
  by (rule iffD1 [OF nth_eq_iff_index_eq]) auto 

lemma number_toString_nonempty: "number_toString n \<noteq> []"
  by (subst number_toString.simps) simp

lemma number_toString_inj: "number_toString a = number_toString b \<Longrightarrow> a = b"
proof (induction a arbitrary: b rule: number_toString.induct)
  case (1 a)
  show ?case
  proof (cases "a < 10")
    case True
    then have la: "number_toString a = [digit_char a]"
      by (subst number_toString.simps) simp
    show ?thesis
    proof (cases "b < 10")
      case b: True
      then have "number_toString b = [digit_char b]"
        by (subst number_toString.simps) simp
      with la "1.prems" True b show ?thesis
        by (auto dest: digit_char_inj)
    next
      case b: False
      then have "number_toString b = number_toString (b div 10) @ [digit_char (b mod 10)]"
        by (subst number_toString.simps) simp
      with la "1.prems" show ?thesis
        using number_toString_nonempty [of "b div 10"] by auto
    qed
  next
    case False
    then have la: "number_toString a = number_toString (a div 10) @ [digit_char (a mod 10)]"
      by (subst number_toString.simps) simp
    show ?thesis
    proof (cases "b < 10")
      case b: True
      then have "number_toString b = [digit_char b]"
        by (subst number_toString.simps) simp
      with la "1.prems" show ?thesis
        using number_toString_nonempty [of "a div 10"] by auto
    next
      case b: False
      then have "number_toString b = number_toString (b div 10) @ [digit_char (b mod 10)]"
        by (subst number_toString.simps) simp
      with la "1.prems" have q: "number_toString (a div 10) = number_toString (b div 10)"
        and d: "digit_char (a mod 10) = digit_char (b mod 10)"
        by simp_all
      from "1.IH" [OF False q] have "a div 10 = b div 10" .
      moreover from d have "a mod 10 = b mod 10"
        by (rule digit_char_inj [rotated 2]) simp_all
      ultimately show ?thesis
        by (metis div_mult_mod_eq)
    qed
  qed
qed

text \<open>\<open>lines.join('\n')\<close> and \<open>s.split(sep)\<close> for a one-character separator.\<close>

fun join :: "string \<Rightarrow> string list \<Rightarrow> string" where
  "join sep [] = []"
| "join sep [x] = x"
| "join sep (x # y # ys) = x @ sep @ join sep (y # ys)"

fun split :: "char \<Rightarrow> string \<Rightarrow> string list" where
  "split sep [] = [[]]"
| "split sep (c # s) =
     (if c = sep then [] # split sep s
      else (case split sep s of
              [] \<Rightarrow> [[c]]
            | p # ps \<Rightarrow> (c # p) # ps))"

section \<open>The syntax tree\<close>

text \<open>
  The scripts parse TypeScript with the \<open>typescript\<close> package and inspect the tree
  with its node tests and \<open>ts.forEachChild\<close>. The parser is an external library; the
  model starts from the tree. \<open>node\<close> has one constructor for every node kind that a
  script tests for, and \<open>OtherNode\<close> (with its children, in source order) for every
  other kind.

  \<^item> \<open>CallExpression e ts args\<close>: \<open>node.expression\<close>, \<open>node.typeArguments\<close> and
    \<open>node.arguments\<close>;
  \<^item> \<open>ObjectLiteralExpression ps\<close>: \<open>obj.properties\<close>; a property that is not a
    \<open>PropertyAssignment\<close> (shorthand, spread, method, accessor) is an \<open>OtherNode\<close>;
  \<^item> \<open>PropertyAssignment n i\<close>: \<open>p.name\<close> and \<open>p.initializer\<close>;
  \<^item> \<open>VariableStatement ex ds\<close>: \<open>ex\<close> is whether \<open>node.modifiers\<close> has the
    \<open>export\<close> keyword; \<open>ds\<close> is \<open>node.declarationList.declarations\<close>, each
    declaration given by its \<open>name\<close>, its optional \<open>type\<close> and its optional
    \<open>initializer\<close>;
  \<^item> \<open>ImportDeclaration cs m as\<close>: the nodes of the import clause,
    \<open>node.moduleSpecifier\<close> and the nodes of the import attributes;
  \<^item> \<open>SourceFile ss\<close>: the statements of the file.

  Keyword and punctuation tokens (the \<open>export\<close> modifier, \<open>?.\<close>, the end-of-file
  token) are children too; they have no children and no script tests for them, so
  they are left out.
\<close>

datatype node =
    Identifier string
  | StringLiteral string
  | ImportKeyword
  | CallExpression node "node list" "node list"
  | ArrayLiteralExpression "node list"
  | ObjectLiteralExpression "node list"
  | PropertyAssignment node node
  | VariableStatement bool "(node \<times> node option \<times> node option) list"
  | ImportDeclaration "node list" node "node list"
  | SourceFile "node list"
  | OtherNode "node list"

fun optional :: "node option \<Rightarrow> node list" where
  "optional None = []"
| "optional (Some n) = [n]"

fun declaration_children :: "node \<times> node option \<times> node option \<Rightarrow> node list" where
  "declaration_children (n, ty, i) = n # optional ty @ optional i"

text \<open>The children that \<open>ts.forEachChild\<close> calls back on, in order.\<close>

fun children :: "node \<Rightarrow> node list" where
  "children (Identifier t) = []"
| "children (StringLiteral t) = []"
| "children ImportKeyword = []"
| "children (CallExpression e ts args) = e # ts @ args"
| "children (ArrayLiteralExpression es) = es"
| "children (ObjectLiteralExpression ps) = ps"
| "children (PropertyAssignment n i) = [n, i]"
| "children (VariableStatement ex ds) = concat (map declaration_children ds)"
| "children (ImportDeclaration cs m as) = cs @ m # as"
| "children (SourceFile ss) = ss"
| "children (OtherNode cs) = cs"

lemma size_list_member: "x \<in> set xs \<Longrightarrow> f x < Suc (size_list f xs)"
  by (induction xs) auto

lemma size_declaration_children:
  "c \<in> set (declaration_children d) \<Longrightarrow>
   size c < Suc (size_prod size (size_prod (size_option size) (size_option size)) d)"
proof -
  obtain n ty i where d: "d = (n, ty, i)"
    by (cases d) auto
  assume "c \<in> set (declaration_children d)"
  with d show ?thesis
    by (cases ty; cases i) auto
qed

lemma size_declarations:
  "c \<in> set (concat (map declaration_children ds)) \<Longrightarrow>
   size c < Suc (size_list (size_prod size (size_prod (size_option size) (size_option size))) ds)"
proof (induction ds)
  case Nil
  then show ?case by simp
next
  case (Cons d ds)
  from Cons.prems consider
    (here) "c \<in> set (declaration_children d)"
    | (later) "c \<in> set (concat (map declaration_children ds))"
    by auto
  then show ?case
  proof cases
    case here
    then show ?thesis
      using size_declaration_children [of c d] by simp
  next
    case later
    then show ?thesis
      using Cons.IH by simp
  qed
qed

lemma size_children [termination_simp]: "c \<in> set (children n) \<Longrightarrow> size c < size n"
proof (cases n)
  case (VariableStatement ex ds)
  assume "c \<in> set (children n)"
  then show ?thesis
    using VariableStatement size_declarations [of c ds] by simp
next
  case (CallExpression e ts args)
  assume "c \<in> set (children n)"
  then show ?thesis
    using CallExpression size_list_member [of c args size] size_list_member [of c ts size]
    by auto
next
  case (ImportDeclaration cs m as)
  assume "c \<in> set (children n)"
  then show ?thesis
    using ImportDeclaration size_list_member [of c cs size] size_list_member [of c as size]
    by auto
qed (use size_list_member [of c _ size] in auto)

text \<open>Every node of a subtree, the root first (the order of a depth-first walk).\<close>

fun descendants :: "node \<Rightarrow> node list" where
  "descendants n = n # concat (map descendants (children n))"

declare descendants.simps [simp del]

section \<open>Helpers shared by the route checkers\<close>

text \<open>
  \<open>getPropName\<close>, \<open>objectHasProp\<close>, \<open>getPropInitializer\<close> and
  \<open>getStringValue\<close> are defined identically in \<open>verify-app-routes.mjs\<close> and
  \<open>verify-feature-routes.mjs\<close> (where the last one is called \<open>getStringLiteral\<close>).
  The object functions are only ever called on an object literal; they take its
  \<open>properties\<close>.
\<close>

fun getPropName :: "node \<Rightarrow> string option" where
  "getPropName (Identifier t) = Some t"
| "getPropName (StringLiteral t) = Some t"
| "getPropName _ = None"

text \<open>The test \<open>ts.isPropertyAssignment(p) && getPropName(p.name) === propName\<close>.\<close>

fun isPropertyNamed :: "string \<Rightarrow> node \<Rightarrow> bool" where
  "isPropertyNamed propName (PropertyAssignment n i) = (getPropName n = Some propName)"
| "isPropertyNamed propName _ = False"

definition objectHasProp :: "node list \<Rightarrow> string \<Rightarrow> bool" where
  "objectHasProp properties propName = list_ex (isPropertyNamed propName) properties"

fun getPropInitializer :: "node list \<Rightarrow> string \<Rightarrow> node option" where
  "getPropInitializer [] propName = None"
| "getPropInitializer (PropertyAssignment n i # ps) propName =
     (if getPropName n = Some propName then Some i else getPropInitializer ps propName)"
| "getPropInitializer (p # ps) propName = getPropInitializer ps propName"

fun getStringValue :: "node \<Rightarrow> string option" where
  "getStringValue (StringLiteral t) = Some t"
| "getStringValue _ = None"

fun isObjectLiteralExpression :: "node \<Rightarrow> bool" where
  "isObjectLiteralExpression (ObjectLiteralExpression ps) = True"
| "isObjectLiteralExpression _ = False"

text \<open>
  The three loader tests (\<open>loadChildrenLooksLikeFeaturesImport\<close>,
  \<open>loadComponentLooksLikeNotFound\<close>, \<open>loadComponentImportsPage\<close>) are the same
  walk with a different test on the string: a flag \<open>ok\<close>, closed over by a recursive
  \<open>visit\<close> that returns at once when the flag is set, sets it at a call
  \<open>import('...')\<close> whose first argument is a string literal that passes the test, and
  then visits the children. \<open>importArgument\<close> is the text of that first argument;
  \<open>visit_import\<close> is \<open>visit\<close>, with the flag passed in and returned.
\<close>

fun importArgument :: "node \<Rightarrow> string option" where
  "importArgument (CallExpression ImportKeyword ts (StringLiteral t # args)) = Some t"
| "importArgument _ = None"

fun visit_import :: "(string \<Rightarrow> bool) \<Rightarrow> node \<Rightarrow> bool \<Rightarrow> bool" where
  "visit_import test n ok =
     (if ok then ok
      else fold (visit_import test) (children n)
             (case importArgument n of
                Some t \<Rightarrow> (if test t then True else ok)
              | None \<Rightarrow> ok))"

declare visit_import.simps [simp del]

definition loadChildrenLooksLikeFeaturesImport :: "node \<Rightarrow> bool" where
  "loadChildrenLooksLikeFeaturesImport init =
     visit_import (\<lambda>t. startsWith t ''./features/'' \<and> endsWith t ''.routes'') init False"

definition loadComponentLooksLikeNotFound :: "node \<Rightarrow> bool" where
  "loadComponentLooksLikeNotFound init =
     visit_import (\<lambda>t. t = ''./shared/pages/not-found.page'') init False"

definition loadComponentImportsPage :: "node \<Rightarrow> bool" where
  "loadComponentImportsPage init = visit_import (\<lambda>t. endsWith t ''.page'') init False"

text \<open>
  What the walk computes, without the flag: some node of the subtree is a call
  \<open>import('...')\<close> whose first argument is a string literal that passes the test.
\<close>

definition importsMatching :: "(string \<Rightarrow> bool) \<Rightarrow> node \<Rightarrow> bool" where
  "importsMatching test n =
     list_ex (\<lambda>d. case importArgument d of Some t \<Rightarrow> test t | None \<Rightarrow> False) (descendants n)"

lemma fold_visit_import:
  assumes "\<And>c ok. c \<in> set cs \<Longrightarrow> visit_import test c ok = (ok \<or> importsMatching test c)"
  shows "fold (visit_import test) cs ok = (ok \<or> list_ex (importsMatching test) cs)"
  using assms by (induction cs arbitrary: ok) auto

lemma importsMatching_unfold:
  "importsMatching test n =
     ((case importArgument n of Some t \<Rightarrow> test t | None \<Rightarrow> False)
      \<or> list_ex (importsMatching test) (children n))"
  by (subst importsMatching_def, subst descendants.simps)
     (auto simp: importsMatching_def list_ex_iff)

lemma visit_import_eq: "visit_import test n ok = (ok \<or> importsMatching test n)"
proof (induction n arbitrary: ok rule: descendants.induct)
  case (1 n)
  have kids: "fold (visit_import test) (children n) b = (b \<or> list_ex (importsMatching test) (children n))"
    for b
    by (rule fold_visit_import) (rule "1.IH")
  show ?case
    unfolding visit_import.simps [of test n ok] importsMatching_unfold [of test n] kids
    by (auto split: option.splits)
qed

section \<open>The app-route composition checker (\<open>verify-app-routes.mjs\<close>)\<close>

text \<open>
  The body of the loop \<open>for (const el of arr.elements)\<close> of \<open>main\<close>, on the state
  it updates: the list \<open>errors\<close> and the counter \<open>wildcardCount\<close>.
\<close>

definition app_route_step :: "node \<Rightarrow> string list \<times> nat \<Rightarrow> string list \<times> nat" where
  "app_route_step el st =
     (case st of (errors, wildcardCount) \<Rightarrow>
      (case el of
         ObjectLiteralExpression props \<Rightarrow>
           (let errors1 =
                  (if objectHasProp props ''component''
                   then errors @ [''app.routes.ts must not use \"component:\"; use loadChildren/loadComponent only.'']
                   else errors);
                pathValue =
                  (case getPropInitializer props ''path'' of
                     Some pathInit \<Rightarrow> getStringValue pathInit
                   | None \<Rightarrow> None)
            in case pathValue of
                 None \<Rightarrow>
                   (errors1 @ [''Every app route must have a literal string \"path\".''], wildcardCount)
               | Some pv \<Rightarrow>
                   if pv = [] then
                     (if \<not> objectHasProp props ''redirectTo'' \<or> \<not> objectHasProp props ''pathMatch''
                      then errors1 @ [''Empty path route must be a redirect with redirectTo + pathMatch.'']
                      else errors1,
                      wildcardCount)
                   else if pv = ''**'' then
                     (case getPropInitializer props ''loadComponent'' of
                        None \<Rightarrow>
                          errors1 @ [''Wildcard route must loadComponent from './shared/pages/not-found.page'.'']
                      | Some lc \<Rightarrow>
                          if \<not> loadComponentLooksLikeNotFound lc
                          then errors1 @ [''Wildcard route must loadComponent from './shared/pages/not-found.page'.'']
                          else errors1,
                      wildcardCount + 1)
                   else
                     (case getPropInitializer props ''loadChildren'' of
                        None \<Rightarrow>
                          (errors1 @ [''Route \"'' @ pv @ ''\" must use loadChildren for feature routes.''],
                           wildcardCount)
                      | Some loadChildren \<Rightarrow>
                          (if \<not> loadChildrenLooksLikeFeaturesImport loadChildren
                           then errors1 @ [''Route \"'' @ pv @ ''\" loadChildren must import './features/<feature>/<feature>.routes'.'']
                           else errors1,
                           wildcardCount)))
       | _ \<Rightarrow> (errors @ [''APP_ROUTES must contain only route objects.''], wildcardCount)))"

text \<open>
  The loop from \<open>errors = []\<close>, \<open>wildcardCount = 0\<close>, and the check of the counter after
  it: the list \<open>errors\<close> that \<open>main\<close> then reports.
\<close>

definition wildcard_count_message :: "nat \<Rightarrow> string" where
  "wildcard_count_message wildcardCount =
     ''APP_ROUTES must contain exactly one wildcard '**' route (found ''
       @ number_toString wildcardCount @ '').''"

definition app_route_walk :: "node list \<Rightarrow> string list \<times> nat" where
  "app_route_walk elements = fold app_route_step elements ([], 0)"

definition app_route_errors :: "node list \<Rightarrow> string list" where
  "app_route_errors elements =
     (case app_route_walk elements of (errors, wildcardCount) \<Rightarrow>
        if wildcardCount \<noteq> 1 then errors @ [wildcard_count_message wildcardCount]
        else errors)"

text \<open>
  The \<open>pathValue\<close> that the loop computes for an element: the text of the string
  literal that initialises its first \<open>path\<close> property, if the element is an object
  literal that has one.
\<close>

fun literalPath :: "node \<Rightarrow> string option" where
  "literalPath (ObjectLiteralExpression props) =
     (case getPropInitializer props ''path'' of
        Some pathInit \<Rightarrow> getStringValue pathInit
      | None \<Rightarrow> None)"
| "literalPath _ = None"

text \<open>The messages that one element adds; the element passes when there are none.\<close>

definition app_route_entry_errors :: "node \<Rightarrow> string list" where
  "app_route_entry_errors el = fst (app_route_step el ([], 0))"

definition wildcardEntries :: "node list \<Rightarrow> nat" where
  "wildcardEntries elements = length (filter (\<lambda>el. literalPath el = Some ''**'') elements)"

text \<open>The messages of an object element, by the case of its path.\<close>

definition path_case_errors :: "node list \<Rightarrow> string option \<Rightarrow> string list" where
  "path_case_errors props pathValue =
     (case pathValue of
        None \<Rightarrow> [''Every app route must have a literal string \"path\".'']
      | Some pv \<Rightarrow>
          if pv = [] then
            (if objectHasProp props ''redirectTo'' \<and> objectHasProp props ''pathMatch'' then []
             else [''Empty path route must be a redirect with redirectTo + pathMatch.''])
          else if pv = ''**'' then
            (case getPropInitializer props ''loadComponent'' of
               None \<Rightarrow> [''Wildcard route must loadComponent from './shared/pages/not-found.page'.'']
             | Some lc \<Rightarrow>
                 if loadComponentLooksLikeNotFound lc then []
                 else [''Wildcard route must loadComponent from './shared/pages/not-found.page'.''])
          else
            (case getPropInitializer props ''loadChildren'' of
               None \<Rightarrow> [''Route \"'' @ pv @ ''\" must use loadChildren for feature routes.'']
             | Some loadChildren \<Rightarrow>
                 if loadChildrenLooksLikeFeaturesImport loadChildren then []
                 else [''Route \"'' @ pv @ ''\" loadChildren must import './features/<feature>/<feature>.routes'.'']))"

lemma app_route_step_object:
  "app_route_step (ObjectLiteralExpression props) (errors, n) =
     (errors
        @ (if objectHasProp props ''component''
           then [''app.routes.ts must not use \"component:\"; use loadChildren/loadComponent only.'']
           else [])
        @ path_case_errors props (literalPath (ObjectLiteralExpression props)),
      n + (if literalPath (ObjectLiteralExpression props) = Some ''**'' then 1 else 0))"
proof (cases "literalPath (ObjectLiteralExpression props)")
  case None
  then show ?thesis
    by (simp add: app_route_step_def path_case_errors_def)
next
  case (Some pv)
  consider (empty) "pv = []" | (wild) "pv = ''**''" | (other) "pv \<noteq> []" "pv \<noteq> ''**''"
    by blast
  then show ?thesis
  proof cases
    case empty
    with Some show ?thesis
      by (simp add: app_route_step_def path_case_errors_def)
  next
    case wild
    with Some show ?thesis
      by (simp add: app_route_step_def path_case_errors_def split: option.split)
  next
    case other
    with Some show ?thesis
      by (simp add: app_route_step_def path_case_errors_def split: option.split)
  qed
qed

lemma app_route_step_other:
  "\<not> isObjectLiteralExpression el \<Longrightarrow>
   app_route_step el (errors, n) = (errors @ [''APP_ROUTES must contain only route objects.''], n)"
  by (cases el) (simp_all add: app_route_step_def)

lemma app_route_step_eq:
  "app_route_step el (errors, n) =
     (errors @ app_route_entry_errors el, n + (if literalPath el = Some ''**'' then 1 else 0))"
proof (cases "isObjectLiteralExpression el")
  case True
  then obtain props where "el = ObjectLiteralExpression props"
    by (cases el) simp_all
  then show ?thesis
    by (simp add: app_route_entry_errors_def app_route_step_object del: literalPath.simps)
next
  case False
  then have "literalPath el = None"
    by (cases el) simp_all
  with False show ?thesis
    by (simp add: app_route_entry_errors_def app_route_step_other)
qed

lemma fold_app_route_step:
  "fold app_route_step elements (errors, n) =
     (errors @ concat (map app_route_entry_errors elements), n + wildcardEntries elements)"
  by (induction elements arbitrary: errors n)
     (simp_all add: app_route_step_eq wildcardEntries_def)

lemma app_route_walk_eq:
  "app_route_walk elements =
     (concat (map app_route_entry_errors elements), wildcardEntries elements)"
  by (simp add: app_route_walk_def fold_app_route_step)

lemma app_route_entry_errors_object:
  "app_route_entry_errors (ObjectLiteralExpression props) =
     (if objectHasProp props ''component''
      then [''app.routes.ts must not use \"component:\"; use loadChildren/loadComponent only.'']
      else [])
     @ path_case_errors props (literalPath (ObjectLiteralExpression props))"
  by (simp add: app_route_entry_errors_def app_route_step_object del: literalPath.simps)

lemma app_route_entry_errors_other:
  "\<not> isObjectLiteralExpression el \<Longrightarrow>
   app_route_entry_errors el = [''APP_ROUTES must contain only route objects.'']"
  by (simp add: app_route_entry_errors_def app_route_step_other)

lemma wildcard_count_message_inj:
  "wildcard_count_message a = wildcard_count_message b \<Longrightarrow> a = b"
  by (simp add: wildcard_count_message_def number_toString_inj)

lemma path_case_errors_not_wildcard_count:
  "wildcard_count_message k \<notin> set (path_case_errors props pathValue)"
  by (simp add: path_case_errors_def wildcard_count_message_def split: option.split)

lemma entry_errors_not_wildcard_count:
  "wildcard_count_message k \<notin> set (app_route_entry_errors el)"
proof (cases "isObjectLiteralExpression el")
  case True
  then obtain props where "el = ObjectLiteralExpression props"
    by (cases el) simp_all
  then show ?thesis
    using path_case_errors_not_wildcard_count [of k props]
    by (simp add: app_route_entry_errors_object wildcard_count_message_def del: literalPath.simps)
next
  case False
  then show ?thesis
    by (simp add: app_route_entry_errors_other wildcard_count_message_def)
qed

text \<open>
  Claim C1. After the walk of the elements, the checker reports the wildcard-count
  violation exactly when the number of entries whose literal path is \<open>**\<close> differs
  from 1, and the message states that number: the message for a count \<open>k\<close> is in the
  reported list if and only if \<open>k\<close> is the actual count and the count is not 1. With
  exactly one wildcard entry no wildcard-count message is reported.
\<close>

theorem wildcard_count_reported:
  "wildcard_count_message k \<in> set (app_route_errors elements)
     \<longleftrightarrow> k = wildcardEntries elements \<and> wildcardEntries elements \<noteq> 1"
  by (auto simp: app_route_errors_def app_route_walk_eq entry_errors_not_wildcard_count
      dest: wildcard_count_message_inj)


lemma app_route_errors_eq:
  "app_route_errors elements =
     concat (map app_route_entry_errors elements)
       @ (if wildcardEntries elements \<noteq> 1
          then [wildcard_count_message (wildcardEntries elements)] else [])"
  by (simp add: app_route_errors_def app_route_walk_eq)

lemma loadChildrenLooksLikeFeaturesImport_eq:
  "loadChildrenLooksLikeFeaturesImport init =
     importsMatching (\<lambda>t. startsWith t ''./features/'' \<and> endsWith t ''.routes'') init"
  by (simp add: loadChildrenLooksLikeFeaturesImport_def visit_import_eq)

text \<open>
  The form \<open>./features/<x>/<x>.routes\<close> of the specification, with the same stem
  \<open>x\<close> twice.
\<close>

definition sameStemFeatureRoutes :: "string \<Rightarrow> bool" where
  "sameStemFeatureRoutes t = (\<exists>x. t = ''./features/'' @ x @ ''/'' @ x @ ''.routes'')"

text \<open>Entries used as concrete inputs; the arrow functions and property accesses are \<open>OtherNode\<close>s.\<close>

definition exampleCrossStemRoute :: "node list" where
  "exampleCrossStemRoute =
     [PropertyAssignment (Identifier ''path'') (StringLiteral ''home''),
      PropertyAssignment (Identifier ''loadChildren'')
        (OtherNode [CallExpression
           (OtherNode [CallExpression ImportKeyword [] [StringLiteral ''./features/a/b.routes''],
                       Identifier ''then'']) []
           [OtherNode [Identifier ''m'', OtherNode [Identifier ''m'', Identifier ''B_ROUTES'']]]])]"

definition exampleHomeRoute :: "node list" where
  "exampleHomeRoute =
     [PropertyAssignment (Identifier ''path'') (StringLiteral ''home''),
      PropertyAssignment (Identifier ''loadChildren'')
        (OtherNode [CallExpression
           (OtherNode [CallExpression ImportKeyword [] [StringLiteral ''./features/home/home.routes''],
                       Identifier ''then'']) []
           [OtherNode [Identifier ''m'', OtherNode [Identifier ''m'', Identifier ''HOME_ROUTES'']]]])]"

lemma not_sameStem_a_b: "\<not> sameStemFeatureRoutes ''./features/a/b.routes''"
proof
  assume "sameStemFeatureRoutes ''./features/a/b.routes''"
  then obtain x where x: "''a/b.routes'' = x @ ''/'' @ x @ ''.routes''"
    by (auto simp: sameStemFeatureRoutes_def)
  then have "length ''a/b.routes'' = length (x @ ''/'' @ x @ ''.routes'')"
    by (rule arg_cong)
  then have "length x = 1"
    by simp
  then obtain c where "x = [c]"
    by (cases x) auto
  with x have "CHR ''a'' = c" and "CHR ''b'' = c"
    by simp_all
  then have "CHR ''a'' = CHR ''b''"
    by simp
  then show False
    by simp
qed

text \<open>
  Claim C4, as amended. An object entry whose literal path is neither empty nor \<open>**\<close>
  adds no message if and only if it has no \<open>component\<close> property assignment and its
  first \<open>loadChildren\<close> property assignment has an initializer containing a call
  \<open>import('...')\<close> whose string argument starts with \<open>./features/\<close> and ends with
  \<open>.routes\<close>. The two feature stems of the path are not compared.
\<close>

theorem feature_entry_passes_iff:
  assumes "literalPath (ObjectLiteralExpression props) = Some pv"
    and "pv \<noteq> []" and "pv \<noteq> ''**''"
  shows "app_route_entry_errors (ObjectLiteralExpression props) = [] \<longleftrightarrow>
         \<not> objectHasProp props ''component'' \<and>
         (\<exists>lc. getPropInitializer props ''loadChildren'' = Some lc \<and>
               importsMatching (\<lambda>t. startsWith t ''./features/'' \<and> endsWith t ''.routes'') lc)"
  using assms
  by (simp add: app_route_entry_errors_object path_case_errors_def
      loadChildrenLooksLikeFeaturesImport_eq split: option.split del: literalPath.simps)

lemma exampleHomeRoute_facts:
  "literalPath (ObjectLiteralExpression exampleHomeRoute) = Some ''home''"
  "\<not> objectHasProp exampleHomeRoute ''component''"
  by (simp_all add: exampleHomeRoute_def objectHasProp_def)

text \<open>Claim C4 at the \<open>home\<close> entry of the repository's \<open>app.routes.ts\<close>.\<close>

theorem feature_entry_passes_iff_witness:
  "app_route_entry_errors (ObjectLiteralExpression exampleHomeRoute) = []"
proof -
  have "importsMatching (\<lambda>t. startsWith t ''./features/'' \<and> endsWith t ''.routes'')
          (the (getPropInitializer exampleHomeRoute ''loadChildren''))"
    by (simp add: exampleHomeRoute_def importsMatching_def descendants.simps
        startsWith_def endsWith_def)
  moreover have "getPropInitializer exampleHomeRoute ''loadChildren'' \<noteq> None"
    by (simp add: exampleHomeRoute_def)
  ultimately show ?thesis
    using feature_entry_passes_iff [of exampleHomeRoute "''home''"] exampleHomeRoute_facts
    by auto
qed

text \<open>
  Claim C4 as stated fails: the entry
  \<open>{ path: 'home', loadChildren: () => import('./features/a/b.routes').then(...) }\<close>
  passes, and its import is not of the form \<open>./features/<x>/<x>.routes\<close>.
\<close>

theorem feature_entry_same_stem_counterexample:
  "\<not> (\<forall>props pv.
        literalPath (ObjectLiteralExpression props) = Some pv \<and> pv \<noteq> [] \<and> pv \<noteq> ''**'' \<and>
        app_route_entry_errors (ObjectLiteralExpression props) = [] \<longrightarrow>
        \<not> objectHasProp props ''component'' \<and>
        (\<exists>lc. getPropInitializer props ''loadChildren'' = Some lc \<and>
              importsMatching sameStemFeatureRoutes lc))"
proof
  assume claim: "\<forall>props pv.
        literalPath (ObjectLiteralExpression props) = Some pv \<and> pv \<noteq> [] \<and> pv \<noteq> ''**'' \<and>
        app_route_entry_errors (ObjectLiteralExpression props) = [] \<longrightarrow>
        \<not> objectHasProp props ''component'' \<and>
        (\<exists>lc. getPropInitializer props ''loadChildren'' = Some lc \<and>
              importsMatching sameStemFeatureRoutes lc)"
  have path: "literalPath (ObjectLiteralExpression exampleCrossStemRoute) = Some ''home''"
    by (simp add: exampleCrossStemRoute_def)
  have passes: "app_route_entry_errors (ObjectLiteralExpression exampleCrossStemRoute) = []"
    by (simp add: app_route_entry_errors_def app_route_step_def exampleCrossStemRoute_def
        objectHasProp_def loadChildrenLooksLikeFeaturesImport_def visit_import.simps
        startsWith_def endsWith_def)
  from claim path passes
  obtain lc where "getPropInitializer exampleCrossStemRoute ''loadChildren'' = Some lc"
    and "importsMatching sameStemFeatureRoutes lc"
    by fastforce
  then have "sameStemFeatureRoutes ''./features/a/b.routes''"
    by (auto simp: exampleCrossStemRoute_def importsMatching_def descendants.simps)
  then show False
    by (simp add: not_sameStem_a_b)
qed


definition exampleRedirectRoute :: "node list" where
  "exampleRedirectRoute =
     [PropertyAssignment (Identifier ''path'') (StringLiteral []),
      PropertyAssignment (Identifier ''redirectTo'') (StringLiteral ''/home''),
      PropertyAssignment (Identifier ''pathMatch'') (StringLiteral ''full'')]"

definition exampleRedirectWithLoader :: "node list" where
  "exampleRedirectWithLoader =
     exampleRedirectRoute @
     [PropertyAssignment (Identifier ''loadChildren'')
        (OtherNode [CallExpression ImportKeyword [] [StringLiteral ''./features/home/home.routes'']])]"

definition exampleWildcardRoute :: "node list" where
  "exampleWildcardRoute =
     [PropertyAssignment (Identifier ''path'') (StringLiteral ''**''),
      PropertyAssignment (Identifier ''loadComponent'')
        (OtherNode [CallExpression
           (OtherNode [CallExpression ImportKeyword [] [StringLiteral ''./shared/pages/not-found.page''],
                       Identifier ''then'']) []
           [OtherNode [Identifier ''m'', OtherNode [Identifier ''m'', Identifier ''NotFoundPage'']]]])]"

text \<open>
  Claim C5, as amended. An object entry whose literal path is the empty string adds no
  message if and only if it has \<open>redirectTo\<close> and \<open>pathMatch\<close> property assignments
  (whatever their values) and no \<open>component\<close> property assignment. Whether it also has
  \<open>loadComponent\<close> or \<open>loadChildren\<close> is not looked at.
\<close>

theorem empty_path_entry_passes_iff:
  assumes "literalPath (ObjectLiteralExpression props) = Some []"
  shows "app_route_entry_errors (ObjectLiteralExpression props) = [] \<longleftrightarrow>
         objectHasProp props ''redirectTo'' \<and> objectHasProp props ''pathMatch'' \<and>
         \<not> objectHasProp props ''component''"
  using assms
  by (auto simp: app_route_entry_errors_object path_case_errors_def simp del: literalPath.simps)

text \<open>Claim C5 at the redirect entry of the repository's \<open>app.routes.ts\<close>.\<close>

theorem empty_path_entry_passes_iff_witness:
  "literalPath (ObjectLiteralExpression exampleRedirectRoute) = Some [] \<and>
   app_route_entry_errors (ObjectLiteralExpression exampleRedirectRoute) = []"
proof -
  have path: "literalPath (ObjectLiteralExpression exampleRedirectRoute) = Some []"
    by (simp add: exampleRedirectRoute_def)
  have "objectHasProp exampleRedirectRoute ''redirectTo''"
    and "objectHasProp exampleRedirectRoute ''pathMatch''"
    and "\<not> objectHasProp exampleRedirectRoute ''component''"
    by (simp_all add: exampleRedirectRoute_def objectHasProp_def)
  then show ?thesis
    using empty_path_entry_passes_iff [OF path] path by simp
qed

text \<open>
  Claim C5 as stated fails: a redirect entry that also carries \<open>loadChildren\<close> passes.
\<close>

theorem empty_path_entry_loader_counterexample:
  "\<not> (\<forall>props.
        literalPath (ObjectLiteralExpression props) = Some [] \<longrightarrow>
        (app_route_entry_errors (ObjectLiteralExpression props) = [] \<longleftrightarrow>
         objectHasProp props ''redirectTo'' \<and> objectHasProp props ''pathMatch'' \<and>
         \<not> objectHasProp props ''loadComponent'' \<and> \<not> objectHasProp props ''loadChildren''))"
proof
  assume claim: "\<forall>props.
        literalPath (ObjectLiteralExpression props) = Some [] \<longrightarrow>
        (app_route_entry_errors (ObjectLiteralExpression props) = [] \<longleftrightarrow>
         objectHasProp props ''redirectTo'' \<and> objectHasProp props ''pathMatch'' \<and>
         \<not> objectHasProp props ''loadComponent'' \<and> \<not> objectHasProp props ''loadChildren'')"
  have path: "literalPath (ObjectLiteralExpression exampleRedirectWithLoader) = Some []"
    by (simp add: exampleRedirectWithLoader_def exampleRedirectRoute_def)
  have passes: "app_route_entry_errors (ObjectLiteralExpression exampleRedirectWithLoader) = []"
    by (simp add: app_route_entry_errors_def app_route_step_def exampleRedirectWithLoader_def
        exampleRedirectRoute_def objectHasProp_def)
  have loader: "objectHasProp exampleRedirectWithLoader ''loadChildren''"
    by (simp add: exampleRedirectWithLoader_def exampleRedirectRoute_def objectHasProp_def)
  from claim path passes have "\<not> objectHasProp exampleRedirectWithLoader ''loadChildren''"
    by blast
  with loader show False
    by contradiction
qed

text \<open>
  Claim C1 at concrete arrays: none and two wildcard entries are reported with
  \<open>(found 0)\<close> and \<open>(found 2)\<close>; the array of the repository's own
  \<open>app.routes.ts\<close> (one wildcard entry) has no wildcard-count message.
\<close>

theorem wildcard_count_reported_witness:
  "wildcard_count_message 0 \<in> set (app_route_errors []) \<and>
   wildcard_count_message 0 = ''APP_ROUTES must contain exactly one wildcard '**' route (found 0).'' \<and>
   wildcard_count_message 2
     \<in> set (app_route_errors [ObjectLiteralExpression exampleWildcardRoute,
                               ObjectLiteralExpression exampleWildcardRoute]) \<and>
   wildcard_count_message 2 = ''APP_ROUTES must contain exactly one wildcard '**' route (found 2).'' \<and>
   wildcard_count_message 1
     \<notin> set (app_route_errors [ObjectLiteralExpression exampleRedirectRoute,
                               ObjectLiteralExpression exampleHomeRoute,
                               ObjectLiteralExpression exampleWildcardRoute])"
proof -
  have w: "literalPath (ObjectLiteralExpression exampleWildcardRoute) = Some ''**''"
    "literalPath (ObjectLiteralExpression exampleRedirectRoute) = Some []"
    "literalPath (ObjectLiteralExpression exampleHomeRoute) = Some ''home''"
    by (simp_all add: exampleWildcardRoute_def exampleRedirectRoute_def exampleHomeRoute_def)
  have "wildcardEntries [] = 0"
    and "wildcardEntries [ObjectLiteralExpression exampleWildcardRoute,
                          ObjectLiteralExpression exampleWildcardRoute] = 2"
    and "wildcardEntries [ObjectLiteralExpression exampleRedirectRoute,
                          ObjectLiteralExpression exampleHomeRoute,
                          ObjectLiteralExpression exampleWildcardRoute] = 1"
    using w by (simp_all add: wildcardEntries_def del: literalPath.simps)
  moreover have "wildcard_count_message 0
                   = ''APP_ROUTES must contain exactly one wildcard '**' route (found 0).''"
    and "wildcard_count_message 2
           = ''APP_ROUTES must contain exactly one wildcard '**' route (found 2).''"
    by (simp_all add: wildcard_count_message_def number_toString.simps digit_char_def)
  ultimately show ?thesis
    using wildcard_count_reported [of 0 "[]"]
      wildcard_count_reported [of 2 "[ObjectLiteralExpression exampleWildcardRoute,
                                      ObjectLiteralExpression exampleWildcardRoute]"]
      wildcard_count_reported [of 1 "[ObjectLiteralExpression exampleRedirectRoute,
                                      ObjectLiteralExpression exampleHomeRoute,
                                      ObjectLiteralExpression exampleWildcardRoute]"]
    by simp
qed

section \<open>The feature-route provider checker (\<open>verify-feature-routes.mjs\<close>)\<close>

text \<open>
  \<open>findExportedRoutesArrays\<close>: \<open>visit\<close> pushes, for an exported variable statement,
  every declaration whose name is an identifier and whose initializer is an array
  literal, then visits the children; it returns from a variable statement that is not
  exported without visiting its children. The list it fills is the pushes in the order
  of the walk: those of the node, then those of each child in turn. An entry
  \<open>{ name, arrayNode }\<close> is the pair of the name and \<open>arrayNode.elements\<close>.
\<close>

fun exportedArrayOf :: "node \<times> node option \<times> node option \<Rightarrow> (string \<times> node list) list" where
  "exportedArrayOf (Identifier name, ty, Some (ArrayLiteralExpression elements)) = [(name, elements)]"
| "exportedArrayOf _ = []"

text \<open>
  What \<open>visit\<close> does at a node before it visits the children: \<open>None\<close> when it
  returns at once (a variable statement that is not exported), else the entries pushed.
\<close>

fun statementArrays :: "node \<Rightarrow> (string \<times> node list) list option" where
  "statementArrays (VariableStatement isExported ds) =
     (if \<not> isExported then None else Some (concat (map exportedArrayOf ds)))"
| "statementArrays _ = Some []"

fun findExportedRoutesArrays :: "node \<Rightarrow> (string \<times> node list) list" where
  "findExportedRoutesArrays n =
     (case statementArrays n of
        None \<Rightarrow> []
      | Some found \<Rightarrow> found @ concat (map findExportedRoutesArrays (children n)))"

declare findExportedRoutesArrays.simps [simp del]

text \<open>
  The messages all start with \<open>${filePath} export "${ex.name}"\<close>; \<open>exportPrefix\<close> is
  that part. The callback of \<open>ex.arrayNode.elements.forEach((el, idx) => ...)\<close> is
  \<open>feature_route_element_errors\<close>: the messages it pushes, in order.
\<close>

definition exportPrefix :: "string \<Rightarrow> string \<Rightarrow> string" where
  "exportPrefix filePath name = filePath @ '' export \"'' @ name @ ''\"''"

definition feature_route_element_errors :: "string \<Rightarrow> string \<Rightarrow> nat \<Rightarrow> node \<Rightarrow> string list" where
  "feature_route_element_errors filePath name idx el =
     (case el of
        ObjectLiteralExpression props \<Rightarrow>
          (if objectHasProp props ''component''
           then [exportPrefix filePath name
                   @ '' must not use \"component:\". Use loadComponent/loadChildren.'']
           else [])
          @ (if idx = 0 then
               (let pv = (case getPropInitializer props ''path'' of
                            Some p \<Rightarrow> getStringValue p
                          | None \<Rightarrow> None);
                    hasLC = objectHasProp props ''loadComponent'';
                    hasLCh = objectHasProp props ''loadChildren''
                in (if pv \<noteq> Some []
                    then [exportPrefix filePath name @ '' first route must have path: '' @ [CHR 0x27, CHR 0x27]]
                    else [])
                   @ (if \<not> objectHasProp props ''providers''
                      then [exportPrefix filePath name @ '' first route must declare providers: [ ... ]'']
                      else [])
                   @ (if \<not> hasLC \<and> \<not> hasLCh
                      then [exportPrefix filePath name @ '' first route must use loadComponent or loadChildren'']
                      else [])
                   @ (if hasLC then
                        (case getPropInitializer props ''loadComponent'' of
                           Some init \<Rightarrow>
                             if \<not> loadComponentImportsPage init
                             then [exportPrefix filePath name
                                     @ '' first route loadComponent should import a *.page file'']
                             else []
                         | None \<Rightarrow> [])
                      else []))
             else [])
          @ (case getPropInitializer props ''loadComponent'' of
               Some lc \<Rightarrow>
                 if \<not> loadComponentImportsPage lc
                 then [exportPrefix filePath name @ '' has loadComponent not importing a *.page file'']
                 else []
             | None \<Rightarrow> [])
      | _ \<Rightarrow>
          [exportPrefix filePath name @ '' has a non-object route at index ''
             @ number_toString idx @ ''.''])"

text \<open>The body of \<open>for (const ex of exported)\<close>.\<close>

definition exported_array_errors :: "string \<Rightarrow> string \<times> node list \<Rightarrow> string list" where
  "exported_array_errors filePath ex =
     (case ex of (name, elements) \<Rightarrow>
        if elements = [] then [exportPrefix filePath name @ '' must not be empty.'']
        else concat (map (\<lambda>(idx, el). feature_route_element_errors filePath name idx el)
                       (enumerate 0 elements)))"

text \<open>
  \<open>validateFeatureRoutesFile\<close>, from the parsed source file \<open>sf\<close> (the result of
  \<open>parseSource(filePath)\<close>).
\<close>

definition validateFeatureRoutesFile :: "string \<Rightarrow> node \<Rightarrow> string list" where
  "validateFeatureRoutesFile filePath sf =
     (let exported = findExportedRoutesArrays sf in
      if exported = []
      then [filePath @ '' must export at least one Routes array: export const X = [ ... ]'']
      else concat (map (exported_array_errors filePath) exported))"

lemma validateFeatureRoutesFile_exported:
  assumes "ex \<in> set (findExportedRoutesArrays sf)"
  shows "set (exported_array_errors filePath ex) \<subseteq> set (validateFeatureRoutesFile filePath sf)"
  using assms by (auto simp: validateFeatureRoutesFile_def Let_def)

lemma exported_array_errors_empty:
  "exported_array_errors filePath (name, []) = [exportPrefix filePath name @ '' must not be empty.'']"
  by (simp add: exported_array_errors_def)

lemma exported_array_errors_element:
  assumes "idx < length elements"
  shows "set (feature_route_element_errors filePath name idx (elements ! idx))
           \<subseteq> set (exported_array_errors filePath (name, elements))"
proof -
  from assms have "(idx, elements ! idx) \<in> set (enumerate 0 elements)"
    by (simp add: in_set_enumerate_eq)
  moreover from assms have "elements \<noteq> []"
    by auto
  ultimately show ?thesis
    by (fastforce simp: exported_array_errors_def)
qed

lemma validateFeatureRoutesFile_element:
  assumes "(name, elements) \<in> set (findExportedRoutesArrays sf)"
    and "idx < length elements"
    and "m \<in> set (feature_route_element_errors filePath name idx (elements ! idx))"
  shows "m \<in> set (validateFeatureRoutesFile filePath sf)"
  using validateFeatureRoutesFile_exported [OF assms(1), of filePath]
    exported_array_errors_element [OF assms(2), of filePath name] assms(3)
  by blast

lemma element_errors_component:
  "objectHasProp props ''component'' \<Longrightarrow>
   exportPrefix filePath name @ '' must not use \"component:\". Use loadComponent/loadChildren.''
     \<in> set (feature_route_element_errors filePath name idx (ObjectLiteralExpression props))"
  by (simp add: feature_route_element_errors_def)

lemma element_errors_first_path:
  "literalPath (ObjectLiteralExpression props) \<noteq> Some [] \<Longrightarrow>
   exportPrefix filePath name @ '' first route must have path: '' @ [CHR 0x27, CHR 0x27]
     \<in> set (feature_route_element_errors filePath name 0 (ObjectLiteralExpression props))"
  by (cases "objectHasProp props ''loadComponent''";
      cases "getPropInitializer props ''loadComponent''")
     (simp_all add: feature_route_element_errors_def Let_def)

lemma element_errors_non_object:
  "\<not> isObjectLiteralExpression el \<Longrightarrow> feature_route_element_errors filePath name idx el \<noteq> []"
  by (cases el) (simp_all add: feature_route_element_errors_def)

lemma element_errors_first_providers:
  "exportPrefix filePath name @ '' first route must declare providers: [ ... ]''
     \<in> set (feature_route_element_errors filePath name 0 (ObjectLiteralExpression props))
   \<longleftrightarrow> \<not> objectHasProp props ''providers''"
  by (cases "objectHasProp props ''loadComponent''";
      cases "getPropInitializer props ''loadComponent''")
     (simp_all add: feature_route_element_errors_def Let_def)

lemma loadComponentImportsPage_eq:
  "loadComponentImportsPage init = importsMatching (\<lambda>t. endsWith t ''.page'') init"
  by (simp add: loadComponentImportsPage_def visit_import_eq)

lemma element_errors_loadComponent:
  "getPropInitializer props ''loadComponent'' = Some lc \<Longrightarrow>
   exportPrefix filePath name @ '' has loadComponent not importing a *.page file''
     \<in> set (feature_route_element_errors filePath name idx (ObjectLiteralExpression props))
   \<longleftrightarrow> \<not> importsMatching (\<lambda>t. endsWith t ''.page'') lc"
  by (cases "objectHasProp props ''loadComponent''"; cases "idx = 0")
     (simp_all add: feature_route_element_errors_def Let_def loadComponentImportsPage_eq)


text \<open>
  Routes files used as concrete inputs. \<open>lazyImport spec member\<close> is the tree of
  \<open>() => import(spec).then((m) => m.member)\<close>; \<open>routesFileOf name elements\<close> is a
  file that imports the \<open>Routes\<close> type and has the one statement
  \<open>export const name: Routes = [elements]\<close>.
\<close>

definition lazyImport :: "string \<Rightarrow> string \<Rightarrow> node" where
  "lazyImport spec member =
     OtherNode [CallExpression
       (OtherNode [CallExpression ImportKeyword [] [StringLiteral spec], Identifier ''then'']) []
       [OtherNode [Identifier ''m'', OtherNode [Identifier ''m'', Identifier member]]]]"

definition routesFileOf :: "string \<Rightarrow> node list \<Rightarrow> node" where
  "routesFileOf name elements =
     SourceFile
       [ImportDeclaration [Identifier ''Routes''] (StringLiteral ''@angular/router'') [],
        VariableStatement True
          [(Identifier name, Some (OtherNode [Identifier ''Routes'']),
            Some (ArrayLiteralExpression elements))]]"

lemma importsMatching_lazyImport: "importsMatching test (lazyImport spec member) = test spec"
  by (simp add: importsMatching_def lazyImport_def descendants.simps)

lemma validateFeatureRoutesFile_single:
  assumes "findExportedRoutesArrays sf = [(name, el # els)]"
  shows "validateFeatureRoutesFile filePath sf =
     concat (map (\<lambda>(idx, el). feature_route_element_errors filePath name idx el)
               (enumerate 0 (el # els)))"
  by (simp add: validateFeatureRoutesFile_def assms exported_array_errors_def)

text \<open>The first route of \<open>home.routes.ts\<close>, with the given \<open>providers\<close> initializer.\<close>

definition homeRouteWithProviders :: "node \<Rightarrow> node list" where
  "homeRouteWithProviders providers =
     [PropertyAssignment (Identifier ''path'') (StringLiteral []),
      PropertyAssignment (Identifier ''providers'') providers,
      PropertyAssignment (Identifier ''loadComponent'') (lazyImport ''./home.page'' ''HomePage''),
      PropertyAssignment (Identifier ''data'')
        (ObjectLiteralExpression [PropertyAssignment (Identifier ''title'') (StringLiteral ''Home'')])]"

text \<open>The first route that the architecture guide shows as forbidden: no \<open>providers\<close>.\<close>

definition dashboardRouteNoProviders :: "node list" where
  "dashboardRouteNoProviders =
     [PropertyAssignment (Identifier ''path'') (StringLiteral []),
      PropertyAssignment (Identifier ''loadComponent'')
        (lazyImport ''./dashboard.page'' ''DashboardPage'')]"

lemma homeRoute_element_errors:
  "feature_route_element_errors filePath name 0
     (ObjectLiteralExpression (homeRouteWithProviders providers)) = []"
  by (simp add: feature_route_element_errors_def homeRouteWithProviders_def objectHasProp_def
      loadComponentImportsPage_eq importsMatching_lazyImport endsWith_def)

lemma dashboardFile_exports:
  "findExportedRoutesArrays
     (routesFileOf ''DASHBOARD_ROUTES'' [ObjectLiteralExpression dashboardRouteNoProviders])
   = [(''DASHBOARD_ROUTES'', [ObjectLiteralExpression dashboardRouteNoProviders])]"
  by (simp add: routesFileOf_def findExportedRoutesArrays.simps dashboardRouteNoProviders_def
      lazyImport_def)

lemma homeFile_exports:
  "findExportedRoutesArrays
     (routesFileOf ''HOME_ROUTES''
        [ObjectLiteralExpression (homeRouteWithProviders (ArrayLiteralExpression []))])
   = [(''HOME_ROUTES'',
       [ObjectLiteralExpression (homeRouteWithProviders (ArrayLiteralExpression []))])]"
  by (simp add: routesFileOf_def findExportedRoutesArrays.simps homeRouteWithProviders_def
      lazyImport_def)

text \<open>
  Claim C2 as stated fails: \<open>home.routes.ts\<close> with \<open>providers: []\<close> as the first
  route's providers has no violation at all.
\<close>

theorem empty_providers_counterexample:
  "\<not> (\<forall>filePath sf name props rest.
        (name, ObjectLiteralExpression props # rest) \<in> set (findExportedRoutesArrays sf) \<and>
        getPropInitializer props ''providers'' = Some (ArrayLiteralExpression []) \<longrightarrow>
        validateFeatureRoutesFile filePath sf \<noteq> [])"
proof
  assume claim: "\<forall>filePath sf name props rest.
        (name, ObjectLiteralExpression props # rest) \<in> set (findExportedRoutesArrays sf) \<and>
        getPropInitializer props ''providers'' = Some (ArrayLiteralExpression []) \<longrightarrow>
        validateFeatureRoutesFile filePath sf \<noteq> []"
  let ?props = "homeRouteWithProviders (ArrayLiteralExpression [])"
  let ?sf = "routesFileOf ''HOME_ROUTES'' [ObjectLiteralExpression ?props]"
  have "(''HOME_ROUTES'', [ObjectLiteralExpression ?props]) \<in> set (findExportedRoutesArrays ?sf)"
    by (simp add: homeFile_exports)
  moreover have "getPropInitializer ?props ''providers'' = Some (ArrayLiteralExpression [])"
    by (simp add: homeRouteWithProviders_def)
  ultimately have "validateFeatureRoutesFile ''home.routes.ts'' ?sf \<noteq> []"
    using claim by blast
  moreover have "validateFeatureRoutesFile ''home.routes.ts'' ?sf = []"
    by (simp add: validateFeatureRoutesFile_single [OF homeFile_exports] homeRoute_element_errors)
  ultimately show False
    by contradiction
qed

text \<open>Whether the first element of an array has the literal path \<open>''\<close>.\<close>

definition firstRouteHasEmptyPath :: "node list \<Rightarrow> bool" where
  "firstRouteHasEmptyPath elements =
     (case elements of [] \<Rightarrow> False | el # rest \<Rightarrow> literalPath el = Some [])"

definition homeProviders :: node where
  "homeProviders =
     ArrayLiteralExpression
       [CallExpression (Identifier ''provideHomeData'') [] [],
        CallExpression (Identifier ''provideHomeState'') [] []]"

definition listRoute :: "node list" where
  "listRoute =
     [PropertyAssignment (Identifier ''path'') (StringLiteral ''list''),
      PropertyAssignment (Identifier ''providers'') homeProviders,
      PropertyAssignment (Identifier ''loadComponent'') (lazyImport ''./list.page'' ''ListPage'')]"

definition legacyRoute :: "node list" where
  "legacyRoute =
     [PropertyAssignment (Identifier ''path'') (StringLiteral ''legacy''),
      PropertyAssignment (Identifier ''component'') (Identifier ''LegacyPage'')]"

definition widgetRoute :: "node list" where
  "widgetRoute =
     [PropertyAssignment (Identifier ''path'') (StringLiteral ''widget''),
      PropertyAssignment (Identifier ''loadComponent'')
        (lazyImport ''./widget.component'' ''WidgetComponent'')]"

text \<open>A first route that nests \<open>widgetRoute\<close> under \<open>children\<close>.\<close>

definition homeRouteWithChildren :: "node list" where
  "homeRouteWithChildren =
     homeRouteWithProviders homeProviders
       @ [PropertyAssignment (Identifier ''children'')
            (ArrayLiteralExpression [ObjectLiteralExpression widgetRoute])]"

lemma listFile_exports:
  "findExportedRoutesArrays (routesFileOf ''LIST_ROUTES'' [ObjectLiteralExpression listRoute])
   = [(''LIST_ROUTES'', [ObjectLiteralExpression listRoute])]"
  by (simp add: routesFileOf_def findExportedRoutesArrays.simps listRoute_def homeProviders_def
      lazyImport_def)

lemma twoRoutesFile_exports:
  "findExportedRoutesArrays
     (routesFileOf ''HOME_ROUTES''
        [ObjectLiteralExpression (homeRouteWithProviders homeProviders),
         ObjectLiteralExpression legacyRoute, ObjectLiteralExpression widgetRoute])
   = [(''HOME_ROUTES'',
       [ObjectLiteralExpression (homeRouteWithProviders homeProviders),
        ObjectLiteralExpression legacyRoute, ObjectLiteralExpression widgetRoute])]"
  by (simp add: routesFileOf_def findExportedRoutesArrays.simps homeRouteWithProviders_def
      legacyRoute_def widgetRoute_def homeProviders_def lazyImport_def)

lemma nestedFile_exports:
  "findExportedRoutesArrays
     (routesFileOf ''HOME_ROUTES'' [ObjectLiteralExpression homeRouteWithChildren])
   = [(''HOME_ROUTES'', [ObjectLiteralExpression homeRouteWithChildren])]"
  by (simp add: routesFileOf_def findExportedRoutesArrays.simps homeRouteWithChildren_def
      homeRouteWithProviders_def widgetRoute_def homeProviders_def lazyImport_def)

text \<open>
  Claim C8 as stated fails: a route nested under \<open>children\<close> of the first route, with
  \<open>loadComponent: () => import('./widget.component')\<close>, is an element of an array
  literal of the file, and the checker reports nothing.
\<close>

theorem nested_loadComponent_counterexample:
  "\<not> (\<forall>filePath sf es props lc.
        ArrayLiteralExpression es \<in> set (descendants sf) \<and>
        ObjectLiteralExpression props \<in> set es \<and>
        getPropInitializer props ''loadComponent'' = Some lc \<and>
        \<not> importsMatching (\<lambda>t. endsWith t ''.page'') lc \<longrightarrow>
        validateFeatureRoutesFile filePath sf \<noteq> [])"
proof
  assume claim: "\<forall>filePath sf es props lc.
        ArrayLiteralExpression es \<in> set (descendants sf) \<and>
        ObjectLiteralExpression props \<in> set es \<and>
        getPropInitializer props ''loadComponent'' = Some lc \<and>
        \<not> importsMatching (\<lambda>t. endsWith t ''.page'') lc \<longrightarrow>
        validateFeatureRoutesFile filePath sf \<noteq> []"
  let ?sf = "routesFileOf ''HOME_ROUTES'' [ObjectLiteralExpression homeRouteWithChildren]"
  have "ArrayLiteralExpression [ObjectLiteralExpression widgetRoute] \<in> set (descendants ?sf)"
    by (simp add: routesFileOf_def homeRouteWithChildren_def homeRouteWithProviders_def
        homeProviders_def lazyImport_def widgetRoute_def descendants.simps)
  moreover have "getPropInitializer widgetRoute ''loadComponent''
          = Some (lazyImport ''./widget.component'' ''WidgetComponent'')"
    by (simp add: widgetRoute_def)
  moreover have "\<not> importsMatching (\<lambda>t. endsWith t ''.page'')
                     (lazyImport ''./widget.component'' ''WidgetComponent'')"
    by (simp add: importsMatching_lazyImport endsWith_def)
  moreover have "ObjectLiteralExpression widgetRoute \<in> set [ObjectLiteralExpression widgetRoute]"
    by simp
  ultimately have "validateFeatureRoutesFile ''home.routes.ts'' ?sf \<noteq> []"
    using claim by blast
  moreover have "feature_route_element_errors ''home.routes.ts'' ''HOME_ROUTES'' 0
                   (ObjectLiteralExpression homeRouteWithChildren) = []"
    by (simp add: feature_route_element_errors_def homeRouteWithChildren_def
        homeRouteWithProviders_def objectHasProp_def loadComponentImportsPage_eq
        importsMatching_lazyImport endsWith_def)
  then have "validateFeatureRoutesFile ''home.routes.ts'' ?sf = []"
    by (simp add: validateFeatureRoutesFile_single [OF nestedFile_exports])
  ultimately show False
    by contradiction
qed

section \<open>The file system and the workspace\<close>

text \<open>
  The scripts read the file system through \<open>fs.existsSync\<close>, \<open>fs.readdirSync\<close>
  (with \<open>withFileTypes\<close>) and \<open>fs.readFileSync\<close>, whose text goes straight into the
  parser. The file system is a tree: a regular file holds the tree that the parser
  returns for its text, a directory holds its entries in listing order, a symbolic
  link holds the entry it resolves to (\<open>None\<close> when it dangles), and \<open>Special\<close> is
  any other entry (a socket, a device). In a listing, \<open>isDirectory()\<close> and
  \<open>isFile()\<close> are both false for a link and for a special entry; \<open>existsSync\<close>,
  \<open>readFileSync\<close> and \<open>readdirSync\<close> follow links (\<open>follow\<close>), in the middle and
  at the end of a path. Links that lead back into themselves are outside the model.
  The value of type \<open>fsentry\<close> that a script receives is the root directory.

  Paths are POSIX paths (\<open>path.sep\<close> is \<open>/\<close>). The paths that the scripts pass to
  \<open>fs\<close> are absolute and normalised (they come from \<open>path.resolve\<close> and
  \<open>path.join\<close>), so a path is looked up by its non-empty segments.
  \<open>path_join dir name\<close> is \<open>path.join(dir, name)\<close> for such a \<open>dir\<close> other than
  the root and a \<open>name\<close> that is one segment.

  A call of \<open>fs\<close> that throws (missing entry, wrong kind of entry) ends the script with
  an uncaught exception; functions that can throw return an \<open>option\<close>, \<open>None\<close> for
  the exception.
\<close>

datatype fsentry =
    File node
  | Directory "(string \<times> fsentry) list"
  | Link "fsentry option"
  | Special

fun follow :: "fsentry \<Rightarrow> fsentry option" where
  "follow (Link None) = None"
| "follow (Link (Some e)) = follow e"
| "follow e = Some e"

definition segments :: "string \<Rightarrow> string list" where
  "segments p = filter (\<lambda>s. s \<noteq> []) (split CHR ''/'' p)"

fun walk :: "fsentry \<Rightarrow> string list \<Rightarrow> fsentry option" where
  "walk e [] = follow e"
| "walk e (s # ss) =
     (case follow e of
        Some (Directory es) \<Rightarrow> (case map_of es s of None \<Rightarrow> None | Some e' \<Rightarrow> walk e' ss)
      | _ \<Rightarrow> None)"

definition lookup :: "fsentry \<Rightarrow> string \<Rightarrow> fsentry option" where
  "lookup root p = walk root (segments p)"

definition path_join :: "string \<Rightarrow> string \<Rightarrow> string" where
  "path_join dir name = dir @ ''/'' @ name"

definition existsSync :: "fsentry \<Rightarrow> string \<Rightarrow> bool" where
  "existsSync root p = (lookup root p \<noteq> None)"

definition readdirSync :: "fsentry \<Rightarrow> string \<Rightarrow> (string \<times> fsentry) list option" where
  "readdirSync root p = (case lookup root p of Some (Directory es) \<Rightarrow> Some es | _ \<Rightarrow> None)"

text \<open>\<open>parseSource\<close>: \<open>readFileSync\<close> and \<open>ts.createSourceFile\<close>.\<close>

definition parseSource :: "fsentry \<Rightarrow> string \<Rightarrow> node option" where
  "parseSource root filePath = (case lookup root filePath of Some (File sf) \<Rightarrow> Some sf | _ \<Rightarrow> None)"

fun isDirectory :: "fsentry \<Rightarrow> bool" where
  "isDirectory (Directory es) = True"
| "isDirectory _ = False"

text \<open>
  \<open>listDirs\<close> of \<open>verify-structure.mjs\<close>, which is \<open>listFeatureNames\<close> of
  \<open>verify-feature-routes.mjs\<close>.
\<close>

definition listDirs :: "fsentry \<Rightarrow> string \<Rightarrow> string list option" where
  "listDirs root dir =
     (if \<not> existsSync root dir then Some []
      else map_option (\<lambda>es. map fst (filter (\<lambda>d. isDirectory (snd d)) es)) (readdirSync root dir))"

text \<open>
  The part of \<open>getWorkspaceContext()\<close> that the checkers use. \<open>path.relative\<close> only
  appears in printed lines; the checkers below take it as the parameter \<open>relative\<close>.
\<close>

record workspace =
  workspaceRoot :: string
  appRoot :: string
  featuresDir :: string
  appRoutesFile :: string

text \<open>
  How a checker ends: \<open>Exit0 line\<close> prints the line on standard output and ends with
  status 0; \<open>Exit1 header errors\<close> prints the header and then every element of
  \<open>errors\<close> as a bullet on the error stream and ends with status 1.
\<close>

datatype outcome = Exit0 string | Exit1 string "string list"

section \<open>The feature-route provider checker: \<open>main\<close>\<close>

definition feature_routes_file_errors :: "fsentry \<Rightarrow> string \<Rightarrow> string \<Rightarrow> string list option" where
  "feature_routes_file_errors root dir f =
     (let routesFile = path_join (path_join dir f) (f @ ''.routes.ts'') in
      if \<not> existsSync root routesFile then Some [''Missing feature routes file: '' @ routesFile]
      else map_option (validateFeatureRoutesFile routesFile) (parseSource root routesFile))"

definition feature_routes_main :: "(string \<Rightarrow> string \<Rightarrow> string) \<Rightarrow> fsentry \<Rightarrow> workspace \<Rightarrow> outcome option" where
  "feature_routes_main relative root ctx =
     (case listDirs root (featuresDir ctx) of
        None \<Rightarrow> None
      | Some features \<Rightarrow>
          (case those (map (feature_routes_file_errors root (featuresDir ctx)) features) of
             None \<Rightarrow> None
           | Some per_feature \<Rightarrow>
               (let errors = concat per_feature in
                if errors \<noteq> []
                then Some (Exit1 (''Feature routes verification failed (''
                                   @ number_toString (length errors) @ '' issue(s)):'' @ [CHR 0x0A])
                                errors)
                else Some (Exit0 (''OK: feature routes verified (''
                                   @ number_toString (length features) @ '' feature(s)) for ''
                                   @ relative (workspaceRoot ctx) (featuresDir ctx) @ ''.'')))))"

section \<open>The structure checker (\<open>verify-structure.mjs\<close>)\<close>

text \<open>\<open>getImports\<close> looks at the statements of the file only.\<close>

fun importSpecifier :: "node \<Rightarrow> string list" where
  "importSpecifier (ImportDeclaration cs (StringLiteral t) as) = [t]"
| "importSpecifier _ = []"

definition getImports :: "node \<Rightarrow> string list" where
  "getImports sourceFile = concat (map importSpecifier (children sourceFile))"

text \<open>
  \<open>fileContainsIdentifier\<close> and \<open>fileContainsLiteral\<close>: a flag \<open>found\<close>, and a
  \<open>visit\<close> that returns when the flag is set, sets it and returns at a node that
  passes the test, and otherwise visits the children.
\<close>

fun visit_find :: "(node \<Rightarrow> bool) \<Rightarrow> node \<Rightarrow> bool \<Rightarrow> bool" where
  "visit_find test n found =
     (if found then found
      else if test n then True
      else fold (visit_find test) (children n) found)"

declare visit_find.simps [simp del]

definition fileContainsIdentifier :: "node \<Rightarrow> string \<Rightarrow> bool" where
  "fileContainsIdentifier sourceFile identifierText =
     visit_find (\<lambda>n. n = Identifier identifierText) sourceFile False"

definition fileContainsLiteral :: "node \<Rightarrow> string \<Rightarrow> bool" where
  "fileContainsLiteral sourceFile literalText =
     visit_find (\<lambda>n. n = StringLiteral literalText) sourceFile False"

text \<open>
  \<open>listFilesRecursive\<close>: the files below a directory, in listing order, without what
  is below \<open>node_modules\<close>, \<open>dist\<close> and \<open>.angular\<close>. \<open>listFilesIn dir entries\<close>
  is the loop over the \<open>entries\<close> that \<open>readdirSync(dir)\<close> returned; for an entry
  that is a directory, the recursive call reads the entries of that directory.
\<close>

definition skippedDirectory :: "string \<Rightarrow> bool" where
  "skippedDirectory name = (name = ''node_modules'' \<or> name = ''dist'' \<or> name = ''.angular'')"

fun listFilesIn :: "string \<Rightarrow> (string \<times> fsentry) list \<Rightarrow> string list" where
  "listFilesIn dir [] = []"
| "listFilesIn dir ((name, Directory es) # rest) =
     (if skippedDirectory name then [] else listFilesIn (path_join dir name) es)
       @ listFilesIn dir rest"
| "listFilesIn dir ((name, File sf) # rest) = path_join dir name # listFilesIn dir rest"
| "listFilesIn dir ((name, Link t) # rest) = listFilesIn dir rest"
| "listFilesIn dir ((name, Special) # rest) = listFilesIn dir rest"

definition listFilesRecursive :: "fsentry \<Rightarrow> string \<Rightarrow> string list option" where
  "listFilesRecursive root dir = map_option (listFilesIn dir) (readdirSync root dir)"

text \<open>\<open>verifyFeatureFolder\<close>: the required files that do not exist.\<close>

definition verifyFeatureFolder :: "fsentry \<Rightarrow> string \<Rightarrow> string \<Rightarrow> string list" where
  "verifyFeatureFolder root featureDir featureName =
     filter (\<lambda>f. \<not> existsSync root (path_join featureDir f))
       [featureName @ ''.routes.ts'', featureName @ ''.page.ts'',
        featureName @ ''.data.ts'', featureName @ ''.state.ts'']"

definition verifyNoStaticPageImportsInAppRoutes :: "fsentry \<Rightarrow> string \<Rightarrow> string list option" where
  "verifyNoStaticPageImportsInAppRoutes root file =
     (if \<not> existsSync root file then Some [''Missing '' @ file]
      else (case parseSource root file of
              None \<Rightarrow> None
            | Some sf \<Rightarrow>
                (let bad = filter (\<lambda>s. includes_str s ''.page'') (getImports sf) in
                 if bad \<noteq> []
                 then Some [''app.routes.ts must not statically import pages. Found:'' @ [CHR 0x0A]
                              @ join [CHR 0x0A] (map (\<lambda>b. ''  - '' @ b) bad)]
                 else Some [])))"

text \<open>The body of the loop of \<open>verifyNoHttpClientInDisallowedFiles\<close>, and the loop.\<close>

definition httpClient_file_errors :: "fsentry \<Rightarrow> string \<Rightarrow> string list option" where
  "httpClient_file_errors root fp =
     (if endsWith fp ''.page.ts'' \<or> endsWith fp ''.state.ts''
         \<or> endsWith fp ''.guard.ts'' \<or> endsWith fp ''.guards.ts''
      then (case parseSource root fp of
              None \<Rightarrow> None
            | Some sf \<Rightarrow>
                if ''@angular/common/http'' \<in> set (getImports sf)
                   \<and> fileContainsIdentifier sf ''HttpClient''
                then Some [''HttpClient is not allowed in '' @ fp @ '' (use *.data.ts or core/api).'']
                else Some [])
      else Some [])"

definition verifyNoHttpClientInDisallowedFiles :: "fsentry \<Rightarrow> string list \<Rightarrow> string list option" where
  "verifyNoHttpClientInDisallowedFiles root files =
     map_option concat (those (map (httpClient_file_errors root) files))"

text \<open>The body of the loop of \<open>verifyNoProvidedInRootInFeatures\<close>, and the loop.\<close>

definition providedIn_file_errors :: "fsentry \<Rightarrow> string \<Rightarrow> string \<Rightarrow> string list option" where
  "providedIn_file_errors root dir fp =
     (if \<not> startsWith fp (dir @ ''/'') then Some []
      else if \<not> endsWith fp ''.ts'' then Some []
      else (case parseSource root fp of
              None \<Rightarrow> None
            | Some sf \<Rightarrow>
                if fileContainsIdentifier sf ''providedIn'' \<and> fileContainsLiteral sf ''root''
                then Some [''Avoid providedIn: 'root' in features: '' @ fp
                             @ ''. Provide via route-level providers.'']
                else Some []))"

definition verifyNoProvidedInRootInFeatures :: "fsentry \<Rightarrow> string list \<Rightarrow> string \<Rightarrow> string list option" where
  "verifyNoProvidedInRootInFeatures root files dir =
     map_option concat (those (map (providedIn_file_errors root dir) files))"

text \<open>\<open>routeObjectHasProviders\<close>, on the properties of the object.\<close>

fun routeObjectHasProviders :: "node list \<Rightarrow> bool" where
  "routeObjectHasProviders [] = False"
| "routeObjectHasProviders (PropertyAssignment n i # ps) =
     (if getPropName n = Some ''providers'' then True else routeObjectHasProviders ps)"
| "routeObjectHasProviders (p # ps) = routeObjectHasProviders ps"

text \<open>The body of the loop of \<open>verifyFeatureRouteProviders\<close>, and the function.\<close>

fun first_route_provider_errors :: "string \<Rightarrow> string \<times> node list \<Rightarrow> string list" where
  "first_route_provider_errors filePath (name, ObjectLiteralExpression props # rest) =
     (if \<not> routeObjectHasProviders props
      then [exportPrefix filePath name @ '' first route must declare providers: [ ... ].'']
      else [])"
| "first_route_provider_errors filePath (name, elements) =
     [exportPrefix filePath name @ '' must start with a route object.'']"

definition verifyFeatureRouteProviders :: "fsentry \<Rightarrow> string \<Rightarrow> string \<Rightarrow> string list option" where
  "verifyFeatureRouteProviders root featureDir featureName =
     (let filePath = path_join featureDir (featureName @ ''.routes.ts'') in
      if \<not> existsSync root filePath then Some [''Missing '' @ filePath]
      else (case parseSource root filePath of
              None \<Rightarrow> None
            | Some sf \<Rightarrow>
                (let exportedArrays = findExportedRoutesArrays sf in
                 if exportedArrays = []
                 then Some [filePath @ '' must export a Routes array: export const ... = [ ... ]'']
                 else Some (concat (map (first_route_provider_errors filePath) exportedArrays)))))"

text \<open>
  \<open>main\<close>. \<open>feature_folder_errors\<close> is its loop over the feature names that pushes
  the missing required files; \<open>app_tree_errors\<close> is the block under
  \<open>if (exists(appRoot))\<close>; \<open>structure_errors\<close> is the list \<open>errors\<close> at the end,
  given the \<open>featureNames\<close> that \<open>listDirs(featuresDir)\<close> returned.
\<close>

definition missing_files_message :: "string \<Rightarrow> string \<Rightarrow> string list \<Rightarrow> string" where
  "missing_files_message featureDir f missing =
     ''Feature \"'' @ f @ ''\" missing required files:'' @ [CHR 0x0A]
       @ join [CHR 0x0A] (map (\<lambda>m. ''  - '' @ path_join featureDir m) missing)"

fun feature_folder_errors :: "fsentry \<Rightarrow> string \<Rightarrow> string list \<Rightarrow> string list" where
  "feature_folder_errors root dir [] = []"
| "feature_folder_errors root dir (f # fs) =
     (let featureDir = path_join dir f;
          missing = verifyFeatureFolder root featureDir f
      in (if missing \<noteq> [] then [missing_files_message featureDir f missing] else [])
           @ feature_folder_errors root dir fs)"

definition app_tree_errors :: "fsentry \<Rightarrow> workspace \<Rightarrow> string list \<Rightarrow> string list option" where
  "app_tree_errors root ctx featureNames =
     (case listFilesRecursive root (appRoot ctx) of
        None \<Rightarrow> None
      | Some files \<Rightarrow>
          (let appFiles = filter (\<lambda>fp. endsWith fp ''.ts'') files in
           case verifyNoHttpClientInDisallowedFiles root appFiles of
             None \<Rightarrow> None
           | Some http \<Rightarrow>
               (case verifyNoProvidedInRootInFeatures root appFiles (featuresDir ctx) of
                  None \<Rightarrow> None
                | Some provided \<Rightarrow>
                    (case those (map (\<lambda>f. verifyFeatureRouteProviders root
                                             (path_join (featuresDir ctx) f) f) featureNames) of
                       None \<Rightarrow> None
                     | Some providers \<Rightarrow> Some (http @ provided @ concat providers)))))"

definition structure_errors :: "fsentry \<Rightarrow> workspace \<Rightarrow> string list \<Rightarrow> string list option" where
  "structure_errors root ctx featureNames =
     (case verifyNoStaticPageImportsInAppRoutes root (appRoutesFile ctx) of
        None \<Rightarrow> None
      | Some static \<Rightarrow>
          (case (if existsSync root (appRoot ctx) then app_tree_errors root ctx featureNames
                 else Some []) of
             None \<Rightarrow> None
           | Some tree \<Rightarrow>
               Some ((if \<not> existsSync root (appRoot ctx)
                      then [''App root not found: '' @ appRoot ctx] else [])
                     @ (if \<not> existsSync root (featuresDir ctx)
                        then [''Features dir not found: '' @ featuresDir ctx] else [])
                     @ (if featureNames = []
                        then [''No feature folders found in '' @ featuresDir ctx
                                @ ''. Create at least one feature via pnpm gen:feature.'']
                        else [])
                     @ feature_folder_errors root (featuresDir ctx) featureNames
                     @ static @ tree)))"

definition structure_main :: "(string \<Rightarrow> string \<Rightarrow> string) \<Rightarrow> fsentry \<Rightarrow> workspace \<Rightarrow> outcome option" where
  "structure_main relative root ctx =
     (case listDirs root (featuresDir ctx) of
        None \<Rightarrow> None
      | Some featureNames \<Rightarrow>
          (case structure_errors root ctx featureNames of
             None \<Rightarrow> None
           | Some errors \<Rightarrow>
               if errors \<noteq> []
               then Some (Exit1 (''Structure verification failed (''
                                  @ number_toString (length errors) @ '' issue(s)):'' @ [CHR 0x0A])
                               errors)
               else Some (Exit0 (''OK: structure verified for appRoot=''
                                  @ relative (workspaceRoot ctx) (appRoot ctx) @ '' (''
                                  @ number_toString (length featureNames) @ '' feature(s)).''))))"

section \<open>Properties of the structure checker and of the two \<open>main\<close>s\<close>

lemma split_nonempty: "split c s \<noteq> []"
  by (induction s) (auto split: list.split)

lemma split_no_separator: "c \<notin> set s \<Longrightarrow> split c s = [s]"
  by (induction s) auto

lemma split_append_separator: "split c (a @ c # b) = split c a @ split c b"
proof (induction a)
  case Nil
  then show ?case by simp
next
  case (Cons x a)
  then show ?case
    using split_nonempty [of c a] by (cases "split c a") auto
qed

lemma segments_path_join:
  assumes "name \<noteq> []" and "CHR ''/'' \<notin> set name"
  shows "segments (path_join dir name) = segments dir @ [name]"
  using assms
  by (simp add: segments_def path_join_def split_append_separator split_no_separator)

lemma follow_idem: "follow e = Some e' \<Longrightarrow> follow e' = Some e'"
  by (induction e rule: follow.induct) auto

lemma walk_follow: "follow e = Some e' \<Longrightarrow> walk e xs = walk e' xs"
  by (cases xs) (simp_all add: follow_idem)

lemma walk_dangling: "follow e = None \<Longrightarrow> walk e xs = None"
  by (cases xs) simp_all

lemma walk_append:
  "walk e (xs @ ys) = (case walk e xs of None \<Rightarrow> None | Some e' \<Rightarrow> walk e' ys)"
proof (induction xs arbitrary: e)
  case Nil
  show ?case
    by (cases "follow e") (simp_all add: walk_dangling walk_follow)
next
  case (Cons x xs)
  then show ?case
    by (simp split: option.split fsentry.split)
qed

text \<open>
  A well-formed tree: the names of a directory are distinct, non-empty and without a
  separator.
\<close>

fun wf_fs :: "fsentry \<Rightarrow> bool" where
  "wf_fs (Directory es) =
     (distinct (map fst es)
      \<and> list_all (\<lambda>d. fst d \<noteq> [] \<and> CHR ''/'' \<notin> set (fst d) \<and> wf_fs (snd d)) es)"
| "wf_fs (Link (Some e)) = wf_fs e"
| "wf_fs _ = True"

lemma wf_fs_child: "wf_fs (Directory es) \<Longrightarrow> (name, e) \<in> set es \<Longrightarrow> wf_fs e"
  by (auto simp: list_all_iff)

lemma wf_fs_follow: "wf_fs e \<Longrightarrow> follow e = Some e' \<Longrightarrow> wf_fs e'"
  by (induction e rule: follow.induct) auto

lemma wf_fs_walk: "wf_fs e \<Longrightarrow> walk e xs = Some e' \<Longrightarrow> wf_fs e'"
proof (induction xs arbitrary: e)
  case Nil
  then show ?case
    by (auto dest: wf_fs_follow)
next
  case (Cons s ss)
  from Cons.prems(2) obtain es d where f: "follow e = Some (Directory es)"
    and d: "map_of es s = Some d" and w: "walk d ss = Some e'"
    by (auto split: option.splits fsentry.splits)
  from Cons.prems(1) f have "wf_fs (Directory es)"
    by (rule wf_fs_follow)
  moreover from d have "(s, d) \<in> set es"
    by (rule map_of_SomeD)
  ultimately have "wf_fs d"
    by (rule wf_fs_child)
  with Cons.IH w show ?case
    by blast
qed

lemma walk_child:
  assumes "walk root (segments dir) = Some (Directory es)"
    and "wf_fs (Directory es)" and "(name, e) \<in> set es"
  shows "walk root (segments (path_join dir name)) = follow e"
proof -
  from assms(2,3) have "name \<noteq> []" and "CHR ''/'' \<notin> set name"
    by (auto simp: list_all_iff)
  then have "segments (path_join dir name) = segments dir @ [name]"
    by (rule segments_path_join)
  moreover from assms(2,3) have "map_of es name = Some e"
    by simp
  ultimately show ?thesis
    using assms(1) by (simp add: walk_append)
qed

lemma listFilesIn_files:
  assumes "walk root (segments dir) = Some (Directory es)"
    and "wf_fs (Directory es)" and "set entries \<subseteq> set es"
    and "p \<in> set (listFilesIn dir entries)"
  shows "\<exists>sf. walk root (segments p) = Some (File sf)"
  using assms
proof (induction dir entries arbitrary: es rule: listFilesIn.induct)
  case (1 dir)
  then show ?case by simp
next
  case (2 dir name es' rest)
  from "2.prems"(3) have mem: "(name, Directory es') \<in> set es" and rest: "set rest \<subseteq> set es"
    by auto
  from "2.prems"(4) consider
    (below) "\<not> skippedDirectory name" "p \<in> set (listFilesIn (path_join dir name) es')"
    | (later) "p \<in> set (listFilesIn dir rest)"
    by (auto split: if_splits)
  then show ?case
  proof cases
    case below
    have "walk root (segments (path_join dir name)) = Some (Directory es')"
      using walk_child [OF "2.prems"(1,2) mem] by simp
    moreover from "2.prems"(2) mem have "wf_fs (Directory es')"
      by (rule wf_fs_child)
    ultimately show ?thesis
      using "2.IH"(1) [OF below(1) _ _ _ below(2), of es'] by simp
  next
    case later
    with "2.IH"(2) [OF "2.prems"(1,2) rest] show ?thesis
      by simp
  qed
next
  case (3 dir name sf rest)
  from "3.prems"(3) have mem: "(name, File sf) \<in> set es" and rest: "set rest \<subseteq> set es"
    by auto
  from "3.prems"(4) consider (here) "p = path_join dir name" | (later) "p \<in> set (listFilesIn dir rest)"
    by auto
  then show ?case
  proof cases
    case here
    with walk_child [OF "3.prems"(1,2) mem] show ?thesis
      by simp
  next
    case later
    with "3.IH" [OF "3.prems"(1,2) rest] show ?thesis
      by simp
  qed
next
  case (4 dir name t rest)
  from "4.prems"(3) have rest: "set rest \<subseteq> set es"
    by auto
  with "4.IH" [OF "4.prems"(1,2) rest] "4.prems"(4) show ?case
    by simp
next
  case (5 dir name rest)
  from "5.prems"(3) have rest: "set rest \<subseteq> set es"
    by auto
  with "5.IH" [OF "5.prems"(1,2) rest] "5.prems"(4) show ?case
    by simp
qed

lemma those_map_Some:
  "(\<And>x. x \<in> set xs \<Longrightarrow> f x \<noteq> None) \<Longrightarrow> \<exists>ys. those (map f xs) = Some ys"
  by (induction xs) (auto split: option.split)


lemma parseSource_listed:
  assumes "wf_fs root" and "lookup root dir = Some (Directory es)"
    and "p \<in> set (listFilesIn dir es)"
  shows "parseSource root p \<noteq> None"
proof -
  from assms(1,2) have "wf_fs (Directory es)"
    by (auto simp: lookup_def dest: wf_fs_walk)
  with assms(2,3) obtain sf where "walk root (segments p) = Some (File sf)"
    using listFilesIn_files [of root dir es es p] by (auto simp: lookup_def)
  then show ?thesis
    by (simp add: parseSource_def lookup_def)
qed

lemma httpClient_file_errors_total:
  "parseSource root fp \<noteq> None \<Longrightarrow> httpClient_file_errors root fp \<noteq> None"
  by (auto simp: httpClient_file_errors_def split: option.split)

lemma providedIn_file_errors_total:
  "parseSource root fp \<noteq> None \<Longrightarrow> providedIn_file_errors root dir fp \<noteq> None"
  by (auto simp: providedIn_file_errors_def split: option.split)

lemma app_tree_errors_total:
  assumes "wf_fs root" and "lookup root (appRoot ctx) = Some (Directory es)"
  shows "\<exists>tree. app_tree_errors root ctx [] = Some tree"
proof -
  let ?appFiles = "filter (\<lambda>fp. endsWith fp ''.ts'') (listFilesIn (appRoot ctx) es)"
  have listed: "listFilesRecursive root (appRoot ctx) = Some (listFilesIn (appRoot ctx) es)"
    using assms(2) by (simp add: listFilesRecursive_def readdirSync_def)
  have parses: "parseSource root fp \<noteq> None" if "fp \<in> set ?appFiles" for fp
    using that parseSource_listed [OF assms] by simp
  obtain http where http: "verifyNoHttpClientInDisallowedFiles root ?appFiles = Some http"
    using those_map_Some [of ?appFiles "httpClient_file_errors root"]
      httpClient_file_errors_total parses
    by (auto simp: verifyNoHttpClientInDisallowedFiles_def)
  obtain provided where provided:
    "verifyNoProvidedInRootInFeatures root ?appFiles (featuresDir ctx) = Some provided"
    using those_map_Some [of ?appFiles "providedIn_file_errors root (featuresDir ctx)"]
      providedIn_file_errors_total parses
    by (auto simp: verifyNoProvidedInRootInFeatures_def)
  show ?thesis
    by (simp add: app_tree_errors_def listed http provided)
qed

lemma verifyNoStaticPageImports_total:
  assumes "lookup root file = None \<or> (\<exists>sf. lookup root file = Some (File sf))"
  shows "\<exists>static. verifyNoStaticPageImportsInAppRoutes root file = Some static"
  using assms
  by (auto simp: verifyNoStaticPageImportsInAppRoutes_def existsSync_def parseSource_def Let_def)

lemma listDirs_absent: "\<not> existsSync root dir \<Longrightarrow> listDirs root dir = Some []"
  by (simp add: listDirs_def)

text \<open>
  Claim C3, as amended. In a well-formed tree where the features directory does not
  exist (the app root being a directory or absent, \<open>app.routes.ts\<close> a regular file or
  absent), the structure checker ends with status 1 and reports at least two
  violations, among them \<open>Features dir not found\<close> and \<open>No feature folders found\<close>;
  the feature-route provider checker ends with status 0 and the summary line for zero
  features.
\<close>

theorem absent_features_dir:
  assumes "wf_fs root"
    and "\<not> existsSync root (featuresDir ctx)"
    and "lookup root (appRoot ctx) = None \<or> (\<exists>es. lookup root (appRoot ctx) = Some (Directory es))"
    and "lookup root (appRoutesFile ctx) = None
         \<or> (\<exists>sf. lookup root (appRoutesFile ctx) = Some (File sf))"
  shows "(\<exists>header errors.
            structure_main relative root ctx = Some (Exit1 header errors) \<and>
            ''Features dir not found: '' @ featuresDir ctx \<in> set errors \<and>
            ''No feature folders found in '' @ featuresDir ctx
               @ ''. Create at least one feature via pnpm gen:feature.'' \<in> set errors \<and>
            2 \<le> length errors) \<and>
         feature_routes_main relative root ctx =
           Some (Exit0 (''OK: feature routes verified (0 feature(s)) for ''
                          @ relative (workspaceRoot ctx) (featuresDir ctx) @ ''.''))"
proof -
  note dirs = listDirs_absent [OF assms(2)]
  obtain static where static:
    "verifyNoStaticPageImportsInAppRoutes root (appRoutesFile ctx) = Some static"
    using verifyNoStaticPageImports_total [OF assms(4)] by blast
  have "\<exists>tree. (if existsSync root (appRoot ctx) then app_tree_errors root ctx []
                 else Some []) = Some tree"
  proof (cases "existsSync root (appRoot ctx)")
    case True
    with assms(3) obtain es where "lookup root (appRoot ctx) = Some (Directory es)"
      by (auto simp: existsSync_def)
    with True show ?thesis
      using app_tree_errors_total [OF assms(1), of ctx es] by simp
  next
    case False
    then show ?thesis
      by simp
  qed
  then obtain tree where tree:
    "(if existsSync root (appRoot ctx) then app_tree_errors root ctx [] else Some []) = Some tree"
    by blast
  define before where
    "before = (if \<not> existsSync root (appRoot ctx)
               then [''App root not found: '' @ appRoot ctx] else [])"
  have errors: "structure_errors root ctx [] =
          Some (before @ [''Features dir not found: '' @ featuresDir ctx,
                          ''No feature folders found in '' @ featuresDir ctx
                            @ ''. Create at least one feature via pnpm gen:feature.'']
                  @ static @ tree)"
    using assms(2) by (simp add: structure_errors_def static tree before_def)
  have "number_toString 0 = ''0''"
    by (simp add: number_toString.simps digit_char_def)
  then have routes: "feature_routes_main relative root ctx =
           Some (Exit0 (''OK: feature routes verified (0 feature(s)) for ''
                          @ relative (workspaceRoot ctx) (featuresDir ctx) @ ''.''))"
    by (simp add: feature_routes_main_def dirs)
  show ?thesis
    by (simp add: structure_main_def dirs errors routes)
qed


text \<open>
  Concrete workspaces. The workspace root is \<open>/w\<close>; \<open>appRoutesSource\<close> is the
  repository's \<open>app.routes.ts\<close>. In \<open>fsNoFeatures\<close> the app root has no
  \<open>features\<close> directory; in \<open>fsTwoMissing\<close> the feature \<open>a\<close> has its routes and
  state files and neither \<open>a.page.ts\<close> nor \<open>a.data.ts\<close>.
\<close>

definition exampleWorkspace :: workspace where
  "exampleWorkspace =
     \<lparr>workspaceRoot = ''/w'', appRoot = ''/w/src/app'',
      featuresDir = ''/w/src/app/features'', appRoutesFile = ''/w/src/app/app.routes.ts''\<rparr>"

definition appRoutesSource :: node where
  "appRoutesSource =
     SourceFile
       [ImportDeclaration [Identifier ''Routes''] (StringLiteral ''@angular/router'') [],
        VariableStatement True
          [(Identifier ''routes'', Some (OtherNode [Identifier ''Routes'']),
            Some (ArrayLiteralExpression
                    [ObjectLiteralExpression exampleRedirectRoute,
                     ObjectLiteralExpression exampleHomeRoute,
                     ObjectLiteralExpression exampleWildcardRoute]))]]"

definition workspaceTree :: "(string \<times> fsentry) list \<Rightarrow> fsentry" where
  "workspaceTree appEntries =
     Directory
       [(''w'', Directory
           [(''angular.json'', File (SourceFile [])),
            (''src'', Directory [(''app'', Directory appEntries)])])]"

definition fsNoFeatures :: fsentry where
  "fsNoFeatures = workspaceTree [(''app.routes.ts'', File appRoutesSource)]"

definition fsTwoMissing :: fsentry where
  "fsTwoMissing =
     workspaceTree
       [(''app.routes.ts'', File appRoutesSource),
        (''features'', Directory
           [(''a'', Directory
               [(''a.routes.ts'',
                 File (routesFileOf ''A_ROUTES''
                         [ObjectLiteralExpression (homeRouteWithProviders homeProviders)])),
                (''a.state.ts'', File (SourceFile []))])])]"

lemma exampleWorkspace_fields:
  "workspaceRoot exampleWorkspace = ''/w''"
  "appRoot exampleWorkspace = ''/w/src/app''"
  "featuresDir exampleWorkspace = ''/w/src/app/features''"
  "appRoutesFile exampleWorkspace = ''/w/src/app/app.routes.ts''"
  by (simp_all add: exampleWorkspace_def)

lemmas path_eval =
  lookup_def segments_def existsSync_def readdirSync_def parseSource_def path_join_def
  listDirs_def listFilesRecursive_def startsWith_def endsWith_def skippedDirectory_def

lemma fsNoFeatures_lookups:
  "\<not> existsSync fsNoFeatures (featuresDir exampleWorkspace)"
  "lookup fsNoFeatures (appRoot exampleWorkspace)
     = Some (Directory [(''app.routes.ts'', File appRoutesSource)])"
  "lookup fsNoFeatures (appRoutesFile exampleWorkspace) = Some (File appRoutesSource)"
  "wf_fs fsNoFeatures"
  by (simp_all add: fsNoFeatures_def workspaceTree_def exampleWorkspace_def path_eval)

lemma getImports_appRoutesSource: "getImports appRoutesSource = [''@angular/router'']"
  by (simp add: getImports_def appRoutesSource_def)

lemma structure_main_fsNoFeatures:
  "structure_main relative fsNoFeatures exampleWorkspace =
     Some (Exit1 (''Structure verification failed (2 issue(s)):'' @ [CHR 0x0A])
             [''Features dir not found: /w/src/app/features'',
              ''No feature folders found in /w/src/app/features. Create at least one feature via pnpm gen:feature.''])"
proof -
  have dirs: "listDirs fsNoFeatures (featuresDir exampleWorkspace) = Some []"
    using fsNoFeatures_lookups(1) by (rule listDirs_absent)
  have static: "verifyNoStaticPageImportsInAppRoutes fsNoFeatures (appRoutesFile exampleWorkspace)
                  = Some []"
    using fsNoFeatures_lookups(3)
    by (simp add: verifyNoStaticPageImportsInAppRoutes_def existsSync_def parseSource_def
        getImports_appRoutesSource startsWith_def)
  have files: "listFilesRecursive fsNoFeatures ''/w/src/app''
                 = Some [''/w/src/app/app.routes.ts'']"
    using fsNoFeatures_lookups(2)
    by (simp add: listFilesRecursive_def readdirSync_def exampleWorkspace_fields path_join_def)
  have tree: "app_tree_errors fsNoFeatures exampleWorkspace [] = Some []"
    by (simp add: app_tree_errors_def exampleWorkspace_fields files endsWith_def startsWith_def
        verifyNoHttpClientInDisallowedFiles_def httpClient_file_errors_def
        verifyNoProvidedInRootInFeatures_def providedIn_file_errors_def)
  have errors: "structure_errors fsNoFeatures exampleWorkspace [] =
     Some [''Features dir not found: /w/src/app/features'',
           ''No feature folders found in /w/src/app/features. Create at least one feature via pnpm gen:feature.'']"
    using fsNoFeatures_lookups(1,2)
    by (simp add: structure_errors_def static tree existsSync_def)
       (simp add: exampleWorkspace_fields)
  show ?thesis
    by (simp add: structure_main_def dirs errors number_toString.simps digit_char_def)
qed

text \<open>Claim C3 at \<open>fsNoFeatures\<close>.\<close>

theorem absent_features_dir_witness:
  "(\<exists>header errors.
      structure_main (\<lambda>from to. to) fsNoFeatures exampleWorkspace = Some (Exit1 header errors) \<and>
      2 \<le> length errors) \<and>
   feature_routes_main (\<lambda>from to. to) fsNoFeatures exampleWorkspace =
     Some (Exit0 ''OK: feature routes verified (0 feature(s)) for /w/src/app/features.'')"
  using absent_features_dir [of fsNoFeatures exampleWorkspace "\<lambda>from to. to"] fsNoFeatures_lookups
  by (auto simp: exampleWorkspace_fields)

text \<open>
  Claim C3 as stated fails: at \<open>fsNoFeatures\<close> the structure checker reports two
  violations, not one.
\<close>

theorem absent_features_dir_single_counterexample:
  "\<not> (\<forall>relative root ctx.
        \<not> existsSync root (featuresDir ctx) \<longrightarrow>
        (\<exists>header e. structure_main relative root ctx = Some (Exit1 header [e])))"
proof
  assume "\<forall>relative root ctx.
        \<not> existsSync root (featuresDir ctx) \<longrightarrow>
        (\<exists>header e. structure_main relative root ctx = Some (Exit1 header [e]))"
  with fsNoFeatures_lookups(1)
  obtain header e where
    "structure_main (\<lambda>from to. to) fsNoFeatures exampleWorkspace = Some (Exit1 header [e])"
    by blast
  then show False
    by (simp add: structure_main_fsNoFeatures)
qed

lemma feature_folder_errors_eq:
  "feature_folder_errors root dir names =
     map (\<lambda>f. missing_files_message (path_join dir f) f
                 (verifyFeatureFolder root (path_join dir f) f))
       (filter (\<lambda>f. verifyFeatureFolder root (path_join dir f) f \<noteq> []) names)"
  by (induction names) (simp_all add: Let_def)

lemma structure_main_reports_folders:
  assumes "listDirs root (featuresDir ctx) = Some featureNames"
    and "structure_main relative root ctx = Some (Exit1 header errors)"
  shows "set (feature_folder_errors root (featuresDir ctx) featureNames) \<subseteq> set errors"
proof -
  from assms obtain errs where errs: "structure_errors root ctx featureNames = Some errs"
    and "errors = errs"
    by (auto simp: structure_main_def split: option.splits if_splits)
  from errs have "set (feature_folder_errors root (featuresDir ctx) featureNames) \<subseteq> set errs"
    by (auto simp: structure_errors_def split: option.splits)
  with \<open>errors = errs\<close> show ?thesis
    by simp
qed

lemma fsTwoMissing_lookups:
  "lookup fsTwoMissing ''/w/src/app'' \<noteq> None"
  "lookup fsTwoMissing ''/w/src/app/features'' \<noteq> None"
  "listDirs fsTwoMissing ''/w/src/app/features'' = Some [''a'']"
  "verifyFeatureFolder fsTwoMissing ''/w/src/app/features/a'' ''a'' = [''a.page.ts'', ''a.data.ts'']"
  "parseSource fsTwoMissing ''/w/src/app/app.routes.ts'' = Some appRoutesSource"
  "parseSource fsTwoMissing ''/w/src/app/features/a/a.routes.ts''
     = Some (routesFileOf ''A_ROUTES'' [ObjectLiteralExpression (homeRouteWithProviders homeProviders)])"
  "parseSource fsTwoMissing ''/w/src/app/features/a/a.state.ts'' = Some (SourceFile [])"
  "listFilesRecursive fsTwoMissing ''/w/src/app''
     = Some [''/w/src/app/app.routes.ts'', ''/w/src/app/features/a/a.routes.ts'',
             ''/w/src/app/features/a/a.state.ts'']"
  by (simp_all add: fsTwoMissing_def workspaceTree_def verifyFeatureFolder_def path_eval)

lemma structure_errors_fsTwoMissing:
  "structure_errors fsTwoMissing exampleWorkspace [''a''] =
     Some [''Feature \"a\" missing required files:'' @ [CHR 0x0A]
             @ ''  - /w/src/app/features/a/a.page.ts'' @ [CHR 0x0A]
             @ ''  - /w/src/app/features/a/a.data.ts'']"
proof -
  have static: "verifyNoStaticPageImportsInAppRoutes fsTwoMissing ''/w/src/app/app.routes.ts''
                  = Some []"
    using fsTwoMissing_lookups(5)
    by (simp add: verifyNoStaticPageImportsInAppRoutes_def existsSync_def parseSource_def
        getImports_appRoutesSource startsWith_def split: option.splits fsentry.splits)
  have a_exports: "findExportedRoutesArrays
          (routesFileOf ''A_ROUTES'' [ObjectLiteralExpression (homeRouteWithProviders homeProviders)])
        = [(''A_ROUTES'', [ObjectLiteralExpression (homeRouteWithProviders homeProviders)])]"
    by (simp add: routesFileOf_def findExportedRoutesArrays.simps homeRouteWithProviders_def
        homeProviders_def lazyImport_def)
  have providers: "verifyFeatureRouteProviders fsTwoMissing ''/w/src/app/features/a'' ''a'' = Some []"
    using fsTwoMissing_lookups(6)
    by (simp add: verifyFeatureRouteProviders_def path_join_def existsSync_def parseSource_def
        a_exports split: option.splits fsentry.splits)
       (simp add: homeRouteWithProviders_def)
  have http: "verifyNoHttpClientInDisallowedFiles fsTwoMissing
                [''/w/src/app/app.routes.ts'', ''/w/src/app/features/a/a.routes.ts'',
                 ''/w/src/app/features/a/a.state.ts''] = Some []"
    by (simp add: verifyNoHttpClientInDisallowedFiles_def httpClient_file_errors_def
        fsTwoMissing_lookups(7) endsWith_def getImports_def)
  have provided: "verifyNoProvidedInRootInFeatures fsTwoMissing
                [''/w/src/app/app.routes.ts'', ''/w/src/app/features/a/a.routes.ts'',
                 ''/w/src/app/features/a/a.state.ts''] ''/w/src/app/features'' = Some []"
    by (simp add: verifyNoProvidedInRootInFeatures_def providedIn_file_errors_def
        fsTwoMissing_lookups(6,7) endsWith_def startsWith_def
        fileContainsIdentifier_def fileContainsLiteral_def visit_find.simps routesFileOf_def
        homeRouteWithProviders_def homeProviders_def lazyImport_def)
  have tree: "app_tree_errors fsTwoMissing exampleWorkspace [''a''] = Some []"
    by (simp add: app_tree_errors_def exampleWorkspace_fields fsTwoMissing_lookups(8)
        endsWith_def http provided)
       (simp add: path_join_def providers)
  show ?thesis
    using fsTwoMissing_lookups(1,2)
    by (simp add: structure_errors_def exampleWorkspace_fields static tree existsSync_def
        fsTwoMissing_lookups(4) path_join_def missing_files_message_def)
qed

text \<open>
  Claim C7 as stated fails: at \<open>fsTwoMissing\<close> two required files are missing and the
  run reports one violation.
\<close>

theorem one_violation_per_file_counterexample:
  "\<not> (\<forall>relative root ctx featureNames header errors.
        listDirs root (featuresDir ctx) = Some featureNames \<and>
        structure_main relative root ctx = Some (Exit1 header errors) \<longrightarrow>
        length (concat (map (\<lambda>f. verifyFeatureFolder root (path_join (featuresDir ctx) f) f)
                          featureNames))
          \<le> length errors)"
proof
  assume claim: "\<forall>relative root ctx featureNames header errors.
        listDirs root (featuresDir ctx) = Some featureNames \<and>
        structure_main relative root ctx = Some (Exit1 header errors) \<longrightarrow>
        length (concat (map (\<lambda>f. verifyFeatureFolder root (path_join (featuresDir ctx) f) f)
                          featureNames))
          \<le> length errors"
  have dirs: "listDirs fsTwoMissing (featuresDir exampleWorkspace) = Some [''a'']"
    by (simp add: exampleWorkspace_fields fsTwoMissing_lookups(3))
  have run: "structure_main (\<lambda>from to. to) fsTwoMissing exampleWorkspace =
     Some (Exit1 (''Structure verification failed (1 issue(s)):'' @ [CHR 0x0A])
             [''Feature \"a\" missing required files:'' @ [CHR 0x0A]
                @ ''  - /w/src/app/features/a/a.page.ts'' @ [CHR 0x0A]
                @ ''  - /w/src/app/features/a/a.data.ts''])"
    by (simp add: structure_main_def dirs structure_errors_fsTwoMissing
        number_toString.simps digit_char_def)
  from claim dirs run
  have "length (concat (map (\<lambda>f. verifyFeatureFolder fsTwoMissing
                                     (path_join (featuresDir exampleWorkspace) f) f) [''a'']))
          \<le> length [''Feature \"a\" missing required files:'' @ [CHR 0x0A]
                @ ''  - /w/src/app/features/a/a.page.ts'' @ [CHR 0x0A]
                @ ''  - /w/src/app/features/a/a.data.ts'']"
    by blast
  then show False
    by (simp add: exampleWorkspace_fields path_join_def fsTwoMissing_lookups(4))
qed

section \<open>The cross-feature import checker (\<open>verify-no-cross-feature-imports.mjs\<close>)\<close>

text \<open>
  \<open>path.dirname\<close> and \<open>path.resolve\<close> are functions of Node's library, not of the
  repository. They are modelled after Node's POSIX implementation, for the arguments
  that the checker passes: \<open>path_dirname\<close> for a path without a trailing separator,
  \<open>path_resolve dir spec\<close> for an absolute \<open>dir\<close> and a \<open>spec\<close> that does not start
  with a separator. Resolving joins the two with a separator and normalises the
  segments: empty segments and \<open>.\<close> are dropped, \<open>..\<close> removes the segment before it
  (nothing at the root).
\<close>

definition path_dirname :: "string \<Rightarrow> string" where
  "path_dirname p =
     (let parts = split CHR ''/'' p in
      if length parts \<le> 1 then ''.''
      else (let d = join ''/'' (butlast parts) in if d = [] then ''/'' else d))"

fun normalizeSegments :: "string list \<Rightarrow> string list \<Rightarrow> string list" where
  "normalizeSegments res [] = res"
| "normalizeSegments res (s # ss) =
     (if s = [] \<or> s = ''.'' then normalizeSegments res ss
      else if s = ''..'' then normalizeSegments (butlast res) ss
      else normalizeSegments (res @ [s]) ss)"

definition path_resolve :: "string \<Rightarrow> string \<Rightarrow> string" where
  "path_resolve dir spec =
     ''/'' @ join ''/'' (normalizeSegments [] (split CHR ''/'' (dir @ ''/'' @ spec)))"

text \<open>\<open>parts.lastIndexOf(x)\<close>, with \<open>None\<close> for \<open>-1\<close>.\<close>

fun lastIndexOf :: "'a list \<Rightarrow> 'a \<Rightarrow> nat option" where
  "lastIndexOf [] x = None"
| "lastIndexOf (y # ys) x =
     (case lastIndexOf ys x of
        Some i \<Rightarrow> Some (Suc i)
      | None \<Rightarrow> if y = x then Some 0 else None)"

definition featureOfFile :: "string \<Rightarrow> string option" where
  "featureOfFile filePath =
     (let parts = split CHR ''/'' filePath in
      case lastIndexOf parts ''features'' of
        None \<Rightarrow> None
      | Some idx \<Rightarrow> if idx + 1 < length parts then Some (parts ! (idx + 1)) else None)"

definition resolveRelative :: "string \<Rightarrow> string \<Rightarrow> string option" where
  "resolveRelative fromFile spec =
     (if \<not> startsWith spec ''.'' then None
      else Some (path_resolve (path_dirname fromFile) spec))"

text \<open>
  The checker's own \<open>listFilesRecursive\<close> keeps the regular files whose path ends in
  \<open>.ts\<close>.
\<close>

fun listTsFilesIn :: "string \<Rightarrow> (string \<times> fsentry) list \<Rightarrow> string list" where
  "listTsFilesIn dir [] = []"
| "listTsFilesIn dir ((name, Directory es) # rest) =
     (if skippedDirectory name then [] else listTsFilesIn (path_join dir name) es)
       @ listTsFilesIn dir rest"
| "listTsFilesIn dir ((name, File sf) # rest) =
     (if endsWith (path_join dir name) ''.ts'' then [path_join dir name] else [])
       @ listTsFilesIn dir rest"
| "listTsFilesIn dir ((name, Link t) # rest) = listTsFilesIn dir rest"
| "listTsFilesIn dir ((name, Special) # rest) = listTsFilesIn dir rest"

text \<open>
  The body of the loop \<open>for (const spec of imports)\<close>: the messages pushed for one
  import of the file \<open>fp\<close>, whose feature is \<open>fromFeature\<close>. A feature that is
  \<open>null\<close> or the empty string is falsy.
\<close>

definition cross_feature_message :: "string \<Rightarrow> string \<Rightarrow> string \<Rightarrow> string \<Rightarrow> string" where
  "cross_feature_message relativeFile fromFeature spec toFeature =
     ''Cross-feature import is not allowed:'' @ [CHR 0x0A]
       @ ''  from: '' @ relativeFile @ '' (feature='' @ fromFeature @ '')'' @ [CHR 0x0A]
       @ ''  import: '' @ spec @ [CHR 0x0A]
       @ ''  to-feature: '' @ toFeature"

definition import_violations ::
  "(string \<Rightarrow> string \<Rightarrow> string) \<Rightarrow> string \<Rightarrow> string \<Rightarrow> string \<Rightarrow> string \<Rightarrow> string list" where
  "import_violations relative wsRoot fp fromFeature spec =
     (case resolveRelative fp spec of
        None \<Rightarrow> []
      | Some resolved \<Rightarrow>
          if \<not> includes_str resolved (''features'' @ ''/'') then []
          else (case featureOfFile resolved of
                  None \<Rightarrow> []
                | Some toFeature \<Rightarrow>
                    if toFeature \<noteq> [] \<and> toFeature \<noteq> fromFeature
                    then [cross_feature_message (relative wsRoot fp) fromFeature spec toFeature]
                    else []))"

text \<open>The body of the loop \<open>for (const fp of featureFiles)\<close>, and \<open>main\<close>.\<close>

definition file_violations ::
  "(string \<Rightarrow> string \<Rightarrow> string) \<Rightarrow> fsentry \<Rightarrow> string \<Rightarrow> string \<Rightarrow> string list option" where
  "file_violations relative root wsRoot fp =
     (case featureOfFile fp of
        None \<Rightarrow> Some []
      | Some fromFeature \<Rightarrow>
          if fromFeature = [] then Some []
          else (case parseSource root fp of
                  None \<Rightarrow> None
                | Some sf \<Rightarrow>
                    Some (concat (map (import_violations relative wsRoot fp fromFeature)
                                    (getImports sf)))))"

definition cross_feature_main ::
  "(string \<Rightarrow> string \<Rightarrow> string) \<Rightarrow> fsentry \<Rightarrow> workspace \<Rightarrow> outcome option" where
  "cross_feature_main relative root ctx =
     (if \<not> existsSync root (featuresDir ctx)
      then Some (Exit0 (''OK: no features directory found at ''
                          @ relative (workspaceRoot ctx) (featuresDir ctx)
                          @ '' (nothing to check).''))
      else (case readdirSync root (featuresDir ctx) of
              None \<Rightarrow> None
            | Some entries \<Rightarrow>
                (case those (map (file_violations relative root (workspaceRoot ctx))
                                (listTsFilesIn (featuresDir ctx) entries)) of
                   None \<Rightarrow> None
                 | Some per_file \<Rightarrow>
                     (let errors = concat per_file in
                      if errors \<noteq> []
                      then Some (Exit1 (''Cross-feature import verification failed (''
                                         @ number_toString (length errors) @ '' issue(s)):''
                                         @ [CHR 0x0A])
                                      errors)
                      else Some (Exit0 (''OK: no cross-feature relative imports detected in ''
                                         @ relative (workspaceRoot ctx) (featuresDir ctx)
                                         @ ''.''))))))"

lemma includes_str_infix: "includes_str (a @ p @ c) p"
proof (induction a)
  case Nil
  show ?case
  proof (cases "p @ c")
    case Nil
    then show ?thesis by simp
  next
    case (Cons x xs)
    have "startsWith (p @ c) p"
      by (simp add: startsWith_def)
    with Cons show ?thesis
      by simp
  qed
next
  case (Cons x a)
  then show ?case by simp
qed

lemma join_split: "join [c] (split c s) = s"
proof (induction s)
  case Nil
  then show ?case by simp
next
  case (Cons x s)
  obtain p ps where ps: "split c s = p # ps"
    using split_nonempty [of c s] by (cases "split c s") auto
  show ?case
  proof (cases "x = c")
    case True
    with Cons ps show ?thesis by simp
  next
    case False
    with Cons ps show ?thesis
      by (cases ps) simp_all
  qed
qed

lemma join_middle:
  "join sep (pre @ f # t # post) = concat (map (\<lambda>x. x @ sep) pre) @ f @ sep @ join sep (t # post)"
proof (induction pre)
  case Nil
  then show ?case by simp
next
  case (Cons x pre)
  obtain y ys where "pre @ f # t # post = y # ys"
    by (cases "pre @ f # t # post") auto
  with Cons show ?case
    by simp
qed

lemma includes_segment:
  assumes "split c p = pre @ f # t # post"
  shows "includes_str p (f @ [c])"
proof -
  have "p = join [c] (pre @ f # t # post)"
    using join_split [of c p] assms by simp
  then have "p = concat (map (\<lambda>x. x @ [c]) pre) @ (f @ [c]) @ join [c] (t # post)"
    by (simp add: join_middle)
  then show ?thesis
    using includes_str_infix [of "concat (map (\<lambda>x. x @ [c]) pre)" "f @ [c]" "join [c] (t # post)"]
    by simp
qed

lemma lastIndexOf_None: "lastIndexOf xs x = None \<longleftrightarrow> x \<notin> set xs"
  by (induction xs) (auto split: option.splits)

lemma lastIndexOf_Some:
  "lastIndexOf xs x = Some i \<longleftrightarrow>
     (\<exists>pre rest. xs = pre @ x # rest \<and> x \<notin> set rest \<and> length pre = i)"
proof (induction xs arbitrary: i)
  case Nil
  then show ?case by simp
next
  case (Cons y ys)
  show ?case
  proof (cases "lastIndexOf ys x")
    case None
    then have notin: "x \<notin> set ys"
      by (simp add: lastIndexOf_None)
    show ?thesis
    proof
      assume "lastIndexOf (y # ys) x = Some i"
      with None have "y = x" and "i = 0"
        by (auto split: if_splits)
      with notin show "\<exists>pre rest. y # ys = pre @ x # rest \<and> x \<notin> set rest \<and> length pre = i"
        by (intro exI [of _ "[]"] exI [of _ ys]) simp
    next
      assume "\<exists>pre rest. y # ys = pre @ x # rest \<and> x \<notin> set rest \<and> length pre = i"
      then obtain pre rest where d: "y # ys = pre @ x # rest" "x \<notin> set rest" "length pre = i"
        by blast
      from d(1) notin have "pre = []"
        by (cases pre) auto
      with d None show "lastIndexOf (y # ys) x = Some i"
        by simp
    qed
  next
    case (Some j)
    then obtain pre rest where ys: "ys = pre @ x # rest" "x \<notin> set rest" "length pre = j"
      using Cons.IH [of j] by blast
    show ?thesis
    proof
      assume "lastIndexOf (y # ys) x = Some i"
      with Some have "i = Suc j"
        by simp
      with ys show "\<exists>pre rest. y # ys = pre @ x # rest \<and> x \<notin> set rest \<and> length pre = i"
        by (intro exI [of _ "y # pre"] exI [of _ rest]) simp
    next
      assume "\<exists>pre rest. y # ys = pre @ x # rest \<and> x \<notin> set rest \<and> length pre = i"
      then obtain pre' rest' where d: "y # ys = pre' @ x # rest'" "x \<notin> set rest'" "length pre' = i"
        by blast
      have "pre' \<noteq> []"
      proof
        assume "pre' = []"
        with d have "ys = rest'" by simp
        with d(2) ys(1) show False by simp
      qed
      then obtain pre'' where p: "pre' = y # pre''" "ys = pre'' @ x # rest'"
        using d(1) by (cases pre') auto
      with d(2) have "lastIndexOf ys x = Some (length pre'')"
        using Cons.IH [of "length pre''"] by blast
      with Some p d(3) show "lastIndexOf (y # ys) x = Some i"
        by simp
    qed
  qed
qed


text \<open>
  \<open>featureSegment p t\<close>: \<open>t\<close> is the segment of the path \<open>p\<close> that follows its last
  segment \<open>features\<close>. This is what \<open>featureOfFile\<close> returns.
\<close>

definition featureSegment :: "string \<Rightarrow> string \<Rightarrow> bool" where
  "featureSegment p t =
     (\<exists>pre post. split CHR ''/'' p = pre @ ''features'' # t # post
                  \<and> ''features'' \<notin> set (t # post))"

lemma featureOfFile_Some: "featureOfFile p = Some t \<longleftrightarrow> featureSegment p t"
proof
  assume "featureOfFile p = Some t"
  then obtain idx where idx: "lastIndexOf (split CHR ''/'' p) ''features'' = Some idx"
    and len: "idx + 1 < length (split CHR ''/'' p)"
    and t: "t = split CHR ''/'' p ! (idx + 1)"
    by (auto simp: featureOfFile_def Let_def split: option.splits if_splits)
  from idx obtain pre rest where d: "split CHR ''/'' p = pre @ ''features'' # rest"
    "''features'' \<notin> set rest" "length pre = idx"
    by (auto simp: lastIndexOf_Some)
  from d(1,3) len obtain t' post where rest: "rest = t' # post"
    by (cases rest) auto
  with d t have "t = t'"
    by (simp add: nth_append)
  with d rest show "featureSegment p t"
    by (auto simp: featureSegment_def)
next
  assume "featureSegment p t"
  then obtain pre post where d: "split CHR ''/'' p = pre @ ''features'' # t # post"
    "''features'' \<notin> set (t # post)"
    by (auto simp: featureSegment_def)
  then have "lastIndexOf (split CHR ''/'' p) ''features'' = Some (length pre)"
    using lastIndexOf_Some [of "split CHR ''/'' p" "''features''" "length pre"] by blast
  with d(1) show "featureOfFile p = Some t"
    by (simp add: featureOfFile_def nth_append)
qed

lemma featureSegment_includes: "featureSegment p t \<Longrightarrow> includes_str p ''features/''"
  using includes_segment [of "CHR ''/''" p _ "''features''" t]
  by (auto simp: featureSegment_def)

lemma import_violations_eq:
  "import_violations relative wsRoot fp fromFeature spec =
     (if startsWith spec ''.'' then
        (case featureOfFile (path_resolve (path_dirname fp) spec) of
           None \<Rightarrow> []
         | Some t \<Rightarrow>
             if t \<noteq> [] \<and> t \<noteq> fromFeature
             then [cross_feature_message (relative wsRoot fp) fromFeature spec t]
             else [])
      else [])"
proof (cases "featureOfFile (path_resolve (path_dirname fp) spec)")
  case None
  then show ?thesis
    by (simp add: import_violations_def resolveRelative_def)
next
  case (Some t)
  then have "includes_str (path_resolve (path_dirname fp) spec) ''features/''"
    by (simp add: featureOfFile_Some featureSegment_includes)
  with Some show ?thesis
    by (simp add: import_violations_def resolveRelative_def)
qed

lemma cross_feature_main_reports:
  assumes "readdirSync root (featuresDir ctx) = Some entries"
    and "fp \<in> set (listTsFilesIn (featuresDir ctx) entries)"
    and "featureOfFile fp = Some fromFeature" and "fromFeature \<noteq> []"
    and "parseSource root fp = Some sf" and "spec \<in> set (getImports sf)"
    and "cross_feature_main relative root ctx = Some (Exit1 header errors)"
  shows "set (import_violations relative (workspaceRoot ctx) fp fromFeature spec) \<subseteq> set errors"
proof -
  from assms(1) have ex: "existsSync root (featuresDir ctx)"
    by (auto simp: readdirSync_def existsSync_def split: option.splits)
  with assms(1,7) obtain per_file where
    those: "those (map (file_violations relative root (workspaceRoot ctx))
                    (listTsFilesIn (featuresDir ctx) entries)) = Some per_file"
    and errors: "errors = concat per_file"
    by (auto simp: cross_feature_main_def Let_def split: option.splits if_splits)
  have thisFile: "file_violations relative root (workspaceRoot ctx) fp =
          Some (concat (map (import_violations relative (workspaceRoot ctx) fp fromFeature)
                          (getImports sf)))"
    using assms(3,4,5) by (simp add: file_violations_def)
  have "\<And>ys. those (map f xs) = Some ys \<Longrightarrow> x \<in> set xs \<Longrightarrow> \<exists>y \<in> set ys. f x = Some y"
    for f :: "string \<Rightarrow> string list option" and xs x
    by (induction xs) (auto split: option.splits)
  from this [OF those assms(2)] thisFile
  have mem: "concat (map (import_violations relative (workspaceRoot ctx) fp fromFeature)
                  (getImports sf)) \<in> set per_file"
    by auto
  show ?thesis
  proof
    fix m
    assume "m \<in> set (import_violations relative (workspaceRoot ctx) fp fromFeature spec)"
    with assms(6)
    have "m \<in> set (concat (map (import_violations relative (workspaceRoot ctx) fp fromFeature)
                              (getImports sf)))"
      by (simp add: set_concat) blast
    with mem have "\<exists>xs \<in> set per_file. m \<in> set xs"
      by (rule rev_bexI)
    then show "m \<in> set errors"
      by (simp add: errors)
  qed
qed

text \<open>
  The reading of the specification, for the claim as it is stated: the feature that
  owns a path is the segment that follows the segments of the features root
  \<open>featuresDir\<close>, for a path below that root.
\<close>

definition featureUnderRoot :: "string \<Rightarrow> string \<Rightarrow> string option" where
  "featureUnderRoot dir p =
     (let ds = split CHR ''/'' dir; ps = split CHR ''/'' p in
      if take (length ds) ps = ds \<and> length ds < length ps then Some (ps ! length ds)
      else None)"

lemmas resolve_eval =
  import_violations_def resolveRelative_def path_resolve_def path_dirname_def featureOfFile_def
  startsWith_def cross_feature_message_def

text \<open>
  Claim C6 as stated fails: the file \<open>/w/src/app/features/a/a.page.ts\<close>, whose features
  root is \<open>/w/src/app/features\<close>, imports \<open>../../../../lib/features/b/b.data\<close>. The
  import resolves to \<open>/w/lib/features/b/b.data\<close>, which is not below the features
  root, and it is flagged.
\<close>

theorem cross_feature_root_counterexample:
  "\<not> (\<forall>relative wsRoot dir fp fromFeature spec.
        featureUnderRoot dir fp = Some fromFeature \<longrightarrow>
        (import_violations relative wsRoot fp fromFeature spec \<noteq> [] \<longleftrightarrow>
           startsWith spec ''.'' \<and>
           (\<exists>t. featureUnderRoot dir (path_resolve (path_dirname fp) spec) = Some t
                \<and> t \<noteq> fromFeature)))"
proof
  assume claim: "\<forall>relative wsRoot dir fp fromFeature spec.
        featureUnderRoot dir fp = Some fromFeature \<longrightarrow>
        (import_violations relative wsRoot fp fromFeature spec \<noteq> [] \<longleftrightarrow>
           startsWith spec ''.'' \<and>
           (\<exists>t. featureUnderRoot dir (path_resolve (path_dirname fp) spec) = Some t
                \<and> t \<noteq> fromFeature))"
  have owner: "featureUnderRoot ''/w/src/app/features'' ''/w/src/app/features/a/a.page.ts'' = Some ''a''"
    by (simp add: featureUnderRoot_def)
  have resolved: "path_resolve (path_dirname ''/w/src/app/features/a/a.page.ts'')
                    ''../../../../lib/features/b/b.data'' = ''/w/lib/features/b/b.data''"
    by (simp add: path_resolve_def path_dirname_def)
  have flagged: "import_violations (\<lambda>from to. to) ''/w'' ''/w/src/app/features/a/a.page.ts'' ''a''
                   ''../../../../lib/features/b/b.data'' \<noteq> []"
    by (simp add: resolve_eval)
  have outside: "featureUnderRoot ''/w/src/app/features'' ''/w/lib/features/b/b.data'' = None"
    by (simp add: featureUnderRoot_def)
  from claim owner flagged
  have "\<exists>t. featureUnderRoot ''/w/src/app/features''
               (path_resolve (path_dirname ''/w/src/app/features/a/a.page.ts'')
                  ''../../../../lib/features/b/b.data'') = Some t \<and> t \<noteq> ''a''"
    by blast
  with resolved outside show False
    by simp
qed

section \<open>The app-route composition checker: \<open>main\<close>\<close>

text \<open>
  \<open>findExportedRoutesArray\<close>: a variable \<open>routesArray\<close>, and a \<open>visit\<close> that returns
  when it is set, returns at a variable statement that is not exported, sets it (and
  returns) at the first declaration of an exported statement whose name is the
  identifier \<open>routes\<close> and whose initializer is an array literal, and otherwise visits
  the children. \<open>routesStatement\<close> is what \<open>visit\<close> does at a node before the
  children.
\<close>

datatype visit_step = Return | Found "node list" | Descend

fun routesDeclaration :: "(node \<times> node option \<times> node option) list \<Rightarrow> node list option" where
  "routesDeclaration [] = None"
| "routesDeclaration ((Identifier name, ty, Some (ArrayLiteralExpression elements)) # ds) =
     (if name \<noteq> ''routes'' then routesDeclaration ds else Some elements)"
| "routesDeclaration (d # ds) = routesDeclaration ds"

fun routesStatement :: "node \<Rightarrow> visit_step" where
  "routesStatement (VariableStatement isExported ds) =
     (if \<not> isExported then Return
      else (case routesDeclaration ds of Some elements \<Rightarrow> Found elements | None \<Rightarrow> Descend))"
| "routesStatement _ = Descend"

fun visit_routes :: "node \<Rightarrow> node list option \<Rightarrow> node list option" where
  "visit_routes n routesArray =
     (if routesArray \<noteq> None then routesArray
      else (case routesStatement n of
              Return \<Rightarrow> routesArray
            | Found elements \<Rightarrow> Some elements
            | Descend \<Rightarrow> fold visit_routes (children n) routesArray))"

declare visit_routes.simps [simp del]

definition findExportedRoutesArray :: "node \<Rightarrow> node list option" where
  "findExportedRoutesArray sf = visit_routes sf None"

text \<open>
  \<open>main\<close>. \<open>die(msg)\<close> prints the message on the error stream and ends with status 1:
  the outcome \<open>Exit1 msg []\<close>.
\<close>

definition app_routes_main ::
  "(string \<Rightarrow> string \<Rightarrow> string) \<Rightarrow> fsentry \<Rightarrow> workspace \<Rightarrow> outcome option" where
  "app_routes_main relative root ctx =
     (if \<not> existsSync root (appRoutesFile ctx)
      then Some (Exit1 (''Missing app.routes.ts at: '' @ appRoutesFile ctx) [])
      else (case parseSource root (appRoutesFile ctx) of
              None \<Rightarrow> None
            | Some sf \<Rightarrow>
                (case findExportedRoutesArray sf of
                   None \<Rightarrow>
                     Some (Exit1 ''app.routes.ts must export const routes = [ ... ] (Angular CLI convention)'' [])
                 | Some elements \<Rightarrow>
                     (let errors = app_route_errors elements in
                      if errors \<noteq> []
                      then Some (Exit1 (''App routes verification failed (''
                                         @ number_toString (length errors) @ '' issue(s)):''
                                         @ [CHR 0x0A])
                                      errors)
                      else Some (Exit0 (''OK: app.routes.ts verified (''
                                         @ relative (workspaceRoot ctx) (appRoutesFile ctx)
                                         @ '').''))))))"

text \<open>
  When the route table is found, the violations that \<open>main\<close> reports are those of
  \<open>app_route_errors\<close>, about which the claims on this checker are stated.
\<close>

lemma app_routes_main_reports:
  assumes "parseSource root (appRoutesFile ctx) = Some sf"
    and "findExportedRoutesArray sf = Some elements"
  shows "app_routes_main relative root ctx =
           (if app_route_errors elements \<noteq> []
            then Some (Exit1 (''App routes verification failed (''
                               @ number_toString (length (app_route_errors elements))
                               @ '' issue(s)):'' @ [CHR 0x0A])
                            (app_route_errors elements))
            else Some (Exit0 (''OK: app.routes.ts verified (''
                               @ relative (workspaceRoot ctx) (appRoutesFile ctx) @ '').'')))"
  using assms
  by (auto simp: app_routes_main_def existsSync_def parseSource_def Let_def split: option.splits)

text \<open>The repository's own \<open>app.routes.ts\<close> passes.\<close>

lemma app_routes_main_example:
  "app_routes_main (\<lambda>from to. to) fsNoFeatures exampleWorkspace =
     Some (Exit0 ''OK: app.routes.ts verified (/w/src/app/app.routes.ts).'')"
proof -
  have found: "findExportedRoutesArray appRoutesSource =
          Some [ObjectLiteralExpression exampleRedirectRoute,
                ObjectLiteralExpression exampleHomeRoute,
                ObjectLiteralExpression exampleWildcardRoute]"
    by (simp add: findExportedRoutesArray_def appRoutesSource_def visit_routes.simps)
  have parsed: "parseSource fsNoFeatures (appRoutesFile exampleWorkspace) = Some appRoutesSource"
    using fsNoFeatures_lookups(3) by (simp add: parseSource_def)
  have notFound: "loadComponentLooksLikeNotFound
                    (the (getPropInitializer exampleWildcardRoute ''loadComponent''))"
    by (simp add: exampleWildcardRoute_def loadComponentLooksLikeNotFound_def visit_import_eq
        importsMatching_def descendants.simps)
  have features: "loadChildrenLooksLikeFeaturesImport
                    (the (getPropInitializer exampleHomeRoute ''loadChildren''))"
    by (simp add: exampleHomeRoute_def loadChildrenLooksLikeFeaturesImport_eq
        importsMatching_def descendants.simps startsWith_def endsWith_def)
  have entries: "app_route_entry_errors (ObjectLiteralExpression exampleRedirectRoute) = []"
    "app_route_entry_errors (ObjectLiteralExpression exampleWildcardRoute) = []"
    "app_route_entry_errors (ObjectLiteralExpression exampleHomeRoute) = []"
    using notFound features
    by (simp_all add: app_route_entry_errors_object path_case_errors_def objectHasProp_def
        exampleRedirectRoute_def exampleWildcardRoute_def exampleHomeRoute_def)
  have count: "wildcardEntries [ObjectLiteralExpression exampleRedirectRoute,
                ObjectLiteralExpression exampleHomeRoute,
                ObjectLiteralExpression exampleWildcardRoute] = 1"
    by (simp add: wildcardEntries_def exampleRedirectRoute_def exampleHomeRoute_def
        exampleWildcardRoute_def)
  have "app_route_errors [ObjectLiteralExpression exampleRedirectRoute,
                ObjectLiteralExpression exampleHomeRoute,
                ObjectLiteralExpression exampleWildcardRoute] = []"
    by (simp add: app_route_errors_eq entries count)
  then show ?thesis
    by (simp add: app_routes_main_reports [OF parsed found] exampleWorkspace_fields)
qed

section \<open>What the feature-route provider checker reports\<close>

text \<open>
  An exported array at the top level of a file is found: for a statement
  \<open>export const name = [elements]\<close> (with or without a type annotation) among the
  statements of the source file, the finder returns the entry for \<open>name\<close>.
\<close>

lemma exportedArrayOf_member:
  "(name, elements) \<in> set (exportedArrayOf (Identifier name, ty, Some (ArrayLiteralExpression elements)))"
  by simp

lemma findExportedRoutesArrays_statement:
  assumes "(Identifier name, ty, Some (ArrayLiteralExpression elements)) \<in> set ds"
  shows "(name, elements) \<in> set (findExportedRoutesArrays (VariableStatement True ds))"
proof -
  have "(name, elements) \<in> set (concat (map exportedArrayOf ds))"
    using assms exportedArrayOf_member [of name elements ty]
    unfolding set_concat set_map by blast
  then show ?thesis
    by (subst findExportedRoutesArrays.simps) simp
qed

lemma findExportedRoutesArrays_top_level:
  assumes "VariableStatement True ds \<in> set stmts"
    and "(Identifier name, ty, Some (ArrayLiteralExpression elements)) \<in> set ds"
  shows "(name, elements) \<in> set (findExportedRoutesArrays (SourceFile stmts))"
proof -
  have "(name, elements) \<in> set (concat (map findExportedRoutesArrays stmts))"
    using assms(1) findExportedRoutesArrays_statement [OF assms(2)]
    unfolding set_concat set_map by blast
  then show ?thesis
    by (subst findExportedRoutesArrays.simps) simp
qed

text \<open>
  The routes file of a feature, as \<open>main\<close> computes its path, and the condition that
  reading it does not throw: it is absent or (after links) a regular file.
\<close>

definition featureRoutesFile :: "string \<Rightarrow> string \<Rightarrow> string" where
  "featureRoutesFile dir f = path_join (path_join dir f) (f @ ''.routes.ts'')"

fun readable :: "fsentry option \<Rightarrow> bool" where
  "readable None = True"
| "readable (Some (File sf)) = True"
| "readable (Some e) = False"

definition routesFileReadable :: "fsentry \<Rightarrow> string \<Rightarrow> string \<Rightarrow> bool" where
  "routesFileReadable root dir f = readable (lookup root (featureRoutesFile dir f))"

lemma readable_parseSource:
  "readable (lookup root file) \<Longrightarrow> existsSync root file \<Longrightarrow> parseSource root file \<noteq> None"
  by (cases "lookup root file" rule: readable.cases) (auto simp: existsSync_def parseSource_def)

lemma feature_routes_file_errors_total:
  "routesFileReadable root dir f \<Longrightarrow> feature_routes_file_errors root dir f \<noteq> None"
  using readable_parseSource [of root "featureRoutesFile dir f"]
  by (auto simp: feature_routes_file_errors_def routesFileReadable_def featureRoutesFile_def Let_def)

lemma feature_routes_file_errors_parsed:
  "parseSource root (featureRoutesFile dir f) = Some sf \<Longrightarrow>
   feature_routes_file_errors root dir f
     = Some (validateFeatureRoutesFile (featureRoutesFile dir f) sf)"
  by (auto simp: feature_routes_file_errors_def featureRoutesFile_def Let_def existsSync_def
      parseSource_def split: option.splits)

lemma those_map_member:
  "those (map f xs) = Some ys \<Longrightarrow> x \<in> set xs \<Longrightarrow> \<exists>y \<in> set ys. f x = Some y"
  by (induction xs arbitrary: ys) (auto split: option.splits)

text \<open>
  A violation that \<open>validateFeatureRoutesFile\<close> finds in the routes file of a feature
  makes the checker end with status 1 and is in its report.
\<close>

lemma feature_routes_main_reports:
  assumes "listDirs root (featuresDir ctx) = Some features"
    and "list_all (routesFileReadable root (featuresDir ctx)) features"
    and "f \<in> set features"
    and "parseSource root (featureRoutesFile (featuresDir ctx) f) = Some sf"
    and "m \<in> set (validateFeatureRoutesFile (featureRoutesFile (featuresDir ctx) f) sf)"
  shows "\<exists>header errors. feature_routes_main relative root ctx = Some (Exit1 header errors)
                          \<and> m \<in> set errors"
proof -
  obtain per_feature where per:
    "those (map (feature_routes_file_errors root (featuresDir ctx)) features) = Some per_feature"
    using those_map_Some [of features "feature_routes_file_errors root (featuresDir ctx)"]
      feature_routes_file_errors_total assms(2)
    by (auto simp: list_all_iff)
  from those_map_member [OF per assms(3)] feature_routes_file_errors_parsed [OF assms(4)]
  have "validateFeatureRoutesFile (featureRoutesFile (featuresDir ctx) f) sf \<in> set per_feature"
    by auto
  with assms(5) have m: "m \<in> set (concat per_feature)"
    unfolding set_concat by blast
  then have "concat per_feature \<noteq> []"
    by (cases "concat per_feature") simp_all
  with m show ?thesis
    by (simp add: feature_routes_main_def assms(1) per Let_def)
qed

lemma feature_routes_main_element:
  assumes "listDirs root (featuresDir ctx) = Some features"
    and "list_all (routesFileReadable root (featuresDir ctx)) features"
    and "f \<in> set features"
    and "parseSource root (featureRoutesFile (featuresDir ctx) f) = Some (SourceFile stmts)"
    and "VariableStatement True ds \<in> set stmts"
    and "(Identifier name, ty, Some (ArrayLiteralExpression elements)) \<in> set ds"
    and "idx < length elements"
    and "m \<in> set (feature_route_element_errors (featureRoutesFile (featuresDir ctx) f) name idx
                   (elements ! idx))"
  shows "\<exists>header errors. feature_routes_main relative root ctx = Some (Exit1 header errors)
                          \<and> m \<in> set errors"
  using feature_routes_main_reports [OF assms(1-4), of m relative]
    validateFeatureRoutesFile_element
      [OF findExportedRoutesArrays_top_level [OF assms(5,6)] assms(7,8)]
  by blast

text \<open>
  The outcome of the checker depends on the list of features and on their routes
  files only.
\<close>

lemma feature_routes_main_frame:
  assumes "listDirs root' (featuresDir ctx) = listDirs root (featuresDir ctx)"
    and "\<And>f features. listDirs root (featuresDir ctx) = Some features \<Longrightarrow> f \<in> set features \<Longrightarrow>
           lookup root' (featureRoutesFile (featuresDir ctx) f)
             = lookup root (featureRoutesFile (featuresDir ctx) f)"
  shows "feature_routes_main relative root' ctx = feature_routes_main relative root ctx"
proof (cases "listDirs root (featuresDir ctx)")
  case None
  with assms(1) show ?thesis
    by (simp add: feature_routes_main_def)
next
  case (Some features)
  have "feature_routes_file_errors root' (featuresDir ctx) f
          = feature_routes_file_errors root (featuresDir ctx) f" if "f \<in> set features" for f
    using assms(2) [OF Some that]
    by (simp add: feature_routes_file_errors_def featureRoutesFile_def existsSync_def
        parseSource_def Let_def)
  then have same: "map (feature_routes_file_errors root' (featuresDir ctx)) features
               = map (feature_routes_file_errors root (featuresDir ctx)) features"
    by simp
  from Some assms(1) have "listDirs root' (featuresDir ctx) = Some features"
    by simp
  with Some show ?thesis
    unfolding feature_routes_main_def by (simp only: same option.case)
qed

text \<open>
  For each message of the callback, the elements that get it. All the messages of an
  export share \<open>exportPrefix\<close>, so they are told apart by what follows it.
\<close>

lemma element_errors_providers_iff:
  "exportPrefix filePath name @ '' first route must declare providers: [ ... ]''
     \<in> set (feature_route_element_errors filePath name idx (ObjectLiteralExpression props))
   \<longleftrightarrow> idx = 0 \<and> \<not> objectHasProp props ''providers''"
  by (cases "objectHasProp props ''loadComponent''";
      cases "getPropInitializer props ''loadComponent''"; cases "idx = 0")
     (simp_all add: feature_route_element_errors_def Let_def)

lemma element_errors_path_iff:
  "exportPrefix filePath name @ '' first route must have path: '' @ [CHR 0x27, CHR 0x27]
     \<in> set (feature_route_element_errors filePath name idx (ObjectLiteralExpression props))
   \<longleftrightarrow> idx = 0 \<and> literalPath (ObjectLiteralExpression props) \<noteq> Some []"
  by (cases "objectHasProp props ''loadComponent''";
      cases "getPropInitializer props ''loadComponent''"; cases "idx = 0")
     (simp_all add: feature_route_element_errors_def Let_def)

lemma element_errors_component_iff:
  "exportPrefix filePath name @ '' must not use \"component:\". Use loadComponent/loadChildren.''
     \<in> set (feature_route_element_errors filePath name idx (ObjectLiteralExpression props))
   \<longleftrightarrow> objectHasProp props ''component''"
  by (cases "objectHasProp props ''loadComponent''";
      cases "getPropInitializer props ''loadComponent''"; cases "idx = 0")
     (simp_all add: feature_route_element_errors_def Let_def)

text \<open>
  Concrete workspaces with features. \<open>featuresTree fs\<close> is the workspace \<open>/w\<close> whose
  features directory holds, for every pair \<open>(f, sf)\<close> of \<open>fs\<close>, the directory \<open>f\<close>
  with the one file \<open>f.routes.ts\<close> that parses to \<open>sf\<close>.

  \<open>twoArraysFile\<close> exports two arrays. The first is the one of \<open>home.routes.ts\<close>. The
  second starts with a route of path \<open>'list'\<close>, followed by a route that binds
  \<open>component\<close> and a route whose \<open>loadComponent\<close> imports \<open>./widget.component\<close>.
  In \<open>fsFlagged\<close> it is the routes file of the feature \<open>home\<close>, and the feature
  \<open>dashboard\<close> has the routes file without \<open>providers\<close>. In \<open>fsEmptyProviders\<close> the
  only feature is \<open>home\<close>, with \<open>providers: []\<close> in its first route.
\<close>

definition featuresTree :: "(string \<times> node) list \<Rightarrow> fsentry" where
  "featuresTree fs =
     workspaceTree
       [(''app.routes.ts'', File appRoutesSource),
        (''features'',
         Directory (map (\<lambda>(f, sf). (f, Directory [(f @ ''.routes.ts'', File sf)])) fs))]"

definition routesType :: "node option" where
  "routesType = Some (OtherNode [Identifier ''Routes''])"

definition secondArray :: "node list" where
  "secondArray =
     [ObjectLiteralExpression listRoute, ObjectLiteralExpression legacyRoute,
      ObjectLiteralExpression widgetRoute]"

definition twoArraysStatements :: "node list" where
  "twoArraysStatements =
     [ImportDeclaration [Identifier ''Routes''] (StringLiteral ''@angular/router'') [],
      VariableStatement True
        [(Identifier ''HOME_ROUTES'', routesType,
          Some (ArrayLiteralExpression
                  [ObjectLiteralExpression (homeRouteWithProviders homeProviders)]))],
      VariableStatement True
        [(Identifier ''LIST_ROUTES'', routesType, Some (ArrayLiteralExpression secondArray))]]"

definition dashboardStatements :: "node list" where
  "dashboardStatements =
     [ImportDeclaration [Identifier ''Routes''] (StringLiteral ''@angular/router'') [],
      VariableStatement True
        [(Identifier ''DASHBOARD_ROUTES'', routesType,
          Some (ArrayLiteralExpression [ObjectLiteralExpression dashboardRouteNoProviders]))]]"

definition fsFlagged :: fsentry where
  "fsFlagged =
     featuresTree [(''home'', SourceFile twoArraysStatements),
                   (''dashboard'', SourceFile dashboardStatements)]"

definition fsEmptyProviders :: fsentry where
  "fsEmptyProviders =
     featuresTree
       [(''home'', routesFileOf ''HOME_ROUTES''
                     [ObjectLiteralExpression (homeRouteWithProviders (ArrayLiteralExpression []))])]"

lemma fsFlagged_facts:
  "listDirs fsFlagged (featuresDir exampleWorkspace) = Some [''home'', ''dashboard'']"
  "list_all (routesFileReadable fsFlagged (featuresDir exampleWorkspace)) [''home'', ''dashboard'']"
  "parseSource fsFlagged (featureRoutesFile (featuresDir exampleWorkspace) ''home'')
     = Some (SourceFile twoArraysStatements)"
  "parseSource fsFlagged (featureRoutesFile (featuresDir exampleWorkspace) ''dashboard'')
     = Some (SourceFile dashboardStatements)"
  "featureRoutesFile (featuresDir exampleWorkspace) ''home''
     = ''/w/src/app/features/home/home.routes.ts''"
  "featureRoutesFile (featuresDir exampleWorkspace) ''dashboard''
     = ''/w/src/app/features/dashboard/dashboard.routes.ts''"
  by (simp_all add: fsFlagged_def featuresTree_def workspaceTree_def exampleWorkspace_fields
      routesFileReadable_def featureRoutesFile_def path_eval)

lemma fsEmptyProviders_main:
  "feature_routes_main (\<lambda>from to. to) fsEmptyProviders exampleWorkspace
     = Some (Exit0 ''OK: feature routes verified (1 feature(s)) for /w/src/app/features.'')"
proof -
  have dirs: "listDirs fsEmptyProviders ''/w/src/app/features'' = Some [''home'']"
    by (simp add: fsEmptyProviders_def featuresTree_def workspaceTree_def path_eval)
  have parsed: "parseSource fsEmptyProviders ''/w/src/app/features/home/home.routes.ts''
     = Some (routesFileOf ''HOME_ROUTES''
               [ObjectLiteralExpression (homeRouteWithProviders (ArrayLiteralExpression []))])"
    by (simp add: fsEmptyProviders_def featuresTree_def workspaceTree_def path_eval)
  have "feature_routes_file_errors fsEmptyProviders ''/w/src/app/features'' ''home'' = Some []"
    using parsed
    by (simp add: feature_routes_file_errors_def path_join_def existsSync_def parseSource_def
        validateFeatureRoutesFile_single [OF homeFile_exports] homeRoute_element_errors
        split: option.splits fsentry.splits)
  then show ?thesis
    by (simp add: feature_routes_main_def exampleWorkspace_fields dirs
        number_toString.simps digit_char_def)
qed

text \<open>
  Claim C2, as amended. Take a feature of the workspace whose routes file has, among
  its statements, \<open>export const name = [first, ...]\<close> with an object literal
  \<open>first\<close>. The checker pushes the message \<open>first route must declare providers\<close> for
  an element of that array exactly when the element is the first one and has no
  \<open>providers\<close> property assignment; and when \<open>first\<close> has none, the checker ends
  with status 1 and the message is in its report. The initializer of \<open>providers\<close> is
  not inspected, so an empty array literal is not flagged. (The hypothesis on the routes
  files of the features says that none of them is a directory or a special entry,
  which would make \<open>readFileSync\<close> throw.)
\<close>

theorem first_route_providers_presence:
  assumes "listDirs root (featuresDir ctx) = Some features"
    and "list_all (routesFileReadable root (featuresDir ctx)) features"
    and "f \<in> set features"
    and "parseSource root (featureRoutesFile (featuresDir ctx) f) = Some (SourceFile stmts)"
    and "VariableStatement True ds \<in> set stmts"
    and "(Identifier name, ty,
          Some (ArrayLiteralExpression (ObjectLiteralExpression props # rest))) \<in> set ds"
  shows "(exportPrefix (featureRoutesFile (featuresDir ctx) f) name
            @ '' first route must declare providers: [ ... ]''
            \<in> set (feature_route_element_errors (featureRoutesFile (featuresDir ctx) f) name idx
                      (ObjectLiteralExpression props'))
          \<longleftrightarrow> idx = 0 \<and> \<not> objectHasProp props' ''providers'') \<and>
         (\<not> objectHasProp props ''providers'' \<longrightarrow>
          (\<exists>header errors.
              feature_routes_main relative root ctx = Some (Exit1 header errors) \<and>
              exportPrefix (featureRoutesFile (featuresDir ctx) f) name
                @ '' first route must declare providers: [ ... ]'' \<in> set errors))"
proof (intro conjI impI)
  show "exportPrefix (featureRoutesFile (featuresDir ctx) f) name
            @ '' first route must declare providers: [ ... ]''
            \<in> set (feature_route_element_errors (featureRoutesFile (featuresDir ctx) f) name idx
                      (ObjectLiteralExpression props'))
          \<longleftrightarrow> idx = 0 \<and> \<not> objectHasProp props' ''providers''"
    by (rule element_errors_providers_iff)
next
  assume "\<not> objectHasProp props ''providers''"
  then have "exportPrefix (featureRoutesFile (featuresDir ctx) f) name
               @ '' first route must declare providers: [ ... ]''
             \<in> set (feature_route_element_errors (featureRoutesFile (featuresDir ctx) f) name 0
                       ((ObjectLiteralExpression props # rest) ! 0))"
    by (simp add: element_errors_providers_iff)
  then show "\<exists>header errors.
              feature_routes_main relative root ctx = Some (Exit1 header errors) \<and>
              exportPrefix (featureRoutesFile (featuresDir ctx) f) name
                @ '' first route must declare providers: [ ... ]'' \<in> set errors"
    using feature_routes_main_element [OF assms, of 0 _ relative] by simp
qed

text \<open>
  Claim C2 at \<open>fsFlagged\<close>: the checker fails with the providers message for the
  feature \<open>dashboard\<close>; and at \<open>fsEmptyProviders\<close>, where the first route has
  \<open>providers: []\<close>, the checker passes.
\<close>

theorem first_route_providers_presence_witness:
  "(\<exists>header errors.
      feature_routes_main (\<lambda>from to. to) fsFlagged exampleWorkspace = Some (Exit1 header errors) \<and>
      ''/w/src/app/features/dashboard/dashboard.routes.ts export \"DASHBOARD_ROUTES\" first route must declare providers: [ ... ]''
        \<in> set errors) \<and>
   feature_routes_main (\<lambda>from to. to) fsEmptyProviders exampleWorkspace
     = Some (Exit0 ''OK: feature routes verified (1 feature(s)) for /w/src/app/features.'')"
proof -
  have "\<not> objectHasProp dashboardRouteNoProviders ''providers''"
    by (simp add: dashboardRouteNoProviders_def objectHasProp_def)
  moreover have "VariableStatement True
        [(Identifier ''DASHBOARD_ROUTES'', routesType,
          Some (ArrayLiteralExpression [ObjectLiteralExpression dashboardRouteNoProviders]))]
      \<in> set dashboardStatements"
    by (simp add: dashboardStatements_def)
  ultimately show ?thesis
    using first_route_providers_presence
            [OF fsFlagged_facts(1,2) _ fsFlagged_facts(4), of _ "''DASHBOARD_ROUTES''" routesType
                dashboardRouteNoProviders "[]" 0 "[]" "\<lambda>from to. to"]
      fsEmptyProviders_main
    by (simp add: fsFlagged_facts(6) exportPrefix_def)
qed

lemma fsFlagged_home: "''home'' \<in> set [''home'', ''dashboard'']"
  by simp

lemma fsFlagged_second:
  "VariableStatement True
     [(Identifier ''LIST_ROUTES'', routesType, Some (ArrayLiteralExpression secondArray))]
   \<in> set twoArraysStatements"
  "(Identifier ''LIST_ROUTES'', routesType, Some (ArrayLiteralExpression secondArray))
   \<in> set [(Identifier ''LIST_ROUTES'', routesType, Some (ArrayLiteralExpression secondArray))]"
  by (simp_all add: twoArraysStatements_def)

text \<open>
  Claim C9. Take a feature of the workspace whose routes file has, among its
  statements, an exported array \<open>export const name = [elements]\<close>. Unless the first
  element has the literal path \<open>''\<close>, the checker ends with status 1, and when the
  first element is an object literal its report holds the message \<open>first route must
  have path: ''\<close>. The message is pushed for an object element exactly when it is the
  first element of its array and its literal path is not \<open>''\<close>.
\<close>

theorem first_route_path_required:
  assumes "listDirs root (featuresDir ctx) = Some features"
    and "list_all (routesFileReadable root (featuresDir ctx)) features"
    and "f \<in> set features"
    and "parseSource root (featureRoutesFile (featuresDir ctx) f) = Some (SourceFile stmts)"
    and "VariableStatement True ds \<in> set stmts"
    and "(Identifier name, ty, Some (ArrayLiteralExpression elements)) \<in> set ds"
    and "\<not> firstRouteHasEmptyPath elements"
  shows "(\<exists>header errors.
            feature_routes_main relative root ctx = Some (Exit1 header errors) \<and>
            (\<forall>props rest. elements = ObjectLiteralExpression props # rest \<longrightarrow>
               exportPrefix (featureRoutesFile (featuresDir ctx) f) name
                 @ '' first route must have path: '' @ [CHR 0x27, CHR 0x27] \<in> set errors)) \<and>
         (exportPrefix (featureRoutesFile (featuresDir ctx) f) name
            @ '' first route must have path: '' @ [CHR 0x27, CHR 0x27]
            \<in> set (feature_route_element_errors (featureRoutesFile (featuresDir ctx) f) name idx
                      (ObjectLiteralExpression props'))
          \<longleftrightarrow> idx = 0 \<and> literalPath (ObjectLiteralExpression props') \<noteq> Some [])"
proof
  let ?file = "featureRoutesFile (featuresDir ctx) f"
  let ?msg = "exportPrefix ?file name @ '' first route must have path: '' @ [CHR 0x27, CHR 0x27]"
  note found = findExportedRoutesArrays_top_level [OF assms(5,6)]
  show "\<exists>header errors.
            feature_routes_main relative root ctx = Some (Exit1 header errors) \<and>
            (\<forall>props rest. elements = ObjectLiteralExpression props # rest \<longrightarrow> ?msg \<in> set errors)"
  proof (cases elements)
    case Nil
    have "exportPrefix ?file name @ '' must not be empty.''
            \<in> set (validateFeatureRoutesFile ?file (SourceFile stmts))"
      using validateFeatureRoutesFile_exported [OF found, of ?file] Nil
      by (simp add: exported_array_errors_empty)
    from feature_routes_main_reports [OF assms(1-4) this, of relative] Nil show ?thesis
      by auto
  next
    case (Cons el rest)
    show ?thesis
    proof (cases "isObjectLiteralExpression el")
      case True
      then obtain props where el: "el = ObjectLiteralExpression props"
        by (cases el) simp_all
      with Cons assms(7) have "literalPath (ObjectLiteralExpression props) \<noteq> Some []"
        by (simp add: firstRouteHasEmptyPath_def del: literalPath.simps)
      then have "?msg \<in> set (feature_route_element_errors ?file name 0 (elements ! 0))"
        using Cons el element_errors_path_iff [of ?file name 0 props]
        by (simp del: literalPath.simps)
      from feature_routes_main_element [OF assms(1-6) _ this, of relative] Cons show ?thesis
        by auto
    next
      case False
      then obtain m where "m \<in> set (feature_route_element_errors ?file name 0 el)"
        using element_errors_non_object [of el ?file name 0]
        by (cases "feature_route_element_errors ?file name 0 el") auto
      with Cons have "m \<in> set (feature_route_element_errors ?file name 0 (elements ! 0))"
        by simp
      from feature_routes_main_element [OF assms(1-6) _ this, of relative] Cons False
      show ?thesis
        by auto
    qed
  qed
  show "?msg \<in> set (feature_route_element_errors ?file name idx (ObjectLiteralExpression props'))
          \<longleftrightarrow> idx = 0 \<and> literalPath (ObjectLiteralExpression props') \<noteq> Some []"
    by (rule element_errors_path_iff)
qed

text \<open>
  Claim C9 at \<open>fsFlagged\<close>: the second exported array of \<open>home.routes.ts\<close> starts
  with a route of path \<open>'list'\<close>, and the checker fails with the path message for it.
\<close>

theorem first_route_path_required_witness:
  "\<exists>header errors.
      feature_routes_main (\<lambda>from to. to) fsFlagged exampleWorkspace = Some (Exit1 header errors) \<and>
      ''/w/src/app/features/home/home.routes.ts export \"LIST_ROUTES\" first route must have path: ''
          @ [CHR 0x27, CHR 0x27]
        \<in> set errors"
proof -
  have "\<not> firstRouteHasEmptyPath secondArray"
    by (simp add: firstRouteHasEmptyPath_def secondArray_def listRoute_def)
  from first_route_path_required
         [OF fsFlagged_facts(1,2) fsFlagged_home fsFlagged_facts(3) fsFlagged_second this,
          of "\<lambda>from to. to"]
  show ?thesis
    by (simp add: secondArray_def fsFlagged_facts(5) exportPrefix_def)
qed

text \<open>
  Claim C10. Take a feature of the workspace whose routes file has, among its
  statements, an exported array \<open>export const name = [elements]\<close>. The checker pushes
  the message that directs to \<open>loadComponent/loadChildren\<close> for an object element (at
  any index) exactly when the element has a \<open>component\<close> property assignment; and for
  every such element of the array the checker ends with status 1 and the message is in
  its report.
\<close>

theorem component_banned_in_feature_routes:
  assumes "listDirs root (featuresDir ctx) = Some features"
    and "list_all (routesFileReadable root (featuresDir ctx)) features"
    and "f \<in> set features"
    and "parseSource root (featureRoutesFile (featuresDir ctx) f) = Some (SourceFile stmts)"
    and "VariableStatement True ds \<in> set stmts"
    and "(Identifier name, ty, Some (ArrayLiteralExpression elements)) \<in> set ds"
    and "ObjectLiteralExpression props \<in> set elements"
  shows "(exportPrefix (featureRoutesFile (featuresDir ctx) f) name
            @ '' must not use \"component:\". Use loadComponent/loadChildren.''
            \<in> set (feature_route_element_errors (featureRoutesFile (featuresDir ctx) f) name idx
                      (ObjectLiteralExpression props))
          \<longleftrightarrow> objectHasProp props ''component'') \<and>
         (objectHasProp props ''component'' \<longrightarrow>
          (\<exists>header errors.
              feature_routes_main relative root ctx = Some (Exit1 header errors) \<and>
              exportPrefix (featureRoutesFile (featuresDir ctx) f) name
                @ '' must not use \"component:\". Use loadComponent/loadChildren.''
                \<in> set errors))"
proof (intro conjI impI)
  show "exportPrefix (featureRoutesFile (featuresDir ctx) f) name
            @ '' must not use \"component:\". Use loadComponent/loadChildren.''
            \<in> set (feature_route_element_errors (featureRoutesFile (featuresDir ctx) f) name idx
                      (ObjectLiteralExpression props))
          \<longleftrightarrow> objectHasProp props ''component''"
    by (rule element_errors_component_iff)
next
  assume component: "objectHasProp props ''component''"
  from assms(7) obtain i where i: "i < length elements"
    "elements ! i = ObjectLiteralExpression props"
    by (auto simp: in_set_conv_nth)
  with component
  have "exportPrefix (featureRoutesFile (featuresDir ctx) f) name
          @ '' must not use \"component:\". Use loadComponent/loadChildren.''
        \<in> set (feature_route_element_errors (featureRoutesFile (featuresDir ctx) f) name i
                  (elements ! i))"
    by (simp add: element_errors_component_iff)
  from feature_routes_main_element [OF assms(1-6) i(1) this, of relative]
  show "\<exists>header errors.
              feature_routes_main relative root ctx = Some (Exit1 header errors) \<and>
              exportPrefix (featureRoutesFile (featuresDir ctx) f) name
                @ '' must not use \"component:\". Use loadComponent/loadChildren.''
                \<in> set errors" .
qed

text \<open>
  Claim C10 at \<open>fsFlagged\<close>: the second route of the second exported array binds
  \<open>component: LegacyPage\<close>.
\<close>

theorem component_banned_in_feature_routes_witness:
  "\<exists>header errors.
      feature_routes_main (\<lambda>from to. to) fsFlagged exampleWorkspace = Some (Exit1 header errors) \<and>
      ''/w/src/app/features/home/home.routes.ts export \"LIST_ROUTES\" must not use \"component:\". Use loadComponent/loadChildren.''
        \<in> set errors"
proof -
  have component: "objectHasProp legacyRoute ''component''"
    by (simp add: legacyRoute_def objectHasProp_def)
  have "ObjectLiteralExpression legacyRoute \<in> set secondArray"
    by (simp add: secondArray_def)
  from component_banned_in_feature_routes
         [OF fsFlagged_facts(1,2) fsFlagged_home fsFlagged_facts(3) fsFlagged_second this,
          of 0 "\<lambda>from to. to"]
    component
  show ?thesis
    by (simp add: fsFlagged_facts(5) exportPrefix_def)
qed

text \<open>
  Claim C8, as amended. Take a feature of the workspace whose routes file has, among
  its statements, an exported array \<open>export const name = [elements]\<close>, and an element
  of that array (at any index) that is an object literal with a \<open>loadComponent\<close>
  property. The checker pushes the message \<open>has loadComponent not importing a *.page
  file\<close> for the element exactly when the initializer contains no call
  \<open>import('...')\<close> whose string argument ends in \<open>.page\<close>; the checker then ends
  with status 1 and the message is in its report. The outcome of the checker is the
  same in any two trees that have the same features and the same routes files of these
  features: no other file is inspected.
\<close>

theorem loadComponent_must_import_page:
  assumes "listDirs root (featuresDir ctx) = Some features"
    and "list_all (routesFileReadable root (featuresDir ctx)) features"
    and "f \<in> set features"
    and "parseSource root (featureRoutesFile (featuresDir ctx) f) = Some (SourceFile stmts)"
    and "VariableStatement True ds \<in> set stmts"
    and "(Identifier name, ty, Some (ArrayLiteralExpression elements)) \<in> set ds"
    and "idx < length elements"
    and "elements ! idx = ObjectLiteralExpression props"
    and "getPropInitializer props ''loadComponent'' = Some lc"
  shows "(exportPrefix (featureRoutesFile (featuresDir ctx) f) name
            @ '' has loadComponent not importing a *.page file''
            \<in> set (feature_route_element_errors (featureRoutesFile (featuresDir ctx) f) name idx
                      (ObjectLiteralExpression props))
          \<longleftrightarrow> \<not> importsMatching (\<lambda>t. endsWith t ''.page'') lc) \<and>
         (\<not> importsMatching (\<lambda>t. endsWith t ''.page'') lc \<longrightarrow>
          (\<exists>header errors.
              feature_routes_main relative root ctx = Some (Exit1 header errors) \<and>
              exportPrefix (featureRoutesFile (featuresDir ctx) f) name
                @ '' has loadComponent not importing a *.page file'' \<in> set errors)) \<and>
         (listDirs root' (featuresDir ctx) = Some features \<and>
          list_all (\<lambda>g. lookup root' (featureRoutesFile (featuresDir ctx) g)
                          = lookup root (featureRoutesFile (featuresDir ctx) g)) features \<longrightarrow>
          feature_routes_main relative root' ctx = feature_routes_main relative root ctx)"
proof (intro conjI impI)
  show "exportPrefix (featureRoutesFile (featuresDir ctx) f) name
            @ '' has loadComponent not importing a *.page file''
            \<in> set (feature_route_element_errors (featureRoutesFile (featuresDir ctx) f) name idx
                      (ObjectLiteralExpression props))
          \<longleftrightarrow> \<not> importsMatching (\<lambda>t. endsWith t ''.page'') lc"
    using assms(9) by (rule element_errors_loadComponent)
next
  assume "\<not> importsMatching (\<lambda>t. endsWith t ''.page'') lc"
  then have "exportPrefix (featureRoutesFile (featuresDir ctx) f) name
               @ '' has loadComponent not importing a *.page file''
             \<in> set (feature_route_element_errors (featureRoutesFile (featuresDir ctx) f) name idx
                       (elements ! idx))"
    using element_errors_loadComponent [OF assms(9)] assms(8) by simp
  from feature_routes_main_element [OF assms(1-7) this, of relative]
  show "\<exists>header errors.
              feature_routes_main relative root ctx = Some (Exit1 header errors) \<and>
              exportPrefix (featureRoutesFile (featuresDir ctx) f) name
                @ '' has loadComponent not importing a *.page file'' \<in> set errors" .
next
  assume "listDirs root' (featuresDir ctx) = Some features \<and>
          list_all (\<lambda>g. lookup root' (featureRoutesFile (featuresDir ctx) g)
                          = lookup root (featureRoutesFile (featuresDir ctx) g)) features"
  then show "feature_routes_main relative root' ctx = feature_routes_main relative root ctx"
    using assms(1) by (intro feature_routes_main_frame) (auto simp: list_all_iff)
qed

text \<open>
  Claim C8 at \<open>fsFlagged\<close>: the third route of the second exported array loads
  \<open>./widget.component\<close>.
\<close>

theorem loadComponent_must_import_page_witness:
  "\<exists>header errors.
      feature_routes_main (\<lambda>from to. to) fsFlagged exampleWorkspace = Some (Exit1 header errors) \<and>
      ''/w/src/app/features/home/home.routes.ts export \"LIST_ROUTES\" has loadComponent not importing a *.page file''
        \<in> set errors"
proof -
  have loader: "getPropInitializer widgetRoute ''loadComponent''
          = Some (lazyImport ''./widget.component'' ''WidgetComponent'')"
    by (simp add: widgetRoute_def)
  have component: "\<not> importsMatching (\<lambda>t. endsWith t ''.page'')
                     (lazyImport ''./widget.component'' ''WidgetComponent'')"
    by (simp add: importsMatching_lazyImport endsWith_def)
  have third: "2 < length secondArray" "secondArray ! 2 = ObjectLiteralExpression widgetRoute"
    by (simp_all add: secondArray_def)
  from loadComponent_must_import_page
         [OF fsFlagged_facts(1,2) fsFlagged_home fsFlagged_facts(3) fsFlagged_second third loader,
          of "\<lambda>from to. to" fsFlagged]
    component
  show ?thesis
    by (simp add: fsFlagged_facts(5) exportPrefix_def)
qed

section \<open>What the cross-feature import checker reports\<close>

lemma listTsFilesIn_subset: "set (listTsFilesIn dir es) \<subseteq> set (listFilesIn dir es)"
  by (induction dir es rule: listTsFilesIn.induct) auto

lemma file_violations_total:
  "parseSource root fp \<noteq> None \<Longrightarrow> file_violations relative root wsRoot fp \<noteq> None"
  by (auto simp: file_violations_def split: option.splits)

lemma those_map_elem:
  "those (map f xs) = Some ys \<Longrightarrow> y \<in> set ys \<Longrightarrow> \<exists>x \<in> set xs. f x = Some y"
  by (induction xs arbitrary: ys) (auto split: option.splits)

text \<open>
  In a well-formed tree whose features directory is a directory, the checker ends with a
  report or with the line that nothing was detected: every listed file can be read.
\<close>

lemma cross_feature_main_per_file:
  assumes "wf_fs root" and "lookup root (featuresDir ctx) = Some (Directory entries)"
  obtains per_file where
    "those (map (file_violations relative root (workspaceRoot ctx))
              (listTsFilesIn (featuresDir ctx) entries)) = Some per_file"
    and "cross_feature_main relative root ctx =
           (if concat per_file \<noteq> []
            then Some (Exit1 (''Cross-feature import verification failed (''
                               @ number_toString (length (concat per_file)) @ '' issue(s)):''
                               @ [CHR 0x0A])
                            (concat per_file))
            else Some (Exit0 (''OK: no cross-feature relative imports detected in ''
                               @ relative (workspaceRoot ctx) (featuresDir ctx) @ ''.'')))"
proof -
  have "parseSource root fp \<noteq> None" if "fp \<in> set (listTsFilesIn (featuresDir ctx) entries)" for fp
    using that parseSource_listed [OF assms] listTsFilesIn_subset by blast
  then obtain per_file where per:
    "those (map (file_violations relative root (workspaceRoot ctx))
              (listTsFilesIn (featuresDir ctx) entries)) = Some per_file"
    using those_map_Some [of "listTsFilesIn (featuresDir ctx) entries"
                             "file_violations relative root (workspaceRoot ctx)"]
      file_violations_total
    by blast
  moreover have "cross_feature_main relative root ctx =
           (if concat per_file \<noteq> []
            then Some (Exit1 (''Cross-feature import verification failed (''
                               @ number_toString (length (concat per_file)) @ '' issue(s)):''
                               @ [CHR 0x0A])
                            (concat per_file))
            else Some (Exit0 (''OK: no cross-feature relative imports detected in ''
                               @ relative (workspaceRoot ctx) (featuresDir ctx) @ ''.'')))"
    using assms(2)
    by (simp add: cross_feature_main_def existsSync_def readdirSync_def per Let_def)
  ultimately show thesis
    by (rule that)
qed

lemma cross_feature_main_flagged:
  assumes "wf_fs root" and "lookup root (featuresDir ctx) = Some (Directory entries)"
    and "fp \<in> set (listTsFilesIn (featuresDir ctx) entries)"
    and "featureOfFile fp = Some fromFeature" and "fromFeature \<noteq> []"
    and "parseSource root fp = Some sf" and "spec \<in> set (getImports sf)"
    and "m \<in> set (import_violations relative (workspaceRoot ctx) fp fromFeature spec)"
  shows "\<exists>header errors. cross_feature_main relative root ctx = Some (Exit1 header errors)
                          \<and> m \<in> set errors"
proof -
  obtain per_file where per:
    "those (map (file_violations relative root (workspaceRoot ctx))
              (listTsFilesIn (featuresDir ctx) entries)) = Some per_file"
    and main: "cross_feature_main relative root ctx =
           (if concat per_file \<noteq> []
            then Some (Exit1 (''Cross-feature import verification failed (''
                               @ number_toString (length (concat per_file)) @ '' issue(s)):''
                               @ [CHR 0x0A])
                            (concat per_file))
            else Some (Exit0 (''OK: no cross-feature relative imports detected in ''
                               @ relative (workspaceRoot ctx) (featuresDir ctx) @ ''.'')))"
    using assms(1,2) by (rule cross_feature_main_per_file)
  let ?vs = "concat (map (import_violations relative (workspaceRoot ctx) fp fromFeature)
                       (getImports sf))"
  have thisFile: "file_violations relative root (workspaceRoot ctx) fp = Some ?vs"
    using assms(4,5,6) by (simp add: file_violations_def)
  obtain vs where vs: "vs \<in> set per_file"
    "file_violations relative root (workspaceRoot ctx) fp = Some vs"
    using those_map_member [OF per assms(3)] by blast
  from vs(2) thisFile have "vs = ?vs"
    by simp
  moreover have "m \<in> set ?vs"
    unfolding set_concat set_map using assms(7,8) by blast
  ultimately have "m \<in> set vs"
    by simp
  with vs(1) have m: "m \<in> set (concat per_file)"
    unfolding set_concat by blast
  then have ne: "concat per_file \<noteq> []"
    by (cases "concat per_file") simp_all
  have "cross_feature_main relative root ctx =
          Some (Exit1 (''Cross-feature import verification failed (''
                         @ number_toString (length (concat per_file)) @ '' issue(s)):''
                         @ [CHR 0x0A])
                      (concat per_file))"
    unfolding main using ne by (simp only: if_True not_False_eq_True simp_thms)
  with m show ?thesis
    by blast
qed

lemma cross_feature_main_reported:
  assumes "lookup root (featuresDir ctx) = Some (Directory entries)"
    and "cross_feature_main relative root ctx = Some (Exit1 header errors)"
    and "m \<in> set errors"
  shows "\<exists>fp fromFeature sf spec.
           fp \<in> set (listTsFilesIn (featuresDir ctx) entries) \<and>
           featureOfFile fp = Some fromFeature \<and> parseSource root fp = Some sf \<and>
           spec \<in> set (getImports sf) \<and>
           m \<in> set (import_violations relative (workspaceRoot ctx) fp fromFeature spec)"
proof -
  from assms(1,2) obtain per_file where per:
    "those (map (file_violations relative root (workspaceRoot ctx))
              (listTsFilesIn (featuresDir ctx) entries)) = Some per_file"
    and errors: "errors = concat per_file"
    by (auto simp: cross_feature_main_def existsSync_def readdirSync_def Let_def
        split: option.splits if_splits)
  from assms(3) errors obtain vs where vs: "vs \<in> set per_file" "m \<in> set vs"
    by auto
  from those_map_elem [OF per vs(1)] obtain fp where
    fp: "fp \<in> set (listTsFilesIn (featuresDir ctx) entries)"
    and thisFile: "file_violations relative root (workspaceRoot ctx) fp = Some vs"
    by blast
  from thisFile vs(2) obtain fromFeature sf where
    "featureOfFile fp = Some fromFeature" "parseSource root fp = Some sf"
    "vs = concat (map (import_violations relative (workspaceRoot ctx) fp fromFeature)
                    (getImports sf))"
    by (auto simp: file_violations_def split: option.splits if_splits)
  with vs(2) fp show ?thesis
    by (simp add: set_concat) blast
qed

text \<open>
  A workspace with the features \<open>a\<close> and \<open>b\<close>. The file \<open>a.page.ts\<close> imports the
  package \<open>@angular/core\<close>, the file \<open>../b/b.data\<close> of the other feature and the file
  \<open>../a/a.models\<close> of its own feature.
\<close>

definition aPageSource :: node where
  "aPageSource =
     SourceFile
       [ImportDeclaration [Identifier ''Component''] (StringLiteral ''@angular/core'') [],
        ImportDeclaration [Identifier ''BData''] (StringLiteral ''../b/b.data'') [],
        ImportDeclaration [Identifier ''AModel''] (StringLiteral ''../a/a.models'') []]"

definition crossEntries :: "(string \<times> fsentry) list" where
  "crossEntries =
     [(''a'', Directory [(''a.page.ts'', File aPageSource),
                         (''a.models.ts'', File (SourceFile []))]),
      (''b'', Directory [(''b.data.ts'', File (SourceFile []))])]"

definition fsCross :: fsentry where
  "fsCross =
     workspaceTree
       [(''app.routes.ts'', File appRoutesSource), (''features'', Directory crossEntries)]"

lemma fsCross_facts:
  "wf_fs fsCross"
  "lookup fsCross (featuresDir exampleWorkspace) = Some (Directory crossEntries)"
  "listTsFilesIn (featuresDir exampleWorkspace) crossEntries
     = [''/w/src/app/features/a/a.page.ts'', ''/w/src/app/features/a/a.models.ts'',
        ''/w/src/app/features/b/b.data.ts'']"
  "parseSource fsCross ''/w/src/app/features/a/a.page.ts'' = Some aPageSource"
  "parseSource fsCross ''/w/src/app/features/a/a.models.ts'' = Some (SourceFile [])"
  "parseSource fsCross ''/w/src/app/features/b/b.data.ts'' = Some (SourceFile [])"
  by (simp_all add: fsCross_def crossEntries_def workspaceTree_def exampleWorkspace_fields path_eval)

lemma aPage_facts:
  "featureOfFile ''/w/src/app/features/a/a.page.ts'' = Some ''a''"
  "getImports aPageSource = [''@angular/core'', ''../b/b.data'', ''../a/a.models'']"
  "import_violations (\<lambda>from to. to) ''/w'' ''/w/src/app/features/a/a.page.ts'' ''a'' ''../b/b.data''
     = [''Cross-feature import is not allowed:'' @ [CHR 0x0A]
          @ ''  from: /w/src/app/features/a/a.page.ts (feature=a)'' @ [CHR 0x0A]
          @ ''  import: ../b/b.data'' @ [CHR 0x0A]
          @ ''  to-feature: b'']"
  "import_violations (\<lambda>from to. to) ''/w'' ''/w/src/app/features/a/a.page.ts'' ''a'' ''../a/a.models''
     = []"
  "import_violations (\<lambda>from to. to) ''/w'' ''/w/src/app/features/a/a.page.ts'' ''a'' ''@angular/core''
     = []"
  by (simp_all add: resolve_eval getImports_def aPageSource_def)

lemma cross_feature_main_fsCross:
  "cross_feature_main (\<lambda>from to. to) fsCross exampleWorkspace =
     Some (Exit1 (''Cross-feature import verification failed (1 issue(s)):'' @ [CHR 0x0A])
             [''Cross-feature import is not allowed:'' @ [CHR 0x0A]
                @ ''  from: /w/src/app/features/a/a.page.ts (feature=a)'' @ [CHR 0x0A]
                @ ''  import: ../b/b.data'' @ [CHR 0x0A]
                @ ''  to-feature: b''])"
proof -
  have files: "file_violations (\<lambda>from to. to) fsCross ''/w'' ''/w/src/app/features/a/a.page.ts''
          = Some [''Cross-feature import is not allowed:'' @ [CHR 0x0A]
                @ ''  from: /w/src/app/features/a/a.page.ts (feature=a)'' @ [CHR 0x0A]
                @ ''  import: ../b/b.data'' @ [CHR 0x0A]
                @ ''  to-feature: b'']"
    "file_violations (\<lambda>from to. to) fsCross ''/w'' ''/w/src/app/features/a/a.models.ts'' = Some []"
    "file_violations (\<lambda>from to. to) fsCross ''/w'' ''/w/src/app/features/b/b.data.ts'' = Some []"
    by (simp_all add: file_violations_def fsCross_facts(4,5,6) aPage_facts resolve_eval
        getImports_def [of "SourceFile []"])
  have "readdirSync fsCross ''/w/src/app/features'' = Some crossEntries"
    using fsCross_facts(2) by (simp add: readdirSync_def exampleWorkspace_fields)
  moreover have "existsSync fsCross ''/w/src/app/features''"
    using fsCross_facts(2) by (simp add: existsSync_def exampleWorkspace_fields)
  ultimately show ?thesis
    using fsCross_facts(3)
    by (simp add: cross_feature_main_def exampleWorkspace_fields files
        number_toString.simps digit_char_def)
qed

text \<open>
  Claim C6, as amended. An import of a file is flagged (the loop body pushes a message
  for it) if and only if the specifier starts with \<open>.\<close> and the path it resolves to,
  against the directory of the importing file, has a segment \<open>features\<close> followed by
  a non-empty segment (the one after the last segment \<open>features\<close>) that differs from
  the importing file's feature; every message pushed names the importing file's
  feature, the specifier and that segment. In a well-formed tree whose features
  directory is a directory, a flagged import of a listed file makes the checker end
  with status 1 with the message in its report, and every message of a report is that
  of a flagged import of a listed file. Whether the resolved path is below the features
  root of the workspace is not tested; the test \<open>resolved.includes('features/')\<close>
  follows from the rest.
\<close>

theorem cross_feature_flagged_iff:
  assumes "wf_fs root" and "lookup root (featuresDir ctx) = Some (Directory entries)"
  shows
  "(import_violations relative wsRoot fp fromFeature spec \<noteq> [] \<longleftrightarrow>
      startsWith spec ''.'' \<and>
      (\<exists>t. featureSegment (path_resolve (path_dirname fp) spec) t \<and> t \<noteq> [] \<and> t \<noteq> fromFeature)) \<and>
   (\<forall>m \<in> set (import_violations relative wsRoot fp fromFeature spec).
      \<exists>t. featureSegment (path_resolve (path_dirname fp) spec) t \<and>
          m = cross_feature_message (relative wsRoot fp) fromFeature spec t) \<and>
   (fp \<in> set (listTsFilesIn (featuresDir ctx) entries) \<and>
    featureOfFile fp = Some fromFeature \<and> fromFeature \<noteq> [] \<and>
    parseSource root fp = Some sf \<and> spec \<in> set (getImports sf) \<and>
    m \<in> set (import_violations relative (workspaceRoot ctx) fp fromFeature spec) \<longrightarrow>
    (\<exists>header errors.
        cross_feature_main relative root ctx = Some (Exit1 header errors) \<and> m \<in> set errors)) \<and>
   (cross_feature_main relative root ctx = Some (Exit1 header errors) \<and> m' \<in> set errors \<longrightarrow>
    (\<exists>fp' fromFeature' sf' spec'.
        fp' \<in> set (listTsFilesIn (featuresDir ctx) entries) \<and>
        featureOfFile fp' = Some fromFeature' \<and> parseSource root fp' = Some sf' \<and>
        spec' \<in> set (getImports sf') \<and>
        m' \<in> set (import_violations relative (workspaceRoot ctx) fp' fromFeature' spec')))"
proof (intro conjI)
  show "import_violations relative wsRoot fp fromFeature spec \<noteq> [] \<longleftrightarrow>
      startsWith spec ''.'' \<and>
      (\<exists>t. featureSegment (path_resolve (path_dirname fp) spec) t \<and> t \<noteq> [] \<and> t \<noteq> fromFeature)"
    by (auto simp: import_violations_eq featureOfFile_Some [symmetric] split: option.splits)
  show "\<forall>m \<in> set (import_violations relative wsRoot fp fromFeature spec).
      \<exists>t. featureSegment (path_resolve (path_dirname fp) spec) t \<and>
          m = cross_feature_message (relative wsRoot fp) fromFeature spec t"
    by (cases "startsWith spec ''.''";
        cases "featureOfFile (path_resolve (path_dirname fp) spec)")
       (simp_all add: import_violations_eq featureOfFile_Some [symmetric])
  show "fp \<in> set (listTsFilesIn (featuresDir ctx) entries) \<and>
    featureOfFile fp = Some fromFeature \<and> fromFeature \<noteq> [] \<and>
    parseSource root fp = Some sf \<and> spec \<in> set (getImports sf) \<and>
    m \<in> set (import_violations relative (workspaceRoot ctx) fp fromFeature spec) \<longrightarrow>
    (\<exists>header errors.
        cross_feature_main relative root ctx = Some (Exit1 header errors) \<and> m \<in> set errors)"
    using cross_feature_main_flagged [OF assms, of fp fromFeature sf spec m relative]
    by blast
  show "cross_feature_main relative root ctx = Some (Exit1 header errors) \<and> m' \<in> set errors \<longrightarrow>
    (\<exists>fp' fromFeature' sf' spec'.
        fp' \<in> set (listTsFilesIn (featuresDir ctx) entries) \<and>
        featureOfFile fp' = Some fromFeature' \<and> parseSource root fp' = Some sf' \<and>
        spec' \<in> set (getImports sf') \<and>
        m' \<in> set (import_violations relative (workspaceRoot ctx) fp' fromFeature' spec'))"
    using cross_feature_main_reported [OF assms(2), of relative header errors m']
    by blast
qed

text \<open>
  Claim C6 at \<open>fsCross\<close>: the checker fails, and its report is the one message for the
  import of \<open>../b/b.data\<close>, from feature \<open>a\<close> to feature \<open>b\<close>; the imports of
  \<open>../a/a.models\<close> and of the package \<open>@angular/core\<close> are not flagged.
\<close>

theorem cross_feature_flagged_iff_witness:
  "(\<exists>header errors.
      cross_feature_main (\<lambda>from to. to) fsCross exampleWorkspace = Some (Exit1 header errors) \<and>
      ''Cross-feature import is not allowed:'' @ [CHR 0x0A]
          @ ''  from: /w/src/app/features/a/a.page.ts (feature=a)'' @ [CHR 0x0A]
          @ ''  import: ../b/b.data'' @ [CHR 0x0A]
          @ ''  to-feature: b'' \<in> set errors \<and>
      length errors = 1) \<and>
   import_violations (\<lambda>from to. to) ''/w'' ''/w/src/app/features/a/a.page.ts'' ''a'' ''../a/a.models''
     = [] \<and>
   import_violations (\<lambda>from to. to) ''/w'' ''/w/src/app/features/a/a.page.ts'' ''a'' ''@angular/core''
     = []"
proof -
  let ?m = "''Cross-feature import is not allowed:'' @ [CHR 0x0A]
          @ ''  from: /w/src/app/features/a/a.page.ts (feature=a)'' @ [CHR 0x0A]
          @ ''  import: ../b/b.data'' @ [CHR 0x0A]
          @ ''  to-feature: b''"
  have "\<exists>header errors.
      cross_feature_main (\<lambda>from to. to) fsCross exampleWorkspace = Some (Exit1 header errors) \<and>
      ?m \<in> set errors"
    using cross_feature_flagged_iff
            [OF fsCross_facts(1,2), of "\<lambda>from to. to" "''/w''"
                "''/w/src/app/features/a/a.page.ts''" "''a''" "''../b/b.data''" aPageSource ?m]
    by (simp add: fsCross_facts(3,4) aPage_facts exampleWorkspace_fields(1))
  then show ?thesis
    by (simp add: cross_feature_main_fsCross aPage_facts(4,5))
qed

section \<open>What the structure checker reports for incomplete features\<close>

text \<open>
  The four required files of a feature, and those of them that are absent from the
  directory of the feature \<open>f\<close> under \<open>dir\<close>: the terms in which the specification
  speaks of a feature with missing files.
\<close>

definition requiredFiles :: "string \<Rightarrow> string list" where
  "requiredFiles f = [f @ ''.routes.ts'', f @ ''.page.ts'', f @ ''.data.ts'', f @ ''.state.ts'']"

definition absentRequiredFiles :: "fsentry \<Rightarrow> string \<Rightarrow> string \<Rightarrow> string list" where
  "absentRequiredFiles root dir f =
     filter (\<lambda>m. lookup root (path_join (path_join dir f) m) = None) (requiredFiles f)"

lemma verifyFeatureFolder_absent:
  "verifyFeatureFolder root (path_join dir f) f = absentRequiredFiles root dir f"
  by (simp add: verifyFeatureFolder_def absentRequiredFiles_def requiredFiles_def existsSync_def)

lemma feature_folder_errors_absent:
  "feature_folder_errors root dir names =
     map (\<lambda>g. missing_files_message (path_join dir g) g (absentRequiredFiles root dir g))
       (filter (\<lambda>g. absentRequiredFiles root dir g \<noteq> []) names)"
  by (induction names) (simp_all add: Let_def verifyFeatureFolder_absent)

lemma verifyFeatureRouteProviders_total:
  assumes "routesFileReadable root dir f"
  shows "verifyFeatureRouteProviders root (path_join dir f) f \<noteq> None"
proof (cases "existsSync root (featureRoutesFile dir f)")
  case True
  with assms obtain sf where "parseSource root (featureRoutesFile dir f) = Some sf"
    using readable_parseSource [of root "featureRoutesFile dir f"]
    by (auto simp: routesFileReadable_def)
  with True show ?thesis
    by (simp add: verifyFeatureRouteProviders_def featureRoutesFile_def Let_def)
next
  case False
  then show ?thesis
    by (simp add: verifyFeatureRouteProviders_def featureRoutesFile_def Let_def)
qed

lemma app_tree_errors_total_features:
  assumes "wf_fs root" and "lookup root (appRoot ctx) = Some (Directory es)"
    and "list_all (routesFileReadable root (featuresDir ctx)) featureNames"
  shows "\<exists>tree. app_tree_errors root ctx featureNames = Some tree"
proof -
  let ?appFiles = "filter (\<lambda>fp. endsWith fp ''.ts'') (listFilesIn (appRoot ctx) es)"
  have listed: "listFilesRecursive root (appRoot ctx) = Some (listFilesIn (appRoot ctx) es)"
    using assms(2) by (simp add: listFilesRecursive_def readdirSync_def)
  have parses: "parseSource root fp \<noteq> None" if "fp \<in> set ?appFiles" for fp
    using that parseSource_listed [OF assms(1,2)] by simp
  obtain http where http: "verifyNoHttpClientInDisallowedFiles root ?appFiles = Some http"
    using those_map_Some [of ?appFiles "httpClient_file_errors root"]
      httpClient_file_errors_total parses
    by (auto simp: verifyNoHttpClientInDisallowedFiles_def)
  obtain provided where provided:
    "verifyNoProvidedInRootInFeatures root ?appFiles (featuresDir ctx) = Some provided"
    using those_map_Some [of ?appFiles "providedIn_file_errors root (featuresDir ctx)"]
      providedIn_file_errors_total parses
    by (auto simp: verifyNoProvidedInRootInFeatures_def)
  obtain providers where providers:
    "those (map (\<lambda>f. verifyFeatureRouteProviders root (path_join (featuresDir ctx) f) f)
              featureNames) = Some providers"
    using those_map_Some [of featureNames
             "\<lambda>f. verifyFeatureRouteProviders root (path_join (featuresDir ctx) f) f"]
      verifyFeatureRouteProviders_total assms(3)
    by (auto simp: list_all_iff)
  show ?thesis
    by (simp add: app_tree_errors_def listed http provided providers)
qed

lemma listDirs_nonempty:
  "listDirs root dir = Some names \<Longrightarrow> names \<noteq> [] \<Longrightarrow> existsSync root dir"
  by (auto simp: listDirs_def split: if_splits)

lemma join_member:
  "x \<in> set xs \<Longrightarrow> \<exists>a c. join sep xs = a @ x @ c"
proof (induction sep xs rule: join.induct)
  case (1 sep)
  then show ?case by simp
next
  case (2 sep y)
  then have "join sep [y] = [] @ x @ []"
    by simp
  then show ?case
    by blast
next
  case (3 sep y z zs)
  show ?case
  proof (cases "x = y")
    case True
    then have "join sep (y # z # zs) = [] @ x @ (sep @ join sep (z # zs))"
      by simp
    then show ?thesis
      by blast
  next
    case False
    with "3.prems" have "x \<in> set (z # zs)"
      by simp
    with "3.IH" obtain a c where "join sep (z # zs) = a @ x @ c"
      by blast
    then have "join sep (y # z # zs) = (y @ sep @ a) @ x @ c"
      by simp
    then show ?thesis
      by blast
  qed
qed

lemma missing_files_message_lists:
  assumes "m \<in> set missing"
  shows "includes_str (missing_files_message featureDir f missing)
           (''  - '' @ path_join featureDir m)"
proof -
  from assms have "''  - '' @ path_join featureDir m
      \<in> set (map (\<lambda>m. ''  - '' @ path_join featureDir m) missing)"
    by simp
  then obtain a c where
    "join [CHR 0x0A] (map (\<lambda>m. ''  - '' @ path_join featureDir m) missing)
       = a @ (''  - '' @ path_join featureDir m) @ c"
    using join_member by blast
  then have "missing_files_message featureDir f missing
      = (''Feature \"'' @ f @ ''\" missing required files:'' @ [CHR 0x0A] @ a)
          @ (''  - '' @ path_join featureDir m) @ c"
    by (simp add: missing_files_message_def)
  then show ?thesis
    using includes_str_infix
            [of "''Feature \"'' @ f @ ''\" missing required files:'' @ [CHR 0x0A] @ a"
                "''  - '' @ path_join featureDir m" c]
    by simp
qed

text \<open>
  Claim C7, as amended. In a well-formed tree in which no file-system call of the
  checker throws (the app root is a directory or absent, \<open>app.routes.ts\<close> is a regular
  file or absent, the routes file of each feature is a regular file or absent), if some
  feature directory lacks one of its four required files \<open>f.routes.ts\<close>,
  \<open>f.page.ts\<close>, \<open>f.data.ts\<close>, \<open>f.state.ts\<close>, then the structure checker ends with
  status 1, and its report is: the message that the app root was not found, if it was
  not; then one message for each feature that lacks a required file, in the order of
  the listing, built from the required files that this feature lacks; then what the
  check of \<open>app.routes.ts\<close> and the checks of the app tree returned. The message of a
  feature contains the path of each required file that the feature lacks. So a feature
  that lacks two files has one message, and \<open>M\<close> features that lack files have \<open>M\<close>
  messages.
\<close>

theorem one_violation_per_incomplete_feature:
  assumes "wf_fs root"
    and "listDirs root (featuresDir ctx) = Some featureNames"
    and "lookup root (appRoot ctx) = None \<or> (\<exists>es. lookup root (appRoot ctx) = Some (Directory es))"
    and "lookup root (appRoutesFile ctx) = None
         \<or> (\<exists>sf. lookup root (appRoutesFile ctx) = Some (File sf))"
    and "list_all (routesFileReadable root (featuresDir ctx)) featureNames"
    and "f \<in> set featureNames"
    and "absentRequiredFiles root (featuresDir ctx) f \<noteq> []"
  shows "(\<exists>header static tree.
            verifyNoStaticPageImportsInAppRoutes root (appRoutesFile ctx) = Some static \<and>
            (if existsSync root (appRoot ctx) then app_tree_errors root ctx featureNames
             else Some []) = Some tree \<and>
            structure_main relative root ctx =
              Some (Exit1 header
                ((if existsSync root (appRoot ctx) then []
                  else [''App root not found: '' @ appRoot ctx])
                 @ map (\<lambda>g. missing_files_message (path_join (featuresDir ctx) g) g
                              (absentRequiredFiles root (featuresDir ctx) g))
                     (filter (\<lambda>g. absentRequiredFiles root (featuresDir ctx) g \<noteq> []) featureNames)
                 @ static @ tree))) \<and>
         (m \<in> set (absentRequiredFiles root (featuresDir ctx) g) \<longrightarrow>
            includes_str
              (missing_files_message (path_join (featuresDir ctx) g) g
                 (absentRequiredFiles root (featuresDir ctx) g))
              (''  - '' @ path_join (path_join (featuresDir ctx) g) m))"
proof (intro conjI)
  from assms(6) have names: "featureNames \<noteq> []"
    by auto
  with assms(2) have features: "existsSync root (featuresDir ctx)"
    by (rule listDirs_nonempty)
  obtain static where static:
    "verifyNoStaticPageImportsInAppRoutes root (appRoutesFile ctx) = Some static"
    using verifyNoStaticPageImports_total [OF assms(4)] by blast
  have "\<exists>tree. (if existsSync root (appRoot ctx) then app_tree_errors root ctx featureNames
                 else Some []) = Some tree"
  proof (cases "existsSync root (appRoot ctx)")
    case True
    with assms(3) obtain es where "lookup root (appRoot ctx) = Some (Directory es)"
      by (auto simp: existsSync_def)
    with True show ?thesis
      using app_tree_errors_total_features [OF assms(1) _ assms(5), of es] by simp
  next
    case False
    then show ?thesis
      by simp
  qed
  then obtain tree where tree:
    "(if existsSync root (appRoot ctx) then app_tree_errors root ctx featureNames
      else Some []) = Some tree"
    by blast
  let ?folders = "map (\<lambda>g. missing_files_message (path_join (featuresDir ctx) g) g
                              (absentRequiredFiles root (featuresDir ctx) g))
                     (filter (\<lambda>g. absentRequiredFiles root (featuresDir ctx) g \<noteq> []) featureNames)"
  let ?errors = "(if existsSync root (appRoot ctx) then []
                  else [''App root not found: '' @ appRoot ctx]) @ ?folders @ static @ tree"
  have "structure_errors root ctx featureNames = Some ?errors"
    using names features
    by (simp add: structure_errors_def static tree feature_folder_errors_absent)
  then obtain errs where errors: "structure_errors root ctx featureNames = Some errs"
    and errs: "errs = ?errors"
    by blast
  from assms(6,7) have "f \<in> set (filter (\<lambda>g. absentRequiredFiles root (featuresDir ctx) g \<noteq> [])
                                    featureNames)"
    by simp
  then have "?folders \<noteq> []"
    by (cases "filter (\<lambda>g. absentRequiredFiles root (featuresDir ctx) g \<noteq> []) featureNames")
       simp_all
  then have "errs \<noteq> []"
    unfolding errs by simp
  then have "structure_main relative root ctx =
          Some (Exit1 (''Structure verification failed (''
                         @ number_toString (length errs) @ '' issue(s)):'' @ [CHR 0x0A])
                  errs)"
    by (simp add: structure_main_def assms(2) errors)
  with static tree errs show "\<exists>header static tree.
            verifyNoStaticPageImportsInAppRoutes root (appRoutesFile ctx) = Some static \<and>
            (if existsSync root (appRoot ctx) then app_tree_errors root ctx featureNames
             else Some []) = Some tree \<and>
            structure_main relative root ctx =
              Some (Exit1 header
                ((if existsSync root (appRoot ctx) then []
                  else [''App root not found: '' @ appRoot ctx])
                 @ map (\<lambda>g. missing_files_message (path_join (featuresDir ctx) g) g
                              (absentRequiredFiles root (featuresDir ctx) g))
                     (filter (\<lambda>g. absentRequiredFiles root (featuresDir ctx) g \<noteq> []) featureNames)
                 @ static @ tree))"
    by blast
  show "m \<in> set (absentRequiredFiles root (featuresDir ctx) g) \<longrightarrow>
            includes_str
              (missing_files_message (path_join (featuresDir ctx) g) g
                 (absentRequiredFiles root (featuresDir ctx) g))
              (''  - '' @ path_join (path_join (featuresDir ctx) g) m)"
    using missing_files_message_lists by blast
qed

text \<open>
  A workspace with three features: \<open>a\<close> has its routes and state files and neither
  \<open>a.page.ts\<close> nor \<open>a.data.ts\<close>, \<open>c\<close> has its four files, \<open>b\<close> has no
  \<open>b.state.ts\<close>.
\<close>

definition featureRoutesSource :: node where
  "featureRoutesSource =
     routesFileOf ''ROUTES'' [ObjectLiteralExpression (homeRouteWithProviders homeProviders)]"

definition incompleteEntries :: "(string \<times> fsentry) list" where
  "incompleteEntries =
     [(''a'', Directory [(''a.routes.ts'', File featureRoutesSource),
                         (''a.state.ts'', File (SourceFile []))]),
      (''c'', Directory [(''c.routes.ts'', File featureRoutesSource),
                         (''c.page.ts'', File (SourceFile [])),
                         (''c.data.ts'', File (SourceFile [])),
                         (''c.state.ts'', File (SourceFile []))]),
      (''b'', Directory [(''b.routes.ts'', File featureRoutesSource),
                         (''b.page.ts'', File (SourceFile [])),
                         (''b.data.ts'', File (SourceFile []))])]"

definition fsIncomplete :: fsentry where
  "fsIncomplete =
     workspaceTree
       [(''app.routes.ts'', File appRoutesSource), (''features'', Directory incompleteEntries)]"

lemma fsIncomplete_facts:
  "wf_fs fsIncomplete"
  "listDirs fsIncomplete (featuresDir exampleWorkspace) = Some [''a'', ''c'', ''b'']"
  "lookup fsIncomplete (appRoot exampleWorkspace)
     = Some (Directory [(''app.routes.ts'', File appRoutesSource),
                        (''features'', Directory incompleteEntries)])"
  "lookup fsIncomplete (appRoutesFile exampleWorkspace) = Some (File appRoutesSource)"
  "list_all (routesFileReadable fsIncomplete (featuresDir exampleWorkspace)) [''a'', ''c'', ''b'']"
  "absentRequiredFiles fsIncomplete (featuresDir exampleWorkspace) ''a'' = [''a.page.ts'', ''a.data.ts'']"
  "absentRequiredFiles fsIncomplete (featuresDir exampleWorkspace) ''c'' = []"
  "absentRequiredFiles fsIncomplete (featuresDir exampleWorkspace) ''b'' = [''b.state.ts'']"
  by (simp_all add: fsIncomplete_def incompleteEntries_def workspaceTree_def
      exampleWorkspace_fields path_eval routesFileReadable_def featureRoutesFile_def
      absentRequiredFiles_def requiredFiles_def)

lemma fsIncomplete_sources:
  "parseSource fsIncomplete ''/w/src/app/app.routes.ts'' = Some appRoutesSource"
  "parseSource fsIncomplete ''/w/src/app/features/a/a.routes.ts'' = Some featureRoutesSource"
  "parseSource fsIncomplete ''/w/src/app/features/c/c.routes.ts'' = Some featureRoutesSource"
  "parseSource fsIncomplete ''/w/src/app/features/b/b.routes.ts'' = Some featureRoutesSource"
  "parseSource fsIncomplete ''/w/src/app/features/a/a.state.ts'' = Some (SourceFile [])"
  "parseSource fsIncomplete ''/w/src/app/features/c/c.page.ts'' = Some (SourceFile [])"
  "parseSource fsIncomplete ''/w/src/app/features/c/c.data.ts'' = Some (SourceFile [])"
  "parseSource fsIncomplete ''/w/src/app/features/c/c.state.ts'' = Some (SourceFile [])"
  "parseSource fsIncomplete ''/w/src/app/features/b/b.page.ts'' = Some (SourceFile [])"
  "parseSource fsIncomplete ''/w/src/app/features/b/b.data.ts'' = Some (SourceFile [])"
  "listFilesRecursive fsIncomplete ''/w/src/app''
     = Some [''/w/src/app/app.routes.ts'',
             ''/w/src/app/features/a/a.routes.ts'', ''/w/src/app/features/a/a.state.ts'',
             ''/w/src/app/features/c/c.routes.ts'', ''/w/src/app/features/c/c.page.ts'',
             ''/w/src/app/features/c/c.data.ts'', ''/w/src/app/features/c/c.state.ts'',
             ''/w/src/app/features/b/b.routes.ts'', ''/w/src/app/features/b/b.page.ts'',
             ''/w/src/app/features/b/b.data.ts'']"
  by (simp_all add: fsIncomplete_def incompleteEntries_def workspaceTree_def path_eval)

lemma featureRoutesSource_facts:
  "findExportedRoutesArrays featureRoutesSource
     = [(''ROUTES'', [ObjectLiteralExpression (homeRouteWithProviders homeProviders)])]"
  "routeObjectHasProviders (homeRouteWithProviders homeProviders)"
  "\<not> fileContainsIdentifier featureRoutesSource ''providedIn''"
  "getImports featureRoutesSource = [''@angular/router'']"
  "getImports (SourceFile []) = []"
  "\<not> fileContainsIdentifier (SourceFile []) ''providedIn''"
  by (simp_all add: featureRoutesSource_def routesFileOf_def findExportedRoutesArrays.simps
      homeRouteWithProviders_def homeProviders_def lazyImport_def getImports_def
      fileContainsIdentifier_def visit_find.simps)

lemma structure_main_fsIncomplete:
  "structure_main (\<lambda>from to. to) fsIncomplete exampleWorkspace =
     Some (Exit1 (''Structure verification failed (2 issue(s)):'' @ [CHR 0x0A])
             [''Feature \"a\" missing required files:'' @ [CHR 0x0A]
                @ ''  - /w/src/app/features/a/a.page.ts'' @ [CHR 0x0A]
                @ ''  - /w/src/app/features/a/a.data.ts'',
              ''Feature \"b\" missing required files:'' @ [CHR 0x0A]
                @ ''  - /w/src/app/features/b/b.state.ts''])"
proof -
  have static: "verifyNoStaticPageImportsInAppRoutes fsIncomplete ''/w/src/app/app.routes.ts''
                  = Some []"
    using fsIncomplete_facts(4)
    by (simp add: verifyNoStaticPageImportsInAppRoutes_def existsSync_def
        fsIncomplete_sources(1) getImports_appRoutesSource startsWith_def exampleWorkspace_fields)
  have providers:
    "verifyFeatureRouteProviders fsIncomplete ''/w/src/app/features/a'' ''a'' = Some []"
    "verifyFeatureRouteProviders fsIncomplete ''/w/src/app/features/c'' ''c'' = Some []"
    "verifyFeatureRouteProviders fsIncomplete ''/w/src/app/features/b'' ''b'' = Some []"
    using fsIncomplete_sources(2,3,4)
    by (simp_all add: verifyFeatureRouteProviders_def path_join_def existsSync_def parseSource_def
        featureRoutesSource_facts(1,2) split: option.splits fsentry.splits)
  have http: "httpClient_file_errors fsIncomplete fp = Some []"
    if "parseSource fsIncomplete fp = Some (SourceFile [])
        \<or> parseSource fsIncomplete fp = Some featureRoutesSource
        \<or> parseSource fsIncomplete fp = Some appRoutesSource" for fp
    using that
    by (auto simp: httpClient_file_errors_def featureRoutesSource_facts(4,5)
        getImports_appRoutesSource)
  have appRoutes: "\<not> fileContainsIdentifier appRoutesSource ''providedIn''"
    by (simp add: fileContainsIdentifier_def visit_find.simps appRoutesSource_def
        exampleRedirectRoute_def exampleHomeRoute_def exampleWildcardRoute_def lazyImport_def)
  have provided: "providedIn_file_errors fsIncomplete dir fp = Some []"
    if "parseSource fsIncomplete fp = Some (SourceFile [])
        \<or> parseSource fsIncomplete fp = Some featureRoutesSource
        \<or> parseSource fsIncomplete fp = Some appRoutesSource" for fp dir
    using that
    by (auto simp: providedIn_file_errors_def featureRoutesSource_facts(3,6) appRoutes)
  have tree: "app_tree_errors fsIncomplete exampleWorkspace [''a'', ''c'', ''b''] = Some []"
    by (simp add: app_tree_errors_def exampleWorkspace_fields fsIncomplete_sources(11)
        verifyNoHttpClientInDisallowedFiles_def verifyNoProvidedInRootInFeatures_def
        http provided fsIncomplete_sources(1-10) endsWith_def startsWith_def)
       (simp add: path_join_def providers)
  have folders: "feature_folder_errors fsIncomplete ''/w/src/app/features'' [''a'', ''c'', ''b'']
      = [''Feature \"a\" missing required files:'' @ [CHR 0x0A]
                @ ''  - /w/src/app/features/a/a.page.ts'' @ [CHR 0x0A]
                @ ''  - /w/src/app/features/a/a.data.ts'',
              ''Feature \"b\" missing required files:'' @ [CHR 0x0A]
                @ ''  - /w/src/app/features/b/b.state.ts'']"
    using fsIncomplete_facts(6,7,8)
    by (simp add: feature_folder_errors_absent exampleWorkspace_fields missing_files_message_def
        path_join_def)
  have errors: "structure_errors fsIncomplete exampleWorkspace [''a'', ''c'', ''b''] =
     Some [''Feature \"a\" missing required files:'' @ [CHR 0x0A]
                @ ''  - /w/src/app/features/a/a.page.ts'' @ [CHR 0x0A]
                @ ''  - /w/src/app/features/a/a.data.ts'',
              ''Feature \"b\" missing required files:'' @ [CHR 0x0A]
                @ ''  - /w/src/app/features/b/b.state.ts'']"
    using fsIncomplete_facts(3) listDirs_nonempty [OF fsIncomplete_facts(2)]
    by (simp add: structure_errors_def exampleWorkspace_fields static tree existsSync_def folders
        del: feature_folder_errors.simps)
  show ?thesis
    by (simp add: structure_main_def fsIncomplete_facts(2) errors
        number_toString.simps digit_char_def)
qed

text \<open>
  Claim C7 at \<open>fsIncomplete\<close>: the report starts with one message for the feature
  \<open>a\<close>, which lacks two files, and one for the feature \<open>b\<close>; there is none for the
  complete feature \<open>c\<close>; and these two messages are the whole report.
\<close>

theorem one_violation_per_incomplete_feature_witness:
  "(\<exists>header rest.
      structure_main (\<lambda>from to. to) fsIncomplete exampleWorkspace =
        Some (Exit1 header
          ([''Feature \"a\" missing required files:'' @ [CHR 0x0A]
              @ ''  - /w/src/app/features/a/a.page.ts'' @ [CHR 0x0A]
              @ ''  - /w/src/app/features/a/a.data.ts'',
            ''Feature \"b\" missing required files:'' @ [CHR 0x0A]
              @ ''  - /w/src/app/features/b/b.state.ts''] @ rest))) \<and>
   structure_main (\<lambda>from to. to) fsIncomplete exampleWorkspace =
     Some (Exit1 (''Structure verification failed (2 issue(s)):'' @ [CHR 0x0A])
             [''Feature \"a\" missing required files:'' @ [CHR 0x0A]
                @ ''  - /w/src/app/features/a/a.page.ts'' @ [CHR 0x0A]
                @ ''  - /w/src/app/features/a/a.data.ts'',
              ''Feature \"b\" missing required files:'' @ [CHR 0x0A]
                @ ''  - /w/src/app/features/b/b.state.ts''])"
proof -
  have appRoot: "lookup fsIncomplete (appRoot exampleWorkspace) = None
      \<or> (\<exists>es. lookup fsIncomplete (appRoot exampleWorkspace) = Some (Directory es))"
    by (simp add: fsIncomplete_facts(3))
  have appRoutes: "lookup fsIncomplete (appRoutesFile exampleWorkspace) = None
      \<or> (\<exists>sf. lookup fsIncomplete (appRoutesFile exampleWorkspace) = Some (File sf))"
    by (simp add: fsIncomplete_facts(4))
  have a: "''a'' \<in> set [''a'', ''c'', ''b'']"
    "absentRequiredFiles fsIncomplete (featuresDir exampleWorkspace) ''a'' \<noteq> []"
    by (simp_all add: fsIncomplete_facts(6))
  have present: "existsSync fsIncomplete (appRoot exampleWorkspace)"
    by (simp add: existsSync_def fsIncomplete_facts(3))
  have messages:
    "map (\<lambda>g. missing_files_message (path_join (featuresDir exampleWorkspace) g) g
                 (absentRequiredFiles fsIncomplete (featuresDir exampleWorkspace) g))
       (filter (\<lambda>g. absentRequiredFiles fsIncomplete (featuresDir exampleWorkspace) g \<noteq> [])
          [''a'', ''c'', ''b''])
     = [''Feature \"a\" missing required files:'' @ [CHR 0x0A]
              @ ''  - /w/src/app/features/a/a.page.ts'' @ [CHR 0x0A]
              @ ''  - /w/src/app/features/a/a.data.ts'',
            ''Feature \"b\" missing required files:'' @ [CHR 0x0A]
              @ ''  - /w/src/app/features/b/b.state.ts'']"
    by (simp add: fsIncomplete_facts(6,7,8) missing_files_message_def)
       (simp add: exampleWorkspace_fields path_join_def)
  have "\<exists>header static tree.
      structure_main (\<lambda>from to. to) fsIncomplete exampleWorkspace =
        Some (Exit1 header
          ([''Feature \"a\" missing required files:'' @ [CHR 0x0A]
              @ ''  - /w/src/app/features/a/a.page.ts'' @ [CHR 0x0A]
              @ ''  - /w/src/app/features/a/a.data.ts'',
            ''Feature \"b\" missing required files:'' @ [CHR 0x0A]
              @ ''  - /w/src/app/features/b/b.state.ts''] @ static @ tree))"
    using one_violation_per_incomplete_feature
            [OF fsIncomplete_facts(1,2) appRoot appRoutes fsIncomplete_facts(5) a,
             of "\<lambda>from to. to"]
    unfolding messages if_P [OF present] append_Nil
    by blast
  then have "\<exists>header rest.
      structure_main (\<lambda>from to. to) fsIncomplete exampleWorkspace =
        Some (Exit1 header
          ([''Feature \"a\" missing required files:'' @ [CHR 0x0A]
              @ ''  - /w/src/app/features/a/a.page.ts'' @ [CHR 0x0A]
              @ ''  - /w/src/app/features/a/a.data.ts'',
            ''Feature \"b\" missing required files:'' @ [CHR 0x0A]
              @ ''  - /w/src/app/features/b/b.state.ts''] @ rest))"
    by blast
  then show ?thesis
    using structure_main_fsIncomplete by blast
qed

end
